(* ===== verification/Prelude.thy ===== *)
theory Prelude
  imports Main "HOL-Library.Word"
begin

text \<open>
  Shared vocabulary of the Medqueue development: the JavaScript values that cross the
  HTTP boundary (a JSON value type), JavaScript truthiness, \<open>String.prototype.trim\<close>,
  decimal printing of numbers, \<open>padStart\<close>, \<open>Array.prototype.findIndex\<close> and
  \<open>Math.floor(Math.random() * k)\<close>, with the generic lemmas the component theories
  share. Nothing here is specific to one component.
\<close>

named_theorems js_simps "evaluation rules of the JavaScript helper functions"

section \<open>JSON values and JavaScript truthiness\<close>

text \<open>
  A request body field is a JSON value parsed by \<open>express.json()\<close>. A missing field is
  \<open>undefined\<close>; both it and \<open>null\<close> are \<open>JNull\<close> here, since the code only ever tests
  them for truthiness. Numbers are integers (the code never receives fractions it acts on).
\<close>

datatype jval = JNull | JBool bool | JNum int | JStr string | JArr "jval list"
  | JObj "(string \<times> jval) list"

fun js_truthy :: "jval \<Rightarrow> bool" where
  "js_truthy JNull = False"
| "js_truthy (JBool b) = b"
| "js_truthy (JNum n) = (n \<noteq> 0)"
| "js_truthy (JStr s) = (s \<noteq> [])"
| "js_truthy (JArr _) = True"
| "js_truthy (JObj _) = True"

text \<open>\<open>obj.hasOwnProperty(k)\<close> and \<open>obj[k]\<close> on a parsed JSON object: a later duplicate key
  overrides an earlier one, as \<open>JSON.parse\<close> does.\<close>

definition obj_get :: "(string \<times> jval) list \<Rightarrow> string \<Rightarrow> jval" where
  "obj_get kvs k = (case map_of (rev kvs) k of None \<Rightarrow> JNull | Some v \<Rightarrow> v)"

definition has_own :: "(string \<times> jval) list \<Rightarrow> string \<Rightarrow> bool" where
  "has_own kvs k = (k \<in> set (map fst kvs))"

section \<open>Decimal printing and parsing\<close>

text \<open>\<open>Number.prototype.toString()\<close> on a non-negative integer, and its inverse.\<close>

definition digit_char :: "nat \<Rightarrow> char" where
  "digit_char d = char_of (48 + d)"

fun nat_str :: "nat \<Rightarrow> string" where
  "nat_str n = (if n < 10 then [digit_char n] else nat_str (n div 10) @ [digit_char (n mod 10)])"

declare nat_str.simps [simp del]

definition int_str :: "int \<Rightarrow> string" where
  "int_str i = (if i < 0 then CHR ''-'' # nat_str (nat (- i)) else nat_str (nat i))"

definition dec_digit :: "char \<Rightarrow> bool" where
  "dec_digit c \<longleftrightarrow> (48::nat) \<le> of_char c \<and> of_char c < (58::nat)"

definition digit_val :: "char \<Rightarrow> nat" where
  "digit_val c = of_char c - 48"

definition parse_nat :: "string \<Rightarrow> nat" where
  "parse_nat s = foldl (\<lambda>acc c. 10 * acc + digit_val c) 0 s"

section \<open>Strings\<close>

text \<open>\<open>s.padStart(n, c)\<close> with a one-character filler.\<close>

definition pad_start :: "nat \<Rightarrow> char \<Rightarrow> string \<Rightarrow> string" where
  "pad_start n c s = replicate (n - length s) c @ s"

text \<open>\<open>String.prototype.trim\<close> on the ASCII range: tab, line feed, vertical tab, form feed,
  carriage return and space.\<close>

definition js_ws :: "char \<Rightarrow> bool" where
  "js_ws c \<longleftrightarrow> of_char c \<in> {9, 10, 11, 12, 13, 32::nat}"

definition trim :: "string \<Rightarrow> string" where
  "trim s = rev (dropWhile js_ws (rev (dropWhile js_ws s)))"

text \<open>\<open>xs.join(sep)\<close> on strings.\<close>

fun join_with :: "string \<Rightarrow> string list \<Rightarrow> string" where
  "join_with sep [] = []"
| "join_with sep [x] = x"
| "join_with sep (x # xs) = x @ sep @ join_with sep xs"

text \<open>\<open>s.split(c)\<close>.\<close>

fun split_on :: "char \<Rightarrow> string \<Rightarrow> string list" where
  "split_on c [] = [[]]"
| "split_on c (x # xs) =
     (if x = c then [] # split_on c xs
      else (let r = split_on c xs in (x # hd r) # tl r))"

section \<open>Math.random and findIndex\<close>

text \<open>
  \<open>Math.random()\<close> returns a double in \<open>[0, 1)\<close> with 53 random bits: a 53-bit word
  \<open>r\<close> read as \<open>unat r / 2^53\<close>. \<open>Math.floor(Math.random() * k)\<close> is then the
  integer part of \<open>unat r * k / 2^53\<close>.
\<close>

type_synonym rnd = "53 word"

definition rand_below :: "nat \<Rightarrow> rnd \<Rightarrow> nat" where
  "rand_below k r = unat r * k div 2 ^ 53"

text \<open>\<open>xs.findIndex(p)\<close>: \<open>None\<close> stands for the result \<open>-1\<close>.\<close>

fun find_idx :: "('a \<Rightarrow> bool) \<Rightarrow> 'a list \<Rightarrow> nat option" where
  "find_idx p [] = None"
| "find_idx p (x # xs) = (if p x then Some 0 else map_option Suc (find_idx p xs))"

section \<open>Lemmas\<close>

subsection \<open>Decimal strings\<close>

lemma digit_char_table [simp]:
  "digit_char 0 = CHR ''0''" "digit_char 1 = CHR ''1''" "digit_char 2 = CHR ''2''"
  "digit_char 3 = CHR ''3''" "digit_char 4 = CHR ''4''" "digit_char 5 = CHR ''5''"
  "digit_char 6 = CHR ''6''" "digit_char 7 = CHR ''7''" "digit_char 8 = CHR ''8''"
  "digit_char 9 = CHR ''9''" "digit_char (Suc 0) = CHR ''1''"
  unfolding digit_char_def by code_simp+

lemma digit_char_dec_digit [simp]: "d < 10 \<Longrightarrow> dec_digit (digit_char d)"
  by (simp add: digit_char_def dec_digit_def)

lemma digit_val_digit_char [simp]: "d < 10 \<Longrightarrow> digit_val (digit_char d) = d"
  by (simp add: digit_char_def digit_val_def)

lemma nat_str_digits [js_simps]: "\<forall>c \<in> set (nat_str n). dec_digit c"
proof (induction n rule: nat_str.induct)
  case (1 n)
  then show ?case by (subst nat_str.simps) auto
qed

lemma nat_str_not_Nil [simp]: "nat_str n \<noteq> []"
  by (subst nat_str.simps) simp

lemma parse_nat_snoc [simp]: "parse_nat (s @ [c]) = 10 * parse_nat s + digit_val c"
  by (simp add: parse_nat_def)

lemma parse_nat_str [simp]: "parse_nat (nat_str n) = n"
proof (induction n rule: nat_str.induct)
  case (1 n)
  show ?case
  proof (cases "n < 10")
    case True
    then show ?thesis by (subst nat_str.simps) (simp add: parse_nat_def)
  next
    case False
    with "1.IH" show ?thesis by (subst nat_str.simps) simp
  qed
qed

lemma nat_str_inj [simp]: "nat_str m = nat_str n \<longleftrightarrow> m = n"
  by (metis parse_nat_str)

lemma length_nat_str_lt10 [simp]: "n < 10 \<Longrightarrow> nat_str n = [digit_char n]"
  by (subst nat_str.simps) simp

lemma nat_str_two_digits: "10 \<le> n \<Longrightarrow> n < 100 \<Longrightarrow>
    nat_str n = [digit_char (n div 10), digit_char (n mod 10)]"
  by (subst nat_str.simps) simp

lemma nat_str_hd_digit: "hd (nat_str n) \<noteq> CHR ''-''"
proof -
  have "dec_digit (hd (nat_str n))" using nat_str_digits [of n] by simp
  then show ?thesis by (auto simp: dec_digit_def)
qed

lemma int_str_inj [simp]: "int_str i = int_str j \<longleftrightarrow> i = j"
proof
  assume eq: "int_str i = int_str j"
  show "i = j"
  proof (cases "i < 0"; cases "j < 0")
    assume "i < 0" "j < 0"
    with eq show ?thesis by (simp add: int_str_def)
  next
    assume "\<not> i < 0" "\<not> j < 0"
    with eq show ?thesis by (simp add: int_str_def)
  next
    assume "i < 0" "\<not> j < 0"
    with eq have "hd (nat_str (nat j)) = CHR ''-''" by (simp add: int_str_def) (metis list.sel(1))
    then show ?thesis using nat_str_hd_digit by blast
  next
    assume "\<not> i < 0" "j < 0"
    with eq have "hd (nat_str (nat i)) = CHR ''-''" by (simp add: int_str_def)
    then show ?thesis using nat_str_hd_digit by blast
  qed
qed simp

subsection \<open>Padding\<close>


lemma length_pad_start [simp]: "length (pad_start n c s) = max n (length s)"
  by (simp add: pad_start_def)

lemma pad2_nat_str: "n < 100 \<Longrightarrow>
    pad_start 2 (CHR ''0'') (nat_str n) = [digit_char (n div 10), digit_char (n mod 10)]"
  by (cases "n < 10") (simp_all add: pad_start_def nat_str_two_digits)

subsection \<open>Trim\<close>

lemma all_dropWhile_iff: "(\<forall>x \<in> set (dropWhile P s). P x) \<longleftrightarrow> (\<forall>x \<in> set s. P x)"
  by (induction s) auto

lemma trim_Nil_iff: "trim s = [] \<longleftrightarrow> (\<forall>c \<in> set s. js_ws c)"
  by (simp add: trim_def all_dropWhile_iff)

lemma dropWhile_fixed_prefix:
  "u = [] \<or> \<not> P (hd u) \<Longrightarrow> dropWhile P (rev (dropWhile P (rev u))) = rev (dropWhile P (rev u))"
proof (induction u rule: rev_induct)
  case Nil
  then show ?case by simp
next
  case (snoc x u)
  show ?case
  proof (cases "P x")
    case True
    with snoc show ?thesis by (cases u) auto
  next
    case False
    with snoc.prems show ?thesis by (cases u) auto
  qed
qed

lemma dropWhile_rev_dropWhile:
  "dropWhile P (rev (dropWhile P (rev (dropWhile P s)))) = rev (dropWhile P (rev (dropWhile P s)))"
  by (rule dropWhile_fixed_prefix) (metis hd_dropWhile)

lemma trim_idem [simp]: "trim (trim s) = trim s"
  by (simp add: trim_def dropWhile_rev_dropWhile)

lemma trim_ends:
  assumes "trim s \<noteq> []"
  shows "\<not> js_ws (hd (trim s)) \<and> \<not> js_ws (last (trim s))"
proof -
  let ?u = "dropWhile js_ws (rev (dropWhile js_ws s))"
  have t: "trim s = rev ?u" by (simp add: trim_def)
  with assms have u: "?u \<noteq> []" by simp
  have "dropWhile js_ws (trim s) = trim s"
    unfolding trim_def by (rule dropWhile_rev_dropWhile)
  with assms have "\<not> js_ws (hd (trim s))" by (metis hd_dropWhile)
  moreover have "\<not> js_ws (last (trim s))"
    using t u hd_dropWhile [OF u] by (simp add: last_rev)
  ultimately show ?thesis ..
qed

subsection \<open>Split\<close>

lemma split_on_append_sep:
  "c \<notin> set a \<Longrightarrow> split_on c (a @ c # z) = a # split_on c z"
  by (induction a) (auto simp: Let_def)

lemma split_on_not_Nil [simp]: "split_on c s \<noteq> []"
  by (induction s) (simp_all add: Let_def)

lemma split_on_append:
  "c \<notin> set s \<Longrightarrow> split_on c (s @ t) = (s @ hd (split_on c t)) # tl (split_on c t)"
  by (induction s) (auto simp: Let_def)

subsection \<open>Random draws\<close>

lemma rand_below_bound: "0 < k \<Longrightarrow> rand_below k r < k"
proof -
  assume k: "0 < k"
  have "unat r < 2 ^ 53" using unsigned_less [of r] by simp
  then have "unat r * k < 2 ^ 53 * k" using k by simp
  then show ?thesis by (simp add: rand_below_def less_mult_imp_div_less mult.commute)
qed

subsection \<open>findIndex\<close>

lemma find_idx_None_iff: "find_idx p xs = None \<longleftrightarrow> (\<forall>x \<in> set xs. \<not> p x)"
  by (induction xs) auto

lemma find_idx_Some: "find_idx p xs = Some i \<Longrightarrow> i < length xs \<and> p (xs ! i) \<and> (\<forall>j < i. \<not> p (xs ! j))"
proof (induction xs arbitrary: i)
  case Nil
  then show ?case by simp
next
  case (Cons x xs)
  then show ?case
    by (auto split: if_splits simp: nth_Cons' less_Suc_eq_0_disj)
qed

end
