(* ===== verification/JsDate.thy ===== *)
theory JsDate
  imports Prelude "HOL-Library.Monad_Syntax"
begin

text \<open>
  The pieces of the JavaScript \<open>Date\<close> runtime that the Medqueue code calls: a time value
  is an integer count of milliseconds since 1970-01-01T00:00Z; \<open>new Date(v)\<close> turns a
  request value into a time value or \<open>NaN\<close> (here \<open>None\<close>); \<open>getDate()\<close> reads the
  day of the month in the server's local time zone, given as an offset in milliseconds.
  Civil dates are converted with the proleptic Gregorian day-count algorithms
  (days from 1970-01-01 to a year/month/day and back). The browser side adds the local-date
  constructor \<open>new Date(y, m, d)\<close>, \<open>getDay()\<close> and \<open>toISOString()\<close>, whose date
  part is the UTC date: in a zone east of UTC, local midnight is still the previous day.
\<close>

type_synonym time = int

definition ms_per_day :: int where
  "ms_per_day = 86400000"

section \<open>Civil calendar\<close>

definition days_from_civil :: "int \<Rightarrow> int \<Rightarrow> int \<Rightarrow> int" where
  "days_from_civil y m d =
     (let y' = (if m \<le> 2 then y - 1 else y);
          era = y' div 400;
          yoe = y' mod 400;
          mp = (if 2 < m then m - 3 else m + 9);
          doy = (153 * mp + 2) div 5 + d - 1;
          doe = yoe * 365 + yoe div 4 - yoe div 100 + doy
      in era * 146097 + doe - 719468)"

definition civil_from_days :: "int \<Rightarrow> int \<times> int \<times> int" where
  "civil_from_days z0 =
     (let z = z0 + 719468;
          era = z div 146097;
          doe = z mod 146097;
          yoe = (doe - doe div 1460 + doe div 36524 - doe div 146096) div 365;
          doy = doe - (365 * yoe + yoe div 4 - yoe div 100);
          mp = (5 * doy + 2) div 153;
          d = doy - (153 * mp + 2) div 5 + 1;
          m = (if mp < 10 then mp + 3 else mp - 9);
          y = yoe + era * 400
      in (if m \<le> 2 then y + 1 else y, m, d))"

text \<open>The start of year \<open>k\<close> of a 400-year era, in days from its 1 March: the
  \<open>yoe * 365 + yoe / 4 - yoe / 100\<close> of both algorithms.\<close>

definition year_start :: "int \<Rightarrow> int" where
  "year_start k = 365 * k + k div 4 - k div 100"

text \<open>\<open>date.getDate()\<close> for the time value \<open>t\<close> in a zone \<open>tz\<close> milliseconds east of UTC.\<close>

definition getDate :: "int \<Rightarrow> time \<Rightarrow> nat" where
  "getDate tz t = nat (snd (snd (civil_from_days ((t + tz) div ms_per_day))))"

section \<open>new Date(v)\<close>

text \<open>
  \<open>Date.parse\<close> on the ISO forms \<open>YYYY-MM-DD\<close>, \<open>YYYY-MM-DDTHH:MM\<close>,
  \<open>YYYY-MM-DDTHH:MM:SS\<close> and \<open>YYYY-MM-DDTHH:MM:SS.sss\<close>, each optionally ending in
  \<open>Z\<close>, with \<open>T\<close> or a space between date and time (V8 accepts both). A date alone
  is read as UTC, a date and time without \<open>Z\<close> as local time. A day up to 31 is
  accepted in every month and rolls over into the next month, as V8 does; anything else
  is \<open>NaN\<close>.
\<close>

definition read_digits :: "nat \<Rightarrow> string \<Rightarrow> (nat \<times> string) option" where
  "read_digits n s =
     (let d = take n s in
      if length d = n \<and> (\<forall>c \<in> set d. dec_digit c) then Some (parse_nat d, drop n s) else None)"

definition expect :: "char \<Rightarrow> string \<Rightarrow> string option" where
  "expect c s = (case s of x # r \<Rightarrow> if x = c then Some r else None | [] \<Rightarrow> None)"

definition parse_zone :: "int \<Rightarrow> string \<Rightarrow> int option" where
  "parse_zone tz s = (if s = [] then Some tz else if s = ''Z'' then Some 0 else None)"

definition parse_secs :: "string \<Rightarrow> (nat \<times> nat \<times> string) option" where
  "parse_secs s =
     (case expect CHR '':'' s of
        None \<Rightarrow> Some (0, 0, s)
      | Some r \<Rightarrow> do {
          (ss, r') \<leftarrow> read_digits 2 r;
          (case expect CHR ''.'' r' of
             None \<Rightarrow> Some (ss, 0, r')
           | Some r'' \<Rightarrow> do { (ms, rest) \<leftarrow> read_digits 3 r''; Some (ss, ms, rest) })
        })"

definition parse_time :: "int \<Rightarrow> string \<Rightarrow> int option" where
  "parse_time tz s = do {
     (hh, r1) \<leftarrow> read_digits 2 s;
     r2 \<leftarrow> expect CHR '':'' r1;
     (mi, r3) \<leftarrow> read_digits 2 r2;
     (ss, ms, r4) \<leftarrow> parse_secs r3;
     off \<leftarrow> parse_zone tz r4;
     if (hh < 24 \<or> hh = 24 \<and> mi = 0 \<and> ss = 0 \<and> ms = 0) \<and> mi < 60 \<and> ss < 60
     then Some ((((int hh * 60 + int mi) * 60 + int ss) * 1000 + int ms) - off)
     else None }"

definition parse_date :: "int \<Rightarrow> string \<Rightarrow> time option" where
  "parse_date tz s = do {
     (y, r1) \<leftarrow> read_digits 4 s;
     r2 \<leftarrow> expect CHR ''-'' r1;
     (mo, r3) \<leftarrow> read_digits 2 r2;
     r4 \<leftarrow> expect CHR ''-'' r3;
     (d, r5) \<leftarrow> read_digits 2 r4;
     if 1 \<le> mo \<and> mo \<le> 12 \<and> 1 \<le> d \<and> d \<le> 31 then
       (let day0 = (days_from_civil (int y) (int mo) 1 + int d - 1) * ms_per_day in
        case r5 of
          [] \<Rightarrow> Some day0
        | c # r6 \<Rightarrow> if c = CHR ''T'' \<or> c = CHR '' ''
                     then map_option (\<lambda>ofs. day0 + ofs) (parse_time tz r6) else None)
     else None }"

text \<open>\<open>new Date(v)\<close> on a request value: \<open>None\<close> is the invalid date (\<open>NaN\<close>).
  A number is a time value when within the \<open>Date\<close> range; \<open>null\<close> converts to 0,
  a boolean to 0 or 1; arrays and objects are not converted here (\<open>NaN\<close>).\<close>

definition js_date :: "int \<Rightarrow> jval \<Rightarrow> time option" where
  "js_date tz v =
     (case v of
        JNum n \<Rightarrow> if \<bar>n\<bar> \<le> 8640000000000000 then Some n else None
      | JStr s \<Rightarrow> parse_date tz s
      | JBool b \<Rightarrow> Some (if b then 1 else 0)
      | JNull \<Rightarrow> Some 0
      | _ \<Rightarrow> None)"

section \<open>Local dates and ISO strings\<close>

text \<open>\<open>new Date(y, m, d)\<close> with a 0-based month that may overflow and a day that may be 0
  (the last day of the previous month), read in the local zone; \<open>setHours(0,0,0,0)\<close>;
  \<open>getDay()\<close> (1970-01-01 was a Thursday); \<open>toISOString()\<close> and its date part
  \<open>toISOString().split('T')[0]\<close>.\<close>

definition make_day :: "int \<Rightarrow> int \<Rightarrow> int \<Rightarrow> int" where
  "make_day y m d = days_from_civil (y + m div 12) (m mod 12 + 1) 1 + d - 1"

definition local_time :: "int \<Rightarrow> int \<Rightarrow> int \<Rightarrow> int \<Rightarrow> time" where
  "local_time tz y m d = make_day y m d * ms_per_day - tz"

definition local_midnight :: "int \<Rightarrow> time \<Rightarrow> time" where
  "local_midnight tz t = ((t + tz) div ms_per_day) * ms_per_day - tz"

definition getDay :: "int \<Rightarrow> time \<Rightarrow> nat" where
  "getDay tz t = nat (((t + tz) div ms_per_day + 4) mod 7)"

definition pad2 :: "nat \<Rightarrow> string" where
  "pad2 n = pad_start 2 (CHR ''0'') (nat_str n)"

definition pad_year :: "int \<Rightarrow> string" where
  "pad_year y =
     (if 0 \<le> y \<and> y \<le> 9999 then pad_start 4 (CHR ''0'') (nat_str (nat y))
      else (if y < 0 then CHR ''-'' else CHR ''+'') # pad_start 6 (CHR ''0'') (nat_str (nat \<bar>y\<bar>)))"

definition day_string :: "int \<Rightarrow> string" where
  "day_string k =
     (case civil_from_days k of (y, m, d) \<Rightarrow> pad_year y @ CHR ''-'' # pad2 (nat m) @ CHR ''-'' # pad2 (nat d))"

definition toISOString :: "time \<Rightarrow> string" where
  "toISOString t =
     (let r = t mod ms_per_day in
      day_string (t div ms_per_day) @ CHR ''T'' # pad2 (nat (r div 3600000)) @ CHR '':'' #
      pad2 (nat (r mod 3600000 div 60000)) @ CHR '':'' # pad2 (nat (r mod 60000 div 1000)) @
      CHR ''.'' # pad_start 3 (CHR ''0'') (nat_str (nat (r mod 1000))) @ ''Z'')"

definition iso_date_part :: "time \<Rightarrow> string" where
  "iso_date_part t = hd (split_on CHR ''T'' (toISOString t))"

section \<open>Lemmas\<close>

lemma day_of_civil_bounds:
  fixes doy mp :: int
  assumes "mp = (5 * doy + 2) div 153"
  shows "1 \<le> doy - (153 * mp + 2) div 5 + 1 \<and> doy - (153 * mp + 2) div 5 + 1 \<le> 31"
proof -
  have a: "153 * mp \<le> 5 * doy + 2" and b: "5 * doy + 2 < 153 * mp + 153"
    using assms by linarith+
  define q where "q = (153 * mp + 2) div 5"
  have c: "5 * q \<le> 153 * mp + 2" and d: "153 * mp + 2 < 5 * q + 5"
    unfolding q_def by linarith+
  from a c have "5 * q < 5 * doy + 5" by linarith
  then have "5 * q < 5 * (doy + 1)" by (simp add: algebra_simps)
  then have "q \<le> doy" by simp
  moreover from b d have "5 * doy < 5 * q + 155" by linarith
  then have "5 * doy < 5 * (q + 31)" by (simp add: algebra_simps)
  then have "doy \<le> q + 30" by simp
  ultimately show ?thesis unfolding q_def by linarith
qed

lemma day_of_civil_nat_bounds:
  "1 \<le> nat (doy - (153 * ((5 * doy + 2) div 153) + 2) div 5 + 1) \<and>
   nat (doy - (153 * ((5 * doy + 2) div 153) + 2) div 5 + 1) \<le> 31"
  using day_of_civil_bounds [OF refl, of doy] by linarith

lemma getDate_bounds: "1 \<le> getDate tz t \<and> getDate tz t \<le> 31"
  unfolding getDate_def civil_from_days_def Let_def snd_conv
  by (rule day_of_civil_nat_bounds)

subsection \<open>ISO strings of local dates\<close>

lemma nat_str_no_T: "CHR ''T'' \<notin> set (nat_str n)"
  using nat_str_digits [of n] by (auto simp: dec_digit_def)

lemma day_string_no_T: "CHR ''T'' \<notin> set (day_string k)"
  using nat_str_no_T
  by (auto simp: day_string_def pad_year_def pad2_def pad_start_def split: prod.splits)

lemma iso_date_part_day: "iso_date_part t = day_string (t div ms_per_day)"
  by (simp add: iso_date_part_def toISOString_def Let_def split_on_append_sep day_string_no_T)

lemma int_div_unique: "0 < M \<Longrightarrow> q * M \<le> x \<Longrightarrow> x < q * M + M \<Longrightarrow> x div M = (q::int)"
proof -
  assume M: "0 < M" and lo: "q * M \<le> x" and hi: "x < q * M + M"
  have "x = (x - q * M) + q * M" by simp
  then have "x div M = (x - q * M) div M + q" using M by (metis div_mult_self3 add.commute less_irrefl)
  moreover have "(x - q * M) div M = 0" using lo hi by (simp add: div_pos_pos_trivial)
  ultimately show ?thesis by simp
qed

lemma local_time_day:
  assumes "- ms_per_day < tz" and "tz \<le> ms_per_day"
  shows "local_time tz y m d div ms_per_day = make_day y m d - (if 0 < tz then 1 else 0)"
proof -
  have M: "0 < ms_per_day" by (simp add: ms_per_day_def)
  show ?thesis
    unfolding local_time_def
    by (rule int_div_unique [OF M]) (use assms in \<open>auto simp: algebra_simps\<close>)
qed

subsection \<open>Civil calendar arithmetic\<close>

lemma step_exists:
  fixes f :: "int \<Rightarrow> int"
  assumes "f 0 \<le> x"
  shows "\<exists>k. 0 \<le> k \<and> k \<le> int n \<and> f k \<le> x \<and> (x < f (k + 1) \<or> k = int n)"
proof (induction n)
  case 0
  then show ?case using assms by auto
next
  case (Suc n)
  then obtain k where k: "0 \<le> k" "k \<le> int n" "f k \<le> x" "x < f (k + 1) \<or> k = int n" by blast
  show ?case
  proof (cases "x < f (k + 1)")
    case True
    with k show ?thesis by (intro exI [of _ k]) auto
  next
    case False
    with k have "k = int n" by auto
    with False show ?thesis by (intro exI [of _ "k + 1"]) auto
  qed
qed

lemma div_succ:
  fixes k :: int
  assumes M: "0 < M"
  shows "(k + 1) div M = k div M + (if k mod M = M - 1 then 1 else 0)"
proof -
  have km: "k = M * (k div M) + k mod M" by simp
  have r: "0 \<le> k mod M" "k mod M < M" using M by auto
  show ?thesis
  proof (cases "k mod M = M - 1")
    case True
    have "(k + 1) div M = k div M + 1"
      by (rule int_div_unique [OF M]) (use km r True in \<open>simp_all add: algebra_simps\<close>)
    with True show ?thesis by simp
  next
    case False
    with r have lt: "k mod M < M - 1" by simp
    have "(k + 1) div M = k div M"
      by (rule int_div_unique [OF M]) (use div_mult_mod_eq [of k M] r lt in linarith)+
    with False show ?thesis by simp
  qed
qed

lemma year_length:
  "year_start (k + 1) - year_start k =
     365 + (if k mod 4 = 3 then 1 else 0) - (if k mod 100 = 99 then 1 else 0)"
  using div_succ [of 4 k] div_succ [of 100 k] by (simp add: year_start_def)

lemma civil_core:
  fixes doe :: int
  assumes d: "0 \<le> doe" "doe \<le> 146096"
  defines "yoe \<equiv> (doe - doe div 1460 + doe div 36524 - doe div 146096) div 365"
  shows "0 \<le> yoe \<and> yoe \<le> 399 \<and> 0 \<le> doe - year_start yoe \<and> doe - year_start yoe \<le> 365"
proof (cases "doe = 146096")
  case True
  then show ?thesis by (simp add: yoe_def year_start_def)
next
  case False
  with d have d': "doe \<le> 146095" by simp
  obtain k where k: "0 \<le> k" "k \<le> 399" "year_start k \<le> doe" "doe < year_start (k + 1) \<or> k = 399"
    using step_exists [of year_start doe 399] d by (auto simp: year_start_def)
  define e where "e = doe - year_start k"
  define a where "a = k div 4"
  define b where "b = k mod 4"
  define h where "h = k div 100"
  define j where "j = k mod 100"
  have kab: "k = 4 * a + b" and b: "0 \<le> b" "b \<le> 3" unfolding a_def b_def by auto
  have khj: "k = 100 * h + j" and j: "0 \<le> j" "j \<le> 99" unfolding h_def j_def by auto
  have ah: "h \<le> a" "a \<le> 99" using kab b khj j k by linarith+
  have h0: "0 \<le> h" unfolding h_def using k by simp
  have aj: "a = 25 * h + j div 4" unfolding a_def using khj by simp
  have j4: "4 * (j div 4) \<le> j" by simp
  have ys: "year_start k = 365 * k + a - h" unfolding year_start_def a_def h_def ..
  have e0: "0 \<le> e" using k unfolding e_def by simp
  have eb: "e \<le> 365 \<and> (e = 365 \<longrightarrow> b = 3 \<and> j \<noteq> 99)"
  proof (cases "k = 399")
    case True
    then have "year_start k = 145731" by (simp add: year_start_def)
    with d' show ?thesis unfolding e_def by simp
  next
    case False
    with k have "doe < year_start (k + 1)" by simp
    with year_length [of k] show ?thesis unfolding e_def b_def j_def by (auto split: if_splits)
  qed
  define t where "t = a + 365 * b - h + e"
  have t: "0 \<le> t" "t < 2920" unfolding t_def using ah h0 b e0 eb [THEN conjunct1] by linarith+
  have doe_a: "doe = t + a * 1460" unfolding t_def using ys kab e_def by simp
  have q1: "doe div 1460 = a + t div 1460"
    unfolding doe_a by simp
  have doe_h: "doe = 36524 * h + 365 * j + j div 4 + e"
    using ys aj khj unfolding e_def by simp
  have q2: "doe div 36524 = h"
  proof (rule int_div_unique)
    show "h * 36524 \<le> doe" using doe_h j e0 by simp
    show "doe < h * 36524 + 36524"
    proof (cases "j = 99")
      case True
      with eb have "e \<le> 364" by auto
      with True doe_h show ?thesis by simp
    next
      case False
      with j have "j \<le> 98" by simp
      moreover have "j div 4 \<le> 24" using j by simp
      ultimately show ?thesis using doe_h eb by linarith
    qed
  qed simp
  have q3: "doe div 146096 = 0" using d d' by simp
  have g: "doe - doe div 1460 + doe div 36524 - doe div 146096 = 365 * k + (e - t div 1460)"
    using q1 q2 q3 ys unfolding e_def by simp
  have r: "0 \<le> e - t div 1460 \<and> e - t div 1460 \<le> 364"
  proof (cases "t < 1460")
    case True
    then have "t div 1460 = 0" using t by simp
    moreover have "e \<noteq> 365"
    proof
      assume "e = 365"
      with eb have "b = 3" by simp
      with \<open>e = 365\<close> True ah show False unfolding t_def by simp
    qed
    ultimately show ?thesis using e0 eb by simp
  next
    case False
    then have "t div 1460 = 1" using t by (intro int_div_unique) simp_all
    moreover have "1 \<le> e" using False ah h0 b unfolding t_def by linarith
    ultimately show ?thesis using eb by simp
  qed
  have yk: "yoe = k"
    unfolding yoe_def g by (rule int_div_unique) (use r in simp_all)
  show ?thesis using yk k e0 eb unfolding e_def by simp
qed


lemma mp_bounds:
  fixes doy :: int
  assumes "0 \<le> doy" "doy \<le> 365"
  shows "0 \<le> (5 * doy + 2) div 153 \<and> (5 * doy + 2) div 153 \<le> 11"
proof -
  have "(5 * doy + 2) div 153 \<le> 1827 div 153" using assms by (intro zdiv_mono1) simp_all
  then show ?thesis using assms by simp
qed

lemma civil_from_days_unfold:
  fixes k :: int
  defines "doe \<equiv> (k + 719468) mod 146097" and "era \<equiv> (k + 719468) div 146097"
  defines "yoe \<equiv> (doe - doe div 1460 + doe div 36524 - doe div 146096) div 365"
  defines "doy \<equiv> doe - year_start yoe"
  defines "mp \<equiv> (5 * doy + 2) div 153"
  defines "m \<equiv> (if mp < 10 then mp + 3 else mp - 9)"
  shows "civil_from_days k =
           (if m \<le> 2 then yoe + era * 400 + 1 else yoe + era * 400, m, doy - (153 * mp + 2) div 5 + 1)"
  unfolding assms civil_from_days_def Let_def year_start_def ..

lemma civil_days_inverse: "(case civil_from_days k of (y, m, d) \<Rightarrow> days_from_civil y m d) = k"
proof -
  define doe where "doe = (k + 719468) mod 146097"
  define era where "era = (k + 719468) div 146097"
  define yoe where "yoe = (doe - doe div 1460 + doe div 36524 - doe div 146096) div 365"
  define doy where "doy = doe - year_start yoe"
  define mp where "mp = (5 * doy + 2) div 153"
  define m where "m = (if mp < 10 then mp + 3 else mp - 9)"
  have d: "0 \<le> doe" "doe \<le> 146096" unfolding doe_def by simp_all
  have c: "0 \<le> yoe \<and> yoe \<le> 399 \<and> 0 \<le> doy \<and> doy \<le> 365"
    using civil_core [OF d] unfolding yoe_def doy_def by simp
  have mp: "0 \<le> mp \<and> mp \<le> 11" unfolding mp_def using mp_bounds c by simp
  have y: "(if m \<le> 2 then yoe + era * 400 + 1 else yoe + era * 400) - (if m \<le> 2 then 1 else 0) =
           yoe + era * 400" by simp
  have ydiv: "(yoe + era * 400) div 400 = era" and ymod: "(yoe + era * 400) mod 400 = yoe"
    using c by simp_all
  have mp': "(if 2 < m then m - 3 else m + 9) = mp" unfolding m_def using mp by auto
  have z: "era * 146097 + doe = k + 719468" unfolding era_def doe_def by simp
  show ?thesis
    unfolding civil_from_days_unfold days_from_civil_def Let_def
    unfolding era_def [symmetric] doe_def [symmetric] yoe_def [symmetric] doy_def [symmetric]
      mp_def [symmetric] m_def [symmetric]
    using y ydiv ymod mp' z
    by (auto simp: doy_def year_start_def)
qed


lemma civil_month_day_bounds:
  assumes "civil_from_days k = (y, m, d)"
  shows "1 \<le> m \<and> m \<le> 12 \<and> 1 \<le> d \<and> d \<le> 31"
proof -
  define doe where "doe = (k + 719468) mod 146097"
  define yoe where "yoe = (doe - doe div 1460 + doe div 36524 - doe div 146096) div 365"
  define doy where "doy = doe - year_start yoe"
  have dd: "0 \<le> doe" "doe \<le> 146096" unfolding doe_def by simp_all
  have "0 \<le> doy" "doy \<le> 365" using civil_core [OF dd] unfolding yoe_def doy_def by simp_all
  then have mp: "0 \<le> (5 * doy + 2) div 153 \<and> (5 * doy + 2) div 153 \<le> 11" by (rule mp_bounds)
  show ?thesis
    using assms mp day_of_civil_bounds [OF refl, of doy]
    unfolding civil_from_days_unfold doe_def [symmetric] yoe_def [symmetric] doy_def [symmetric]
    by (auto split: if_splits)
qed

lemma days_from_civil_day: "days_from_civil y m 1 + d - 1 = days_from_civil y m d"
  by (simp add: days_from_civil_def Let_def)

lemma parse_nat_zeros: "parse_nat (replicate j (CHR ''0'') @ s) = parse_nat s"
proof -
  have "foldl (\<lambda>acc c. 10 * acc + digit_val c) 0 (replicate j (CHR ''0'')) = 0"
    by (induction j) (simp_all add: digit_val_def)
  then show ?thesis by (simp add: parse_nat_def)
qed

lemma length_nat_str: "0 < w \<Longrightarrow> n < 10 ^ w \<Longrightarrow> length (nat_str n) \<le> w"
proof (induction n arbitrary: w rule: nat_str.induct)
  case (1 n)
  show ?case
  proof (cases "n < 10")
    case True
    with "1.prems" show ?thesis by simp
  next
    case False
    obtain v where w: "w = Suc v" using "1.prems" by (cases w) auto
    have v: "0 < v" using "1.prems"(2) False w by (cases v) auto
    have "n div 10 < 10 ^ v" using "1.prems"(2) w by (simp add: less_mult_imp_div_less mult.commute)
    with "1.IH" [OF False v] False w show ?thesis by (subst nat_str.simps) simp
  qed
qed

lemma read_digits_pad:
  assumes "0 < w" "n < 10 ^ w"
  shows "read_digits w (pad_start w (CHR ''0'') (nat_str n) @ rest) = Some (n, rest)"
proof -
  have l: "length (pad_start w (CHR ''0'') (nat_str n)) = w" using length_nat_str [OF assms] by simp
  have "\<forall>c \<in> set (pad_start w (CHR ''0'') (nat_str n)). dec_digit c"
    using nat_str_digits [of n] by (auto simp: pad_start_def dec_digit_def)
  with l show ?thesis by (simp add: read_digits_def pad_start_def parse_nat_zeros)
qed

lemma parse_day_string:
  assumes "0 \<le> fst (civil_from_days k)" "fst (civil_from_days k) \<le> 9999"
  shows "parse_date tz (day_string k @ rest) =
           (case rest of
              [] \<Rightarrow> Some (k * ms_per_day)
            | c # r \<Rightarrow> if c = CHR ''T'' \<or> c = CHR '' ''
                       then map_option (\<lambda>ofs. k * ms_per_day + ofs) (parse_time tz r) else None)"
proof -
  obtain y m d where c: "civil_from_days k = (y, m, d)" by (cases "civil_from_days k") auto
  have b: "1 \<le> m \<and> m \<le> 12 \<and> 1 \<le> d \<and> d \<le> 31" by (rule civil_month_day_bounds [OF c])
  have y: "0 \<le> y" "y \<le> 9999" using assms c by simp_all
  have n100: "nat m < 100" "nat d < 100" using b by auto
  have ry: "read_digits 4 (pad_year y @ r) = Some (nat y, r)" for r
    using read_digits_pad [of 4 "nat y"] y by (simp add: pad_year_def)
  have r2: "read_digits 2 (pad2 (nat m) @ r) = Some (nat m, r)" "read_digits 2 (pad2 (nat d) @ r) = Some (nat d, r)" for r
    using read_digits_pad [of 2 "nat m"] read_digits_pad [of 2 "nat d"] n100 by (simp_all add: pad2_def)
  have k: "days_from_civil y m d = k" using civil_days_inverse [of k] c by simp
  have nb: "Suc 0 \<le> nat d \<and> nat m \<le> 12 \<and> Suc 0 \<le> nat m \<and> nat d \<le> 31" using b by linarith
  show ?thesis
    using b y k nb unfolding day_string_def c
    by (simp add: parse_date_def ry r2 expect_def days_from_civil_day Let_def)
qed

lemma parse_slot_time:
  assumes "hh < 24" "mm < 60"
  shows "parse_time tz (pad2 hh @ CHR '':'' # pad2 mm @ '':00'') = Some (int ((hh * 60 + mm) * 60000) - tz)"
proof -
  have r2: "read_digits 2 (pad2 hh @ r) = Some (hh, r)" "read_digits 2 (pad2 mm @ r) = Some (mm, r)" for r
    using read_digits_pad [of 2 hh] read_digits_pad [of 2 mm] assms by (simp_all add: pad2_def)
  have s: "parse_secs '':00'' = Some (0, 0, [])"
    by (simp add: parse_secs_def expect_def read_digits_def dec_digit_def parse_nat_def digit_val_def)
  show ?thesis
    using assms by (simp add: parse_time_def r2 expect_def s parse_zone_def)
qed


lemma js_date_day_string:
  "0 \<le> fst (civil_from_days k) \<Longrightarrow> fst (civil_from_days k) \<le> 9999 \<Longrightarrow>
   js_date zn (JStr (day_string k)) = Some (k * ms_per_day)"
  using parse_day_string [of k zn "[]"] by (simp add: js_date_def)

lemma day_shift:
  assumes "- ms_per_day < zn" "zn < ms_per_day"
  shows "(k * ms_per_day + zn) div ms_per_day = k - (if zn < 0 then 1 else 0)"
proof -
  have M: "0 < ms_per_day" by (simp add: ms_per_day_def)
  show ?thesis by (rule int_div_unique [OF M]) (use assms in \<open>auto simp: algebra_simps\<close>)
qed


end
