(* ===== verification/Models.thy ===== *)
theory Models
  imports JsDate
begin

text \<open>
  The persistence layer (\<open>src/backend/models/*.js\<close>): the three Mongoose schemas as
  records and datatypes, the database as one map per collection keyed by the unique
  identifier field, and the three document operations the services use:
  \<open>Model.findOne({id})\<close> (a map lookup), \<open>new Model(doc).save()\<close> (an insert that
  fails on a duplicate unique key) and \<open>doc.save()\<close> on a loaded document (Mongoose
  writes only the modified paths, with \<open>$set\<close>, onto the stored document, and stamps
  \<open>updatedAt\<close> because every schema sets \<open>timestamps: true\<close>). Schema casting of
  request values (\<open>type: String\<close>, \<open>required: true\<close>) is modelled as a function
  that either yields the stored string or the validation fault.
\<close>

section \<open>Faults and errors\<close>

text \<open>A fault is what a Mongoose call throws; the services catch it and turn it into a
  failed result whose message is a prefix and the fault's message.\<close>

datatype fault =
    DuplicateKey string
  | CastFailed string
  | RequiredMissing string
  | DocumentNotFound string
  | NotAFunction string

text \<open>The error taxonomy of the services: each failed result carries its message.\<close>

datatype error =
    Invalid string
  | NotFound string
  | Conflict string
  | Failed string fault

section \<open>Appointment schema\<close>

datatype appt_status = Confirmed | Cancelled | Completed | NoShow

record appointment =
  appointmentId :: string
  patientId :: string
  doctorId :: string
  dateTime :: time
  status :: appt_status
  queueNumber :: "string option"
  checkedIn :: bool
  checkedInAt :: "time option"
  bookedAt :: time
  modifiedAt :: "time option"
  cancelledAt :: "time option"
  createdAt :: time
  updatedAt :: time

section \<open>Doctor schema\<close>

record schedule_entry =
  date :: string
  startTime :: string
  endTime :: string
  available :: "bool option"
  sched_updatedAt :: time

record doctor =
  doctor_doctorId :: string
  name :: string
  specialization :: string
  schedules :: "schedule_entry list"
  doctor_createdAt :: time
  doctor_updatedAt :: time

section \<open>Notification schema\<close>

datatype notif_type = AppointmentConfirmation | Reminder | Cancellation | QueueUpdate | General

datatype delivery = Console | Email | Sms | Push

datatype notif_state = Sent | Delivered | FailedDelivery

record notification =
  notificationId :: string
  notif_patientId :: string
  notif_message :: string
  notif_type :: notif_type
  deliveryMethod :: delivery
  notif_status :: notif_state
  sentAt :: time
  notif_createdAt :: time
  notif_updatedAt :: time

section \<open>The database\<close>

text \<open>Each collection is a map from the unique identifier (\<open>unique: true\<close>) to the
  stored document.\<close>

record db =
  appointments :: "string \<rightharpoonup> appointment"
  doctors :: "string \<rightharpoonup> doctor"
  notifications :: "string \<rightharpoonup> notification"

definition empty_db :: db where
  "empty_db = \<lparr>appointments = Map.empty, doctors = Map.empty, notifications = Map.empty\<rparr>"

section \<open>Schema casting\<close>

text \<open>A \<open>String\<close> path with \<open>required: true\<close>: strings are kept, numbers and booleans
  converted with \<open>toString()\<close>, arrays and objects refused; \<open>null\<close> and the empty
  string fail the required validator.\<close>

fun cast_required_string :: "string \<Rightarrow> jval \<Rightarrow> fault + string" where
  "cast_required_string p JNull = Inl (RequiredMissing p)"
| "cast_required_string p (JStr s) = (if s = [] then Inl (RequiredMissing p) else Inr s)"
| "cast_required_string p (JNum n) = Inr (int_str n)"
| "cast_required_string p (JBool b) = Inr (if b then ''true'' else ''false'')"
| "cast_required_string p (JArr _) = Inl (CastFailed p)"
| "cast_required_string p (JObj _) = Inl (CastFailed p)"

text \<open>A \<open>Boolean\<close> path without \<open>required\<close>: \<open>null\<close> is stored as \<open>null\<close>.\<close>

fun cast_boolean :: "string \<Rightarrow> jval \<Rightarrow> fault + bool option" where
  "cast_boolean p JNull = Inr None"
| "cast_boolean p (JBool b) = Inr (Some b)"
| "cast_boolean p (JNum n) = (if n = 1 then Inr (Some True) else if n = 0 then Inr (Some False)
                              else Inl (CastFailed p))"
| "cast_boolean p (JStr s) =
     (if s \<in> {''true'', ''1'', ''yes''} then Inr (Some True)
      else if s \<in> {''false'', ''0'', ''no''} then Inr (Some False) else Inl (CastFailed p))"
| "cast_boolean p (JArr _) = Inl (CastFailed p)"
| "cast_boolean p (JObj _) = Inl (CastFailed p)"

section \<open>Appointment documents\<close>

definition find_appointment :: "db \<Rightarrow> string \<Rightarrow> appointment option" where
  "find_appointment s aid = appointments s aid"

text \<open>\<open>new Appointment(doc).save()\<close>: the unique index on \<open>appointmentId\<close> refuses a
  second document with the same identifier (E11000 duplicate key).\<close>

definition insert_appointment :: "appointment \<Rightarrow> db \<Rightarrow> fault + db" where
  "insert_appointment a s =
     (if appointments s (appointmentId a) \<noteq> None
      then Inl (DuplicateKey ''appointmentId'')
      else Inr (s\<lparr>appointments := (appointments s)(appointmentId a \<mapsto> a)\<rparr>))"

text \<open>\<open>doc.save()\<close> on a loaded appointment: the modified paths \<open>f\<close> are applied to the
  document as it is stored now, and \<open>updatedAt\<close> is stamped.\<close>

definition save_appointment ::
    "time \<Rightarrow> string \<Rightarrow> (appointment \<Rightarrow> appointment) \<Rightarrow> db \<Rightarrow> fault + db" where
  "save_appointment now aid f s =
     (case appointments s aid of
        None \<Rightarrow> Inl (DocumentNotFound aid)
      | Some a \<Rightarrow> Inr (s\<lparr>appointments := (appointments s)(aid \<mapsto> (f a)\<lparr>updatedAt := now\<rparr>)\<rparr>))"

section \<open>Lemmas\<close>

named_theorems db_simps "how the document operations change the database"

lemma insert_appointment_Inr [db_simps]:
  "appointments s (appointmentId a) = None \<Longrightarrow>
   insert_appointment a s = Inr (s\<lparr>appointments := (appointments s)(appointmentId a \<mapsto> a)\<rparr>)"
  by (simp add: insert_appointment_def)

lemma insert_appointment_dup [db_simps]:
  "appointments s (appointmentId a) \<noteq> None \<Longrightarrow>
   insert_appointment a s = Inl (DuplicateKey ''appointmentId'')"
  by (simp add: insert_appointment_def)

lemma save_appointment_Some [db_simps]:
  "appointments s aid = Some a \<Longrightarrow>
   save_appointment now aid f s = Inr (s\<lparr>appointments := (appointments s)(aid \<mapsto> (f a)\<lparr>updatedAt := now\<rparr>)\<rparr>)"
  by (simp add: save_appointment_def)

lemma save_appointment_None [db_simps]:
  "appointments s aid = None \<Longrightarrow> save_appointment now aid f s = Inl (DocumentNotFound aid)"
  by (simp add: save_appointment_def)

lemma cast_required_string_nonempty:
  "cast_required_string p v = Inr x \<Longrightarrow> x \<noteq> []"
  by (cases v) (auto simp: int_str_def split: if_splits)

end
