(* ===== verification/Appointments.thy ===== *)
theory Appointments
  imports Models
begin

text \<open>
  The appointment lifecycle service of \<open>src/backend/core-functions-db.js\<close>:
  \<open>bookAppointment\<close>, \<open>cancelAppointment\<close>, \<open>modifyAppointment\<close>,
  \<open>generateQueueNumber\<close> and \<open>checkInPatient\<close>, with the identifier and
  queue-number generators. Each operation takes the environment of the request (the
  clock, the server's time zone and the random draw), its arguments and the database,
  and returns the result (an \<open>error\<close> or the payload) with the database after it. Every
  early return of the source is a branch, and every caught exception is a \<open>Failed\<close>
  result carrying the Mongoose fault.
\<close>

section \<open>Environment of a request\<close>

record env =
  now :: time
  tz :: int
  rnd :: rnd

section \<open>Generators\<close>

text \<open>\<open>generateAppointmentId\<close>: \<open>APT\<close>, then \<open>Date.now()\<close>, then
  \<open>Math.floor(Math.random() * 1000)\<close>, both in decimal, unpadded.\<close>

definition generateAppointmentId :: "time \<Rightarrow> rnd \<Rightarrow> string" where
  "generateAppointmentId t r = ''APT'' @ int_str t @ nat_str (rand_below 1000 r)"

text \<open>The queue number: \<open>Q\<close>, the day of the month of the current date padded to two
  digits, and \<open>Math.floor(Math.random() * 99) + 1\<close> padded to two digits.\<close>

definition queue_number :: "nat \<Rightarrow> nat \<Rightarrow> string" where
  "queue_number day suffix =
     CHR ''Q'' # pad_start 2 (CHR ''0'') (nat_str day) @ pad_start 2 (CHR ''0'') (nat_str suffix)"

definition queue_suffix :: "rnd \<Rightarrow> nat" where
  "queue_suffix r = rand_below 99 r + 1"

text \<open>\<open>if (appointment.queueNumber)\<close>: a stored queue number counts only when it is a
  non-empty string.\<close>

fun truthy_queue :: "string option \<Rightarrow> string option" where
  "truthy_queue None = None"
| "truthy_queue (Some q) = (if q = [] then None else Some q)"

section \<open>bookAppointment\<close>

definition new_appointment :: "env \<Rightarrow> string \<Rightarrow> string \<Rightarrow> string \<Rightarrow> time \<Rightarrow> appointment" where
  "new_appointment e aid pid did t =
     \<lparr>appointmentId = aid, patientId = pid, doctorId = did, dateTime = t, status = Confirmed,
      queueNumber = None, checkedIn = False, checkedInAt = None, bookedAt = now e,
      modifiedAt = None, cancelledAt = None, createdAt = now e, updatedAt = now e\<rparr>"

definition bookAppointment :: "env \<Rightarrow> jval \<Rightarrow> jval \<Rightarrow> jval \<Rightarrow> db \<Rightarrow> (error + appointment) \<times> db" where
  "bookAppointment e pid did dt s =
     (if \<not> js_truthy pid \<or> \<not> js_truthy did \<or> \<not> js_truthy dt
      then (Inl (Invalid ''Missing required fields: patientId, doctorId, or dateTime''), s)
      else if (case js_date (tz e) dt of Some t \<Rightarrow> t \<le> now e | None \<Rightarrow> False)
      then (Inl (Invalid ''Appointment time must be in the future''), s)
      else
        (let aid = generateAppointmentId (now e) (rnd e);
             fail = (\<lambda>f. (Inl (Failed ''Error booking appointment: '' f), s))
         in case cast_required_string ''patientId'' pid of
              Inl f \<Rightarrow> fail f
            | Inr p \<Rightarrow>
              (case cast_required_string ''doctorId'' did of
                 Inl f \<Rightarrow> fail f
               | Inr d \<Rightarrow>
                 (case js_date (tz e) dt of
                    None \<Rightarrow> fail (CastFailed ''dateTime'')
                  | Some t \<Rightarrow>
                    (case insert_appointment (new_appointment e aid p d t) s of
                       Inl f \<Rightarrow> fail f
                     | Inr s' \<Rightarrow> (Inr (new_appointment e aid p d t), s'))))))"

section \<open>cancelAppointment\<close>

definition cancelAppointment :: "env \<Rightarrow> string \<Rightarrow> db \<Rightarrow> (error + string \<times> time) \<times> db" where
  "cancelAppointment e aid s =
     (if aid = [] then (Inl (Invalid ''Appointment ID is required''), s)
      else case find_appointment s aid of
        None \<Rightarrow> (Inl (NotFound ''Invalid appointment ID or appointment not found''), s)
      | Some a \<Rightarrow>
          if status a = Cancelled then (Inl (Conflict ''Appointment is already cancelled''), s)
          else
            (case save_appointment (now e) aid
                    (\<lambda>a. a\<lparr>status := Cancelled, cancelledAt := Some (now e)\<rparr>) s of
               Inl f \<Rightarrow> (Inl (Failed ''Error cancelling appointment: '' f), s)
             | Inr s' \<Rightarrow> (Inr (aid, now e), s')))"

section \<open>modifyAppointment\<close>

text \<open>The status is not consulted; an invalid date passes the future check (a comparison
  with \<open>NaN\<close> is false) and is refused by the schema when the document is saved.\<close>

definition modifyAppointment ::
    "env \<Rightarrow> string \<Rightarrow> jval \<Rightarrow> db \<Rightarrow> (error + string \<times> jval \<times> time) \<times> db" where
  "modifyAppointment e aid ndt s =
     (if aid = [] \<or> \<not> js_truthy ndt
      then (Inl (Invalid ''Appointment ID and new date/time are required''), s)
      else case find_appointment s aid of
        None \<Rightarrow> (Inl (NotFound ''Invalid appointment ID or appointment not found''), s)
      | Some a \<Rightarrow>
          (case js_date (tz e) ndt of
             None \<Rightarrow> (Inl (Failed ''Error modifying appointment: '' (CastFailed ''dateTime'')), s)
           | Some t \<Rightarrow>
               if t \<le> now e then (Inl (Invalid ''New appointment time must be in the future''), s)
               else
                 (case save_appointment (now e) aid
                         (\<lambda>a. a\<lparr>dateTime := t, modifiedAt := Some (now e)\<rparr>) s of
                    Inl f \<Rightarrow> (Inl (Failed ''Error modifying appointment: '' f), s)
                  | Inr s' \<Rightarrow> (Inr (aid, ndt, now e), s'))))"

section \<open>generateQueueNumber\<close>

datatype queue_result = QueueExisting string time | QueueGenerated string time

fun queue_result_number :: "queue_result \<Rightarrow> string" where
  "queue_result_number (QueueExisting q _) = q"
| "queue_result_number (QueueGenerated q _) = q"

definition queue_generate :: "env \<Rightarrow> string \<Rightarrow> db \<Rightarrow> (error + queue_result) \<times> db" where
  "queue_generate e aid s =
     (let q = queue_number (getDate (tz e) (now e)) (queue_suffix (rnd e)) in
      case save_appointment (now e) aid (\<lambda>a. a\<lparr>queueNumber := Some q\<rparr>) s of
        Inl f \<Rightarrow> (Inl (Failed ''Error generating queue number: '' f), s)
      | Inr s' \<Rightarrow> (Inr (QueueGenerated q (now e)), s'))"

definition generateQueueNumber :: "env \<Rightarrow> string \<Rightarrow> db \<Rightarrow> (error + queue_result) \<times> db" where
  "generateQueueNumber e aid s =
     (if aid = [] then (Inl (Invalid ''Appointment ID is required''), s)
      else case find_appointment s aid of
        None \<Rightarrow> (Inl (NotFound ''Invalid appointment ID or appointment not found''), s)
      | Some a \<Rightarrow>
          (case truthy_queue (queueNumber a) of
             Some q \<Rightarrow> (Inr (QueueExisting q (updatedAt a)), s)
           | None \<Rightarrow> queue_generate e aid s))"

section \<open>checkInPatient\<close>

text \<open>The loaded document is saved after \<open>generateQueueNumber\<close> has saved its own
  copy; only the paths this function modified are written, so the queue number the inner
  call stored survives.\<close>

definition checkin_save :: "env \<Rightarrow> string \<Rightarrow> string \<Rightarrow> db \<Rightarrow> (error + string \<times> string \<times> time) \<times> db" where
  "checkin_save e aid q s =
     (case save_appointment (now e) aid (\<lambda>a. a\<lparr>checkedIn := True, checkedInAt := Some (now e)\<rparr>) s of
        Inl f \<Rightarrow> (Inl (Failed ''Error checking in patient: '' f), s)
      | Inr s' \<Rightarrow> (Inr (aid, q, now e), s'))"

definition checkInPatient :: "env \<Rightarrow> string \<Rightarrow> db \<Rightarrow> (error + string \<times> string \<times> time) \<times> db" where
  "checkInPatient e aid s =
     (if aid = [] then (Inl (Invalid ''Appointment ID is required''), s)
      else case find_appointment s aid of
        None \<Rightarrow> (Inl (NotFound ''Invalid appointment ID or appointment not found''), s)
      | Some a \<Rightarrow>
          if checkedIn a then (Inl (Conflict ''Patient is already checked in''), s)
          else
            (case truthy_queue (queueNumber a) of
               Some q \<Rightarrow> checkin_save e aid q s
             | None \<Rightarrow>
                 (case generateQueueNumber e aid s of
                    (Inl err, s1) \<Rightarrow> (Inl err, s1)
                  | (Inr qr, s1) \<Rightarrow> checkin_save e aid (queue_result_number qr) s1)))"

section \<open>Invariant of a stored appointment\<close>

text \<open>A generated queue number is \<open>Q\<close> followed by four decimal digits.\<close>

definition queue_format :: "string \<Rightarrow> bool" where
  "queue_format q \<longleftrightarrow> length q = 5 \<and> hd q = CHR ''Q'' \<and> (\<forall>c \<in> set (tl q). dec_digit c)"

text \<open>What every stored appointment satisfies: it is stored under its own identifier, its
  references are non-empty, the core only ever sets the statuses \<open>confirmed\<close> and
  \<open>cancelled\<close>, the cancellation and check-in stamps are set exactly when the status
  and the flag are, a checked-in appointment has a queue number, and every queue number
  has the generated format.\<close>

definition appt_wf :: "string \<Rightarrow> appointment \<Rightarrow> bool" where
  "appt_wf k a \<longleftrightarrow>
     appointmentId a = k \<and> patientId a \<noteq> [] \<and> doctorId a \<noteq> [] \<and>
     status a \<in> {Confirmed, Cancelled} \<and>
     (status a = Cancelled \<longleftrightarrow> cancelledAt a \<noteq> None) \<and>
     (checkedIn a \<longleftrightarrow> checkedInAt a \<noteq> None) \<and>
     (checkedIn a \<longrightarrow> queueNumber a \<noteq> None) \<and>
     pred_option queue_format (queueNumber a)"

definition appts_inv :: "db \<Rightarrow> bool" where
  "appts_inv s \<longleftrightarrow> (\<forall>k a. appointments s k = Some a \<longrightarrow> appt_wf k a)"

section \<open>The lifecycle as a step relation\<close>

text \<open>How one stored appointment may change in one operation: the identifier and
  references stay, a cancellation is never undone, a present queue number is never
  replaced and a check-in is never undone.\<close>

definition appt_evolves :: "appointment \<Rightarrow> appointment \<Rightarrow> bool" where
  "appt_evolves a a' \<longleftrightarrow>
     appointmentId a' = appointmentId a \<and> patientId a' = patientId a \<and> doctorId a' = doctorId a \<and>
     (status a = Cancelled \<longrightarrow> status a' = Cancelled) \<and>
     (\<forall>q. truthy_queue (queueNumber a) = Some q \<longrightarrow> queueNumber a' = Some q) \<and>
     (checkedIn a \<longrightarrow> checkedIn a')"

inductive lifecycle_step :: "db \<Rightarrow> db \<Rightarrow> bool" where
  book: "lifecycle_step s (snd (bookAppointment e p d t s))"
| cancel: "lifecycle_step s (snd (cancelAppointment e aid s))"
| modify: "lifecycle_step s (snd (modifyAppointment e aid t s))"
| queue: "lifecycle_step s (snd (generateQueueNumber e aid s))"
| checkin: "lifecycle_step s (snd (checkInPatient e aid s))"

inductive lifecycle_reachable :: "db \<Rightarrow> bool" where
  init: "lifecycle_reachable empty_db"
| step: "lifecycle_reachable s \<Longrightarrow> lifecycle_step s s' \<Longrightarrow> lifecycle_reachable s'"

section \<open>Sample data\<close>

text \<open>A request environment and a database holding one booked appointment, used by the
  witnesses below.\<close>

definition sample_env :: env where
  "sample_env = \<lparr>now = 1700000000000, tz = 0, rnd = 12345678901234\<rparr>"

definition sample_appt :: appointment where
  "sample_appt = new_appointment sample_env ''A1'' ''P1'' ''D1'' 32472176400000"

definition sample_db :: db where
  "sample_db = empty_db\<lparr>appointments := [''A1'' \<mapsto> sample_appt]\<rparr>"

definition cancelled_db :: db where
  "cancelled_db = empty_db\<lparr>appointments :=
     [''A1'' \<mapsto> sample_appt\<lparr>status := Cancelled, cancelledAt := Some 1700000000000\<rparr>]\<rparr>"

definition queued_db :: db where
  "queued_db = empty_db\<lparr>appointments := [''A1'' \<mapsto> sample_appt\<lparr>queueNumber := Some ''Q1401''\<rparr>]\<rparr>"

section \<open>Lemmas\<close>

subsection \<open>Evaluation on the sample data\<close>

lemma sample_getDate: "getDate 0 1700000000000 = 14"
  by code_simp

lemma sample_queue_suffix: "queue_suffix 12345678901234 = 1"
  by (simp add: queue_suffix_def rand_below_def)

lemmas sample_simps = sample_env_def sample_db_def sample_appt_def new_appointment_def
  empty_db_def find_appointment_def save_appointment_def

lemma sample_checkIn:
  "fst (checkInPatient sample_env ''A1'' sample_db) = Inr (''A1'', ''Q1401'', 1700000000000)"
  by (simp add: checkInPatient_def generateQueueNumber_def queue_generate_def checkin_save_def
      sample_simps Let_def sample_getDate sample_queue_suffix queue_number_def pad_start_def
      nat_str.simps)

lemma sample_generate:
  "fst (generateQueueNumber sample_env ''A1'' sample_db) = Inr (QueueGenerated ''Q1401'' 1700000000000)"
  by (simp add: generateQueueNumber_def queue_generate_def sample_simps Let_def sample_getDate
      sample_queue_suffix queue_number_def pad_start_def nat_str.simps)

lemma sample_cancel:
  "fst (cancelAppointment sample_env ''A1'' sample_db) = Inr (''A1'', 1700000000000)"
  by (simp add: cancelAppointment_def sample_simps)

lemma fst_eq_Inr_obtain: "fst p = Inr r \<Longrightarrow> \<exists>s'. p = (Inr r, s')"
  by (cases p) simp

subsection \<open>Generators\<close>

lemma queue_number_digits:
  "d < 100 \<Longrightarrow> n < 100 \<Longrightarrow> queue_number d n =
     [CHR ''Q'', digit_char (d div 10), digit_char (d mod 10), digit_char (n div 10), digit_char (n mod 10)]"
  by (simp add: queue_number_def pad2_nat_str)

lemma queue_suffix_bounds: "1 \<le> queue_suffix r \<and> queue_suffix r \<le> 99"
  using rand_below_bound [of 99 r] by (simp add: queue_suffix_def)

lemma queue_number_not_Nil [simp]: "queue_number d n \<noteq> []"
  by (simp add: queue_number_def)

lemma queue_number_format: "d < 100 \<Longrightarrow> n < 100 \<Longrightarrow> queue_format (queue_number d n)"
  by (simp add: queue_number_digits queue_format_def)

lemma parse_two_digits: "d < 100 \<Longrightarrow> parse_nat [digit_char (d div 10), digit_char (d mod 10)] = d"
  by (simp add: parse_nat_def)

text \<open>C27: a generated queue number is five characters, Q followed by the two-digit day of the month (1 to 31) and the two-digit random suffix (1 to 99), and both numbers can be read back from it.\<close>

theorem queue_number_roundtrip:
  "length (queue_number (getDate z t) (queue_suffix r)) = 5 \<and>
   hd (queue_number (getDate z t) (queue_suffix r)) = CHR ''Q'' \<and>
   parse_nat (take 2 (tl (queue_number (getDate z t) (queue_suffix r)))) = getDate z t \<and>
   parse_nat (drop 3 (queue_number (getDate z t) (queue_suffix r))) = queue_suffix r \<and>
   1 \<le> getDate z t \<and> getDate z t \<le> 31 \<and> 1 \<le> queue_suffix r \<and> queue_suffix r \<le> 99"
proof -
  have d: "1 \<le> getDate z t \<and> getDate z t \<le> 31" by (rule getDate_bounds)
  have n: "1 \<le> queue_suffix r \<and> queue_suffix r \<le> 99" by (rule queue_suffix_bounds)
  from d n show ?thesis by (simp add: queue_number_digits parse_two_digits)
qed

text \<open>For two timestamps with the same number of digits, equal appointment identifiers come from the same timestamp and the same random draw.\<close>

theorem generateAppointmentId_inj:
  assumes "length (int_str t1) = length (int_str t2)"
    and "generateAppointmentId t1 r1 = generateAppointmentId t2 r2"
  shows "t1 = t2 \<and> rand_below 1000 r1 = rand_below 1000 r2"
  using assms by (simp add: generateAppointmentId_def append_eq_append_conv)

theorem generateAppointmentId_inj_witness:
  "length (int_str 1700000000000) = length (int_str 1700000000000) \<and>
   generateAppointmentId 1700000000000 12345678901234 = generateAppointmentId 1700000000000 12345678901234 \<and>
   rand_below 1000 (12345678901234 :: rnd) = rand_below 1000 12345678901234"
  using generateAppointmentId_inj [of 1700000000000 1700000000000 12345678901234 12345678901234] by simp

text \<open>Across timestamps with different numbers of digits the unpadded random suffix lets two different (timestamp, draw) pairs produce the same identifier.\<close>

theorem generateAppointmentId_collision:
  "generateAppointmentId 12 27021597764223 = generateAppointmentId 1 207165582859043"
  by (simp add: generateAppointmentId_def rand_below_def int_str_def nat_str.simps)

lemma truthy_queue_Some [simp]: "truthy_queue x = Some q \<longleftrightarrow> x = Some q \<and> q \<noteq> []"
  by (cases x) auto

lemma save_appointment_Inr_iff:
  "save_appointment t0 aid f s = Inr s' \<longleftrightarrow>
   (\<exists>a. appointments s aid = Some a \<and>
        s' = s\<lparr>appointments := (appointments s)(aid \<mapsto> (f a)\<lparr>updatedAt := t0\<rparr>)\<rparr>)"
  by (auto simp: save_appointment_def split: option.splits)

lemmas lifecycle_defs = find_appointment_def save_appointment_def

text \<open>C4: once a cancellation has succeeded, cancelling the same appointment again fails with the conflict message and changes nothing.\<close>

theorem cancel_twice:
  assumes "cancelAppointment e aid s = (Inr r, s')"
  shows "cancelAppointment e' aid s' = (Inl (Conflict ''Appointment is already cancelled''), s')"
  using assms
  by (auto simp: cancelAppointment_def lifecycle_defs split: option.splits if_splits)

theorem cancel_twice_witness:
  "\<exists>s'. cancelAppointment sample_env ''A1'' sample_db = (Inr (''A1'', 1700000000000), s') \<and>
        cancelAppointment sample_env ''A1'' s' = (Inl (Conflict ''Appointment is already cancelled''), s')"
proof -
  obtain s' where h: "cancelAppointment sample_env ''A1'' sample_db = (Inr (''A1'', 1700000000000), s')"
    using fst_eq_Inr_obtain [OF sample_cancel] by blast
  show ?thesis using h cancel_twice [OF h] by blast
qed

lemma generateQueueNumber_stored:
  assumes "generateQueueNumber e aid s = (Inr r, s')"
  shows "aid \<noteq> [] \<and> (\<exists>a. appointments s' aid = Some a \<and> queueNumber a = Some (queue_result_number r))
         \<and> queue_result_number r \<noteq> []"
  using assms
  by (auto simp: generateQueueNumber_def queue_generate_def Let_def lifecycle_defs
           split: option.splits if_splits)

text \<open>C5: after generateQueueNumber has succeeded, a second call returns the same queue number as already existing and writes nothing.\<close>

theorem generateQueueNumber_idempotent:
  assumes "generateQueueNumber e aid s = (Inr r, s')"
  shows "\<exists>t. generateQueueNumber e' aid s' = (Inr (QueueExisting (queue_result_number r) t), s')"
  using generateQueueNumber_stored [OF assms]
  by (auto simp: generateQueueNumber_def find_appointment_def)

theorem generateQueueNumber_idempotent_witness:
  "\<exists>s' t. generateQueueNumber sample_env ''A1'' sample_db = (Inr (QueueGenerated ''Q1401'' 1700000000000), s') \<and>
          generateQueueNumber sample_env ''A1'' s' = (Inr (QueueExisting ''Q1401'' t), s')"
proof -
  obtain s' where h: "generateQueueNumber sample_env ''A1'' sample_db =
      (Inr (QueueGenerated ''Q1401'' 1700000000000), s')"
    using fst_eq_Inr_obtain [OF sample_generate] by blast
  show ?thesis using h generateQueueNumber_idempotent [OF h] by auto
qed

lemma checkin_save_Inr:
  "checkin_save e aid q s = (Inr r, s') \<Longrightarrow>
   \<exists>a. appointments s aid = Some a \<and> r = (aid, q, now e) \<and>
       appointments s' aid = Some (a\<lparr>checkedIn := True, checkedInAt := Some (now e), updatedAt := now e\<rparr>)"
  by (auto simp: checkin_save_def save_appointment_def split: option.splits)

lemma checkIn_Inr_stored:
  assumes "checkInPatient e aid s = (Inr (aid', q, t), s')"
  shows "\<exists>a. appointments s' aid = Some a \<and> queueNumber a = Some q \<and> checkedIn a \<and>
             checkedInAt a = Some t \<and> aid' = aid"
proof (cases "\<exists>a. appointments s aid = Some a \<and> truthy_queue (queueNumber a) \<noteq> None")
  case True
  with assms show ?thesis
    by (auto simp: checkInPatient_def find_appointment_def split: if_splits dest!: checkin_save_Inr)
next
  case False
  with assms obtain r s1 where g: "generateQueueNumber e aid s = (Inr r, s1)"
      and c: "checkin_save e aid (queue_result_number r) s1 = (Inr (aid', q, t), s')"
    by (auto simp: checkInPatient_def find_appointment_def split: if_splits option.splits sum.splits prod.splits)
  from generateQueueNumber_stored [OF g] c show ?thesis
    by (auto dest!: checkin_save_Inr)
qed

text \<open>C1: a successful check-in leaves the appointment stored with the flag set, the check-in time recorded, and exactly the queue number the call returned, also when the queue number was generated during the call (the inner save of generateQueueNumber is not lost by the outer save).\<close>

theorem checkIn_stores_queue_number:
  assumes "checkInPatient e aid s = (Inr (aid', q, t), s')"
  shows "\<exists>a. appointments s' aid = Some a \<and> queueNumber a = Some q \<and> checkedIn a \<and>
             checkedInAt a = Some t \<and> aid' = aid"
  using assms by (rule checkIn_Inr_stored)

theorem checkIn_stores_queue_number_witness:
  "\<exists>s'. checkInPatient sample_env ''A1'' sample_db = (Inr (''A1'', ''Q1401'', 1700000000000), s') \<and>
        (\<exists>a. appointments s' ''A1'' = Some a \<and> queueNumber a = Some ''Q1401'' \<and> checkedIn a \<and>
             checkedInAt a = Some 1700000000000)"
proof -
  obtain s' where h: "checkInPatient sample_env ''A1'' sample_db = (Inr (''A1'', ''Q1401'', 1700000000000), s')"
    using fst_eq_Inr_obtain [OF sample_checkIn] by blast
  show ?thesis using h checkIn_stores_queue_number [OF h] by blast
qed

lemma appt_evolves_refl [simp]: "appt_evolves a a"
  by (simp add: appt_evolves_def)

lemma appt_evolves_trans: "appt_evolves a b \<Longrightarrow> appt_evolves b c \<Longrightarrow> appt_evolves a c"
  by (auto simp: appt_evolves_def)

text \<open>The shape of every database an operation leaves behind: unchanged, or one
  document updated by one of the service's writes.\<close>

lemma book_db:
  "snd (bookAppointment e p d t s) = s \<or>
   (\<exists>a. appointments s (appointmentId a) = None \<and>
        snd (bookAppointment e p d t s) = s\<lparr>appointments := (appointments s)(appointmentId a \<mapsto> a)\<rparr> \<and>
        fst (bookAppointment e p d t s) = Inr a)"
  by (auto simp: bookAppointment_def Let_def insert_appointment_def
           split: sum.splits option.splits if_splits)

lemma book_Inr:
  assumes "bookAppointment e pid did dt s = (Inr a, s')"
  shows "\<exists>p d t. a = new_appointment e (generateAppointmentId (now e) (rnd e)) p d t \<and>
           cast_required_string ''patientId'' pid = Inr p \<and> cast_required_string ''doctorId'' did = Inr d \<and>
           js_date (tz e) dt = Some t \<and> now e < t \<and>
           appointments s (appointmentId a) = None \<and>
           s' = s\<lparr>appointments := (appointments s)(appointmentId a \<mapsto> a)\<rparr>"
  using assms
  by (auto simp: bookAppointment_def Let_def insert_appointment_def new_appointment_def
           split: sum.splits option.splits if_splits)

lemma cancel_evolves:
  "appointments s k = Some a \<Longrightarrow>
   \<exists>a'. appointments (snd (cancelAppointment e aid s)) k = Some a' \<and> appt_evolves a a'"
  by (auto simp: cancelAppointment_def lifecycle_defs appt_evolves_def split: option.splits if_splits)

lemma modify_evolves:
  "appointments s k = Some a \<Longrightarrow>
   \<exists>a'. appointments (snd (modifyAppointment e aid t s)) k = Some a' \<and> appt_evolves a a'"
  by (auto simp: modifyAppointment_def lifecycle_defs appt_evolves_def split: option.splits if_splits)

lemma queue_evolves:
  "appointments s k = Some a \<Longrightarrow>
   \<exists>a'. appointments (snd (generateQueueNumber e aid s)) k = Some a' \<and> appt_evolves a a'"
  by (auto simp: generateQueueNumber_def queue_generate_def Let_def lifecycle_defs appt_evolves_def
           split: option.splits if_splits)

lemma checkin_save_evolves:
  "appointments s k = Some a \<Longrightarrow>
   \<exists>a'. appointments (snd (checkin_save e aid q s)) k = Some a' \<and> appt_evolves a a'"
  by (auto simp: checkin_save_def save_appointment_def appt_evolves_def split: option.splits)

lemma checkin_evolves:
  assumes "appointments s k = Some a"
  shows "\<exists>a'. appointments (snd (checkInPatient e aid s)) k = Some a' \<and> appt_evolves a a'"
proof -
  have gen: "\<exists>a'. appointments (snd (generateQueueNumber e aid s)) k = Some a' \<and> appt_evolves a a'"
    using assms by (rule queue_evolves)
  show ?thesis
  proof (cases "aid \<noteq> [] \<and> (\<exists>b. appointments s aid = Some b \<and> \<not> checkedIn b)")
    case True
    then obtain b where b: "appointments s aid = Some b" "\<not> checkedIn b" "aid \<noteq> []" by blast
    show ?thesis
    proof (cases "truthy_queue (queueNumber b)")
      case (Some q)
      with b assms show ?thesis
        by (simp add: checkInPatient_def find_appointment_def checkin_save_evolves)
    next
      case None
      obtain r s1 where g: "generateQueueNumber e aid s = (r, s1)" by (cases "generateQueueNumber e aid s")
      from gen g obtain a1 where a1: "appointments s1 k = Some a1" "appt_evolves a a1" by auto
      show ?thesis
      proof (cases r)
        case (Inl err)
        with b None g a1 show ?thesis by (simp add: checkInPatient_def find_appointment_def)
      next
        case (Inr qr)
        from checkin_save_evolves [OF a1(1), of e aid "queue_result_number qr"] obtain a2 where
          "appointments (snd (checkin_save e aid (queue_result_number qr) s1)) k = Some a2"
          "appt_evolves a1 a2" by blast
        with b None g Inr a1(2) show ?thesis
          by (auto simp: checkInPatient_def find_appointment_def intro: appt_evolves_trans)
      qed
    qed
  next
    case False
    with assms show ?thesis by (auto simp: checkInPatient_def find_appointment_def split: option.splits)
  qed
qed

lemma book_evolves:
  "appointments s k = Some a \<Longrightarrow>
   \<exists>a'. appointments (snd (bookAppointment e p d t s)) k = Some a' \<and> appt_evolves a a'"
  using book_db [of e p d t s] by auto

lemma lifecycle_step_evolves:
  "lifecycle_step s s' \<Longrightarrow> appointments s k = Some a \<Longrightarrow>
   \<exists>a'. appointments s' k = Some a' \<and> appt_evolves a a'"
  by (induction rule: lifecycle_step.induct)
     (auto intro: book_evolves cancel_evolves modify_evolves queue_evolves checkin_evolves)

text \<open>C6: no lifecycle operation removes a stored appointment or changes its identifier, and a
  cancelled appointment stays cancelled.\<close>

theorem cancelled_terminal:
  assumes "lifecycle_step s s'" and "appointments s k = Some a"
  shows "\<exists>a'. appointments s' k = Some a' \<and> appointmentId a' = appointmentId a \<and>
              (status a = Cancelled \<longrightarrow> status a' = Cancelled)"
  using lifecycle_step_evolves [OF assms] by (auto simp: appt_evolves_def)

text \<open>C7: a queue number once stored on an appointment is never replaced by any lifecycle operation.\<close>

theorem queue_number_never_reassigned:
  assumes "lifecycle_step s s'" and "appointments s k = Some a"
    and "queueNumber a = Some q" and "q \<noteq> []"
  shows "\<exists>a'. appointments s' k = Some a' \<and> queueNumber a' = Some q"
  using lifecycle_step_evolves [OF assms(1,2)] assms(3,4) by (auto simp: appt_evolves_def)

lemma appts_inv_upd:
  "appts_inv s \<Longrightarrow> appt_wf k a \<Longrightarrow> appts_inv (s\<lparr>appointments := (appointments s)(k \<mapsto> a)\<rparr>)"
  by (simp add: appts_inv_def)

lemma appts_inv_get: "appts_inv s \<Longrightarrow> appointments s k = Some a \<Longrightarrow> appt_wf k a"
  by (simp add: appts_inv_def)

lemma generated_queue_format: "queue_format (queue_number (getDate z t) (queue_suffix r))"
proof -
  have "getDate z t < 100" using getDate_bounds [of z t] by simp
  moreover have "queue_suffix r < 100" using queue_suffix_bounds [of r] by simp
  ultimately show ?thesis by (rule queue_number_format)
qed

lemma book_inv: "appts_inv s \<Longrightarrow> appts_inv (snd (bookAppointment e p d t s))"
proof -
  assume inv: "appts_inv s"
  show ?thesis
  proof (cases "fst (bookAppointment e p d t s)")
    case (Inr a)
    then have "bookAppointment e p d t s = (Inr a, snd (bookAppointment e p d t s))"
      by (metis prod.collapse)
    from book_Inr [OF this] obtain pa da ta where
      a: "a = new_appointment e (generateAppointmentId (now e) (rnd e)) pa da ta"
      and c: "cast_required_string ''patientId'' p = Inr pa" "cast_required_string ''doctorId'' d = Inr da"
      and s': "snd (bookAppointment e p d t s) = s\<lparr>appointments := (appointments s)(appointmentId a \<mapsto> a)\<rparr>"
      by blast
    have "appt_wf (appointmentId a) a"
      using cast_required_string_nonempty [OF c(1)] cast_required_string_nonempty [OF c(2)] a
      by (simp add: appt_wf_def new_appointment_def)
    with inv s' show ?thesis by (simp add: appts_inv_upd)
  next
    case (Inl err)
    with book_db [of e p d t s] inv show ?thesis by auto
  qed
qed

lemma cancel_inv: "appts_inv s \<Longrightarrow> appts_inv (snd (cancelAppointment e aid s))"
  by (auto simp: cancelAppointment_def lifecycle_defs appt_wf_def appts_inv_def
           split: option.splits if_splits)

lemma modify_inv: "appts_inv s \<Longrightarrow> appts_inv (snd (modifyAppointment e aid t s))"
  by (auto simp: modifyAppointment_def lifecycle_defs appt_wf_def appts_inv_def
           split: option.splits if_splits)

lemma queue_generate_inv: "appts_inv s \<Longrightarrow> appts_inv (snd (queue_generate e aid s))"
  using generated_queue_format [of "tz e" "now e" "rnd e"]
  by (auto simp: queue_generate_def Let_def lifecycle_defs appt_wf_def appts_inv_def
           split: option.splits)

lemma queue_inv: "appts_inv s \<Longrightarrow> appts_inv (snd (generateQueueNumber e aid s))"
  by (auto simp: generateQueueNumber_def find_appointment_def queue_generate_inv
           split: option.splits)

lemma checkin_save_inv:
  "appts_inv s \<Longrightarrow> (\<exists>a. appointments s aid = Some a \<and> queueNumber a \<noteq> None) \<Longrightarrow>
   appts_inv (snd (checkin_save e aid q s))"
  by (auto simp: checkin_save_def save_appointment_def appt_wf_def appts_inv_def
           split: option.splits)

lemma checkin_inv: "appts_inv s \<Longrightarrow> appts_inv (snd (checkInPatient e aid s))"
proof -
  assume inv: "appts_inv s"
  show ?thesis
  proof (cases "aid \<noteq> [] \<and> (\<exists>b. appointments s aid = Some b \<and> \<not> checkedIn b)")
    case True
    then obtain b where b: "appointments s aid = Some b" "\<not> checkedIn b" "aid \<noteq> []" by blast
    show ?thesis
    proof (cases "truthy_queue (queueNumber b)")
      case (Some q)
      with b inv show ?thesis
        by (simp add: checkInPatient_def find_appointment_def checkin_save_inv)
    next
      case None
      obtain r s1 where g: "generateQueueNumber e aid s = (r, s1)" by (cases "generateQueueNumber e aid s")
      have inv1: "appts_inv s1" using queue_inv [OF inv, of e aid] g by simp
      show ?thesis
      proof (cases r)
        case (Inl err)
        with b None g inv1 show ?thesis by (simp add: checkInPatient_def find_appointment_def)
      next
        case (Inr qr)
        with g have "\<exists>a. appointments s1 aid = Some a \<and> queueNumber a \<noteq> None"
          using generateQueueNumber_stored [of e aid s qr s1] by auto
        with b None g Inr inv1 show ?thesis
          by (simp add: checkInPatient_def find_appointment_def checkin_save_inv)
      qed
    qed
  next
    case False
    with inv show ?thesis by (auto simp: checkInPatient_def find_appointment_def split: option.splits)
  qed
qed

lemma lifecycle_step_inv: "lifecycle_step s s' \<Longrightarrow> appts_inv s \<Longrightarrow> appts_inv s'"
  by (induction rule: lifecycle_step.induct)
     (auto intro: book_inv cancel_inv modify_inv queue_inv checkin_inv)

text \<open>C2: every database reachable from the empty one by the lifecycle operations satisfies the appointment invariant: documents stored under their own identifier, only confirmed or cancelled status, cancellation and check-in stamps set exactly with the status and flag, a queue number for every checked-in appointment, and every queue number of the generated format.\<close>

theorem lifecycle_reachable_inv: "lifecycle_reachable s \<Longrightarrow> appts_inv s"
proof (induction rule: lifecycle_reachable.induct)
  case init
  show ?case by (simp add: appts_inv_def empty_db_def)
next
  case (step s s')
  then show ?case by (blast intro: lifecycle_step_inv)
qed

text \<open>C16: booking with a date-time that is not strictly after the current time fails with the validation message and creates no record.\<close>

theorem book_rejects_past:
  assumes "js_truthy pid" and "js_truthy did" and "js_truthy dt"
    and "js_date (tz e) dt = Some t" and "t \<le> now e"
  shows "bookAppointment e pid did dt s = (Inl (Invalid ''Appointment time must be in the future''), s)"
  using assms by (simp add: bookAppointment_def)

lemma sample_past_date: "js_date 0 (JStr ''2020-01-01'') = Some 1577836800000"
  by code_simp

lemma sample_future_date: "js_date 0 (JStr ''2999-01-01T09:00:00Z'') = Some 32472176400000"
  by code_simp

lemma sample_appointment_id: "generateAppointmentId 1700000000000 12345678901234 = ''APT17000000000001''"
  by (simp add: generateAppointmentId_def rand_below_def int_str_def nat_str.simps)

theorem book_rejects_past_witness:
  "bookAppointment sample_env (JStr ''P1'') (JStr ''D1'') (JStr ''2020-01-01'') empty_db =
   (Inl (Invalid ''Appointment time must be in the future''), empty_db)"
  using book_rejects_past [of "JStr ''P1''" "JStr ''D1''" "JStr ''2020-01-01''" sample_env 1577836800000 empty_db]
  by (simp add: sample_env_def sample_past_date)

text \<open>C17: booking with non-empty patient and doctor references and a future date-time, when the generated identifier is free, stores a new confirmed appointment under that identifier and returns it.\<close>

theorem book_succeeds:
  assumes "p \<noteq> []" and "d \<noteq> []" and "js_truthy dt"
    and "js_date (tz e) dt = Some t" and "now e < t"
    and "appointments s (generateAppointmentId (now e) (rnd e)) = None"
  shows "bookAppointment e (JStr p) (JStr d) dt s =
    (Inr (new_appointment e (generateAppointmentId (now e) (rnd e)) p d t),
     s\<lparr>appointments := (appointments s)(generateAppointmentId (now e) (rnd e) \<mapsto>
                          new_appointment e (generateAppointmentId (now e) (rnd e)) p d t)\<rparr>)"
  using assms
  by (simp add: bookAppointment_def Let_def insert_appointment_def new_appointment_def)

theorem book_succeeds_witness:
  "bookAppointment sample_env (JStr ''P1'') (JStr ''D1'') (JStr ''2999-01-01T09:00:00Z'') empty_db =
    (Inr (new_appointment sample_env ''APT17000000000001'' ''P1'' ''D1'' 32472176400000),
     empty_db\<lparr>appointments := [''APT17000000000001'' \<mapsto>
        new_appointment sample_env ''APT17000000000001'' ''P1'' ''D1'' 32472176400000]\<rparr>)"
  using book_succeeds [of "''P1''" "''D1''" "JStr ''2999-01-01T09:00:00Z''" sample_env 32472176400000 empty_db]
  by (simp add: sample_env_def sample_future_date sample_appointment_id empty_db_def)

text \<open>C10: every successful booking creates a fresh record with status confirmed, no queue number, not checked in, under the generated identifier, at a date-time strictly after the current time.\<close>

theorem book_creates_confirmed:
  assumes "bookAppointment e pid did dt s = (Inr a, s')"
  shows "status a = Confirmed \<and> queueNumber a = None \<and> \<not> checkedIn a \<and>
         appointmentId a = generateAppointmentId (now e) (rnd e) \<and>
         appointments s (appointmentId a) = None \<and> appointments s' (appointmentId a) = Some a \<and>
         js_date (tz e) dt = Some (dateTime a) \<and> now e < dateTime a"
  using book_Inr [OF assms] by (auto simp: new_appointment_def)

lemma sample_book:
  "fst (bookAppointment sample_env (JStr ''P1'') (JStr ''D1'') (JStr ''2999-01-01T09:00:00Z'') empty_db) =
   Inr (new_appointment sample_env ''APT17000000000001'' ''P1'' ''D1'' 32472176400000)"
  by (simp add: bookAppointment_def Let_def insert_appointment_def sample_env_def sample_future_date
      sample_appointment_id empty_db_def)

theorem book_creates_confirmed_witness:
  "\<exists>s'. bookAppointment sample_env (JStr ''P1'') (JStr ''D1'') (JStr ''2999-01-01T09:00:00Z'') empty_db =
     (Inr (new_appointment sample_env ''APT17000000000001'' ''P1'' ''D1'' 32472176400000), s') \<and>
     appointments s' ''APT17000000000001'' =
       Some (new_appointment sample_env ''APT17000000000001'' ''P1'' ''D1'' 32472176400000)"
proof -
  obtain s' where h: "bookAppointment sample_env (JStr ''P1'') (JStr ''D1'') (JStr ''2999-01-01T09:00:00Z'') empty_db =
     (Inr (new_appointment sample_env ''APT17000000000001'' ''P1'' ''D1'' 32472176400000), s')"
    using fst_eq_Inr_obtain [OF sample_book] by blast
  show ?thesis using h book_creates_confirmed [OF h] by (auto simp: new_appointment_def)
qed

text \<open>C30: modifyAppointment reschedules any stored appointment to a future date-time without consulting its status, so a cancelled appointment can be rescheduled.\<close>

theorem modify_ignores_status:
  assumes "aid \<noteq> []" and "appointments s aid = Some a" and "js_truthy ndt"
    and "js_date (tz e) ndt = Some t" and "now e < t"
  shows "modifyAppointment e aid ndt s =
    (Inr (aid, ndt, now e),
     s\<lparr>appointments := (appointments s)(aid \<mapsto> a\<lparr>dateTime := t, modifiedAt := Some (now e), updatedAt := now e\<rparr>)\<rparr>)"
  using assms by (simp add: modifyAppointment_def lifecycle_defs)

theorem modify_ignores_status_witness:
  "status (the (appointments cancelled_db ''A1'')) = Cancelled \<and>
   fst (modifyAppointment sample_env ''A1'' (JStr ''2999-01-01T09:00:00Z'') cancelled_db) =
     Inr (''A1'', JStr ''2999-01-01T09:00:00Z'', 1700000000000)"
  using modify_ignores_status [of "''A1''" cancelled_db
      "sample_appt\<lparr>status := Cancelled, cancelledAt := Some 1700000000000\<rparr>"
      "JStr ''2999-01-01T09:00:00Z''" sample_env 32472176400000]
  by (simp add: cancelled_db_def empty_db_def sample_env_def sample_future_date)

text \<open>C29: checkInPatient succeeds on every stored appointment that is not yet checked in, whatever its status, cancelled included.\<close>

theorem checkIn_succeeds:
  assumes "aid \<noteq> []" and "appointments s aid = Some a" and "\<not> checkedIn a"
  shows "\<exists>q s'. checkInPatient e aid s = (Inr (aid, q, now e), s')"
proof (cases "truthy_queue (queueNumber a)")
  case (Some q)
  with assms show ?thesis
    by (simp add: checkInPatient_def checkin_save_def lifecycle_defs)
next
  case None
  with assms show ?thesis
    by (simp add: checkInPatient_def generateQueueNumber_def queue_generate_def checkin_save_def
        lifecycle_defs Let_def)
qed

theorem checkIn_succeeds_witness:
  "status (the (appointments cancelled_db ''A1'')) = Cancelled \<and>
   (\<exists>q s'. checkInPatient sample_env ''A1'' cancelled_db = (Inr (''A1'', q, 1700000000000), s'))"
  using checkIn_succeeds [of "''A1''" cancelled_db
      "sample_appt\<lparr>status := Cancelled, cancelledAt := Some 1700000000000\<rparr>" sample_env]
  by (simp add: cancelled_db_def empty_db_def sample_env_def sample_appt_def new_appointment_def)

lemma checkIn_Inr_checked:
  assumes "checkInPatient e aid s = (Inr r, s')"
  shows "\<exists>a. appointments s' aid = Some a \<and> checkedIn a"
proof (cases "\<exists>a. appointments s aid = Some a \<and> truthy_queue (queueNumber a) \<noteq> None")
  case True
  with assms show ?thesis
    by (auto simp: checkInPatient_def find_appointment_def split: if_splits dest!: checkin_save_Inr)
next
  case False
  with assms show ?thesis
    by (auto simp: checkInPatient_def find_appointment_def split: if_splits option.splits sum.splits prod.splits
             dest!: checkin_save_Inr)
qed

text \<open>C8: after a successful check-in, checking in the same appointment again fails with "Patient is already checked in" and changes nothing.\<close>

theorem checkIn_twice:
  assumes "checkInPatient e aid s = (Inr r, s')"
  shows "checkInPatient e' aid s' = (Inl (Conflict ''Patient is already checked in''), s')"
proof -
  have "aid \<noteq> []" using assms by (auto simp: checkInPatient_def split: if_splits)
  with checkIn_Inr_checked [OF assms] show ?thesis
    by (auto simp: checkInPatient_def find_appointment_def)
qed

theorem lifecycle_reachable_inv_witness:
  "lifecycle_reachable (snd (bookAppointment sample_env (JStr ''P1'') (JStr ''D1'') (JStr ''2999-01-01T09:00:00Z'') empty_db)) \<and>
   appts_inv (snd (bookAppointment sample_env (JStr ''P1'') (JStr ''D1'') (JStr ''2999-01-01T09:00:00Z'') empty_db))"
proof -
  have r: "lifecycle_reachable (snd (bookAppointment sample_env (JStr ''P1'') (JStr ''D1'') (JStr ''2999-01-01T09:00:00Z'') empty_db))"
    by (rule lifecycle_reachable.step [OF lifecycle_reachable.init lifecycle_step.book])
  show ?thesis using r lifecycle_reachable_inv [OF r] by simp
qed

theorem cancelled_terminal_witness:
  "lifecycle_step cancelled_db (snd (modifyAppointment sample_env ''A1'' (JStr ''2999-01-01T09:00:00Z'') cancelled_db)) \<and>
   appointments cancelled_db ''A1'' = Some (sample_appt\<lparr>status := Cancelled, cancelledAt := Some 1700000000000\<rparr>) \<and>
   (\<exists>a'. appointments (snd (modifyAppointment sample_env ''A1'' (JStr ''2999-01-01T09:00:00Z'') cancelled_db)) ''A1'' = Some a' \<and>
         appointmentId a' = ''A1'' \<and> status a' = Cancelled)"
proof -
  have st: "lifecycle_step cancelled_db (snd (modifyAppointment sample_env ''A1'' (JStr ''2999-01-01T09:00:00Z'') cancelled_db))"
    by (rule lifecycle_step.modify)
  have lk: "appointments cancelled_db ''A1'' = Some (sample_appt\<lparr>status := Cancelled, cancelledAt := Some 1700000000000\<rparr>)"
    by (simp add: cancelled_db_def empty_db_def)
  show ?thesis using st lk cancelled_terminal [OF st lk] by (simp add: sample_appt_def new_appointment_def)
qed

theorem queue_number_never_reassigned_witness:
  "lifecycle_step queued_db (snd (generateQueueNumber sample_env ''A1'' queued_db)) \<and>
   appointments queued_db ''A1'' = Some (sample_appt\<lparr>queueNumber := Some ''Q1401''\<rparr>) \<and>
   (\<exists>a'. appointments (snd (generateQueueNumber sample_env ''A1'' queued_db)) ''A1'' = Some a' \<and>
         queueNumber a' = Some ''Q1401'')"
proof -
  have st: "lifecycle_step queued_db (snd (generateQueueNumber sample_env ''A1'' queued_db))"
    by (rule lifecycle_step.queue)
  have lk: "appointments queued_db ''A1'' = Some (sample_appt\<lparr>queueNumber := Some ''Q1401''\<rparr>)"
    by (simp add: queued_db_def empty_db_def)
  show ?thesis using st lk queue_number_never_reassigned [OF st lk] by simp
qed

theorem checkIn_twice_witness:
  "\<exists>s'. checkInPatient sample_env ''A1'' sample_db = (Inr (''A1'', ''Q1401'', 1700000000000), s') \<and>
        checkInPatient sample_env ''A1'' s' = (Inl (Conflict ''Patient is already checked in''), s')"
proof -
  obtain s' where h: "checkInPatient sample_env ''A1'' sample_db = (Inr (''A1'', ''Q1401'', 1700000000000), s')"
    using fst_eq_Inr_obtain [OF sample_checkIn] by blast
  show ?thesis using h checkIn_twice [OF h] by blast
qed

subsection \<open>Evaluation rules used by the request-level theorems\<close>

lemma generateAppointmentId_not_Nil [simp]: "generateAppointmentId t r \<noteq> []"
  by (simp add: generateAppointmentId_def)

lemma generateQueueNumber_fresh:
  assumes "aid \<noteq> []" and "appointments s aid = Some a" and "queueNumber a = None"
  shows "generateQueueNumber e aid s =
    (Inr (QueueGenerated (queue_number (getDate (tz e) (now e)) (queue_suffix (rnd e))) (now e)),
     s\<lparr>appointments := (appointments s)(aid \<mapsto>
        a\<lparr>queueNumber := Some (queue_number (getDate (tz e) (now e)) (queue_suffix (rnd e))),
          updatedAt := now e\<rparr>)\<rparr>)"
  using assms by (simp add: generateQueueNumber_def queue_generate_def Let_def lifecycle_defs)

lemma checkIn_queued:
  assumes "aid \<noteq> []" and "appointments s aid = Some a" and "\<not> checkedIn a"
    and "queueNumber a = Some q" and "q \<noteq> []"
  shows "fst (checkInPatient e aid s) = Inr (aid, q, now e)"
  using assms by (simp add: checkInPatient_def checkin_save_def lifecycle_defs)

lemma checkIn_again:
  assumes "aid \<noteq> []" and "appointments s aid = Some a" and "checkedIn a"
  shows "checkInPatient e aid s = (Inl (Conflict ''Patient is already checked in''), s)"
  using assms by (simp add: checkInPatient_def find_appointment_def)

end
