(* ===== verification/Availability.thy ===== *)
theory Availability
  imports Appointments
begin

text \<open>
  The doctor availability service: \<open>updateDoctorAvailability\<close> of
  \<open>src/backend/core-functions-db.js\<close>. The request body is a JSON value; the doctor is
  looked up by \<open>doctorId\<close> and provisioned with placeholder fields when absent; the
  schedule entry for the request's date is overwritten in place or appended. The stored
  entry is the schema cast of the request fields; the position is found by comparing each
  stored (string) date with the request's raw date with \<open>===\<close>.
\<close>

section \<open>Request data\<close>

text \<open>The \<open>scheduleData\<close> object: the raw request fields and the write time.\<close>

record schedule_data =
  sd_date :: jval
  sd_startTime :: jval
  sd_endTime :: jval
  sd_available :: jval
  sd_updatedAt :: time

fun js_is_object :: "jval \<Rightarrow> bool" where
  "js_is_object JNull = True"
| "js_is_object (JArr _) = True"
| "js_is_object (JObj _) = True"
| "js_is_object _ = False"

fun js_has_own :: "jval \<Rightarrow> string \<Rightarrow> bool" where
  "js_has_own (JObj kvs) k = has_own kvs k"
| "js_has_own _ k = False"

fun js_get :: "jval \<Rightarrow> string \<Rightarrow> jval" where
  "js_get (JObj kvs) k = obj_get kvs k"
| "js_get _ k = JNull"

text \<open>\<open>s.date === schedule.date\<close> with \<open>s.date\<close> a stored string.\<close>

fun js_eq_str :: "jval \<Rightarrow> string \<Rightarrow> bool" where
  "js_eq_str (JStr x) y = (x = y)"
| "js_eq_str _ y = False"

definition required_fields :: "string list" where
  "required_fields = [''date'', ''startTime'', ''endTime'', ''available'']"

definition schedule_data_of :: "jval \<Rightarrow> time \<Rightarrow> schedule_data" where
  "schedule_data_of sch t =
     \<lparr>sd_date = js_get sch ''date'', sd_startTime = js_get sch ''startTime'',
      sd_endTime = js_get sch ''endTime'', sd_available = js_get sch ''available'', sd_updatedAt = t\<rparr>"

text \<open>The schema cast of \<open>scheduleData\<close> into a stored subdocument.\<close>

definition cast_entry :: "schedule_data \<Rightarrow> fault + schedule_entry" where
  "cast_entry sd =
     (case cast_required_string ''date'' (sd_date sd) of
        Inl f \<Rightarrow> Inl f
      | Inr d \<Rightarrow>
        (case cast_required_string ''startTime'' (sd_startTime sd) of
           Inl f \<Rightarrow> Inl f
         | Inr st \<Rightarrow>
           (case cast_required_string ''endTime'' (sd_endTime sd) of
              Inl f \<Rightarrow> Inl f
            | Inr en \<Rightarrow>
              (case cast_boolean ''available'' (sd_available sd) of
                 Inl f \<Rightarrow> Inl f
               | Inr av \<Rightarrow>
                   Inr \<lparr>date = d, startTime = st, endTime = en, available = av,
                        sched_updatedAt = sd_updatedAt sd\<rparr>))))"

section \<open>Doctor documents\<close>

definition new_doctor :: "time \<Rightarrow> string \<Rightarrow> doctor" where
  "new_doctor t did =
     \<lparr>doctor_doctorId = did, name = ''Dr. '' @ did, specialization = ''General Medicine'',
      schedules = [], doctor_createdAt = t, doctor_updatedAt = t\<rparr>"

text \<open>\<open>doctor.save()\<close>: an insert for a new document (the lookup just failed, so the
  unique key is free), an update of the stored one otherwise.\<close>

definition store_doctor :: "time \<Rightarrow> string \<Rightarrow> doctor \<Rightarrow> db \<Rightarrow> db" where
  "store_doctor t did d s = s\<lparr>doctors := (doctors s)(did \<mapsto> d\<lparr>doctor_updatedAt := t\<rparr>)\<rparr>"

section \<open>The upsert\<close>

text \<open>\<open>findIndex\<close> on the raw date, then \<open>schedules[i] = scheduleData\<close> or \<open>push\<close>.\<close>

definition upsert_schedule :: "jval \<Rightarrow> schedule_entry \<Rightarrow> schedule_entry list \<Rightarrow> schedule_entry list" where
  "upsert_schedule raw e ss =
     (case find_idx (\<lambda>x. js_eq_str raw (date x)) ss of
        Some i \<Rightarrow> ss[i := e]
      | None \<Rightarrow> ss @ [e])"

section \<open>updateDoctorAvailability\<close>

definition updateDoctorAvailability ::
    "env \<Rightarrow> string \<Rightarrow> jval \<Rightarrow> db \<Rightarrow> (error + string \<times> schedule_data \<times> time) \<times> db" where
  "updateDoctorAvailability e did sch s =
     (if did = [] then (Inl (Invalid ''Doctor ID is required''), s)
      else if \<not> js_truthy sch \<or> \<not> js_is_object sch
      then (Inl (Invalid ''Valid schedule object is required''), s)
      else if js_has_own sch ''hasOwnProperty''
      then (Inl (Failed ''Error updating doctor availability: '' (NotAFunction ''schedule.hasOwnProperty'')), s)
      else if \<not> list_all (js_has_own sch) required_fields
      then (Inl (Invalid ''Schedule must include: date, startTime, endTime, available''), s)
      else
        (let doc = (case doctors s did of Some d \<Rightarrow> d | None \<Rightarrow> new_doctor (now e) did);
             sd = schedule_data_of sch (now e)
         in case cast_entry sd of
              Inl f \<Rightarrow> (Inl (Failed ''Error updating doctor availability: '' f), s)
            | Inr entry \<Rightarrow>
                (Inr (did, sd, now e),
                 store_doctor (now e) did
                   (doc\<lparr>schedules := upsert_schedule (sd_date sd) entry (schedules doc)\<rparr>) s)))"

section \<open>Abstraction: the schedule as a map from dates\<close>

definition sched_map :: "schedule_entry list \<Rightarrow> string \<rightharpoonup> schedule_entry" where
  "sched_map ss = map_of (map (\<lambda>x. (date x, x)) ss)"

definition dates_distinct :: "schedule_entry list \<Rightarrow> bool" where
  "dates_distinct ss \<longleftrightarrow> distinct (map date ss)"

text \<open>The schedule list of a doctor in a database, empty for an absent doctor.\<close>

definition doctor_schedules :: "db \<Rightarrow> string \<Rightarrow> schedule_entry list" where
  "doctor_schedules s did = (case doctors s did of None \<Rightarrow> [] | Some d \<Rightarrow> schedules d)"

section \<open>Sample data\<close>

definition sample_schedule :: "jval \<Rightarrow> string \<Rightarrow> string \<Rightarrow> jval" where
  "sample_schedule d st en =
     JObj [(''date'', d), (''startTime'', JStr st), (''endTime'', JStr en), (''available'', JBool True)]"

section \<open>Lemmas\<close>

lemma map_of_list_update_key:
  "distinct (map fst xs) \<Longrightarrow> i < length xs \<Longrightarrow> fst (xs ! i) = k \<Longrightarrow>
   map_of (xs[i := (k, v)]) = (map_of xs)(k \<mapsto> v)"
proof (induction xs arbitrary: i)
  case Nil
  then show ?case by simp
next
  case (Cons x xs)
  show ?case
  proof (cases i)
    case 0
    with Cons.prems show ?thesis by (cases x) (auto simp: fun_eq_iff)
  next
    case (Suc j)
    with Cons.prems have "map_of (xs[j := (k, v)]) = (map_of xs)(k \<mapsto> v)"
      by (intro Cons.IH) auto
    moreover have "fst x \<noteq> k"
    proof -
      from Cons.prems Suc have j: "j < length xs" "fst (xs ! j) = k" by simp_all
      then have "k \<in> set (map fst xs)" by (force simp: in_set_conv_nth)
      with Cons.prems(1) show ?thesis by auto
    qed
    ultimately show ?thesis using Suc by (cases x) (auto simp: fun_eq_iff)
  qed
qed

lemma find_idx_date:
  "find_idx (\<lambda>x. js_eq_str (JStr d) (date x)) ss = find_idx (\<lambda>x. d = date x) ss"
  by (induction ss) auto

lemma upsert_refines:
  assumes "dates_distinct ss"
  shows "sched_map (upsert_schedule (JStr (date e)) e ss) = (sched_map ss)(date e \<mapsto> e)"
proof (cases "find_idx (\<lambda>x. date e = date x) ss")
  case None
  then have "\<forall>x \<in> set ss. date e \<noteq> date x" by (simp add: find_idx_None_iff)
  then have "map_of (map (\<lambda>x. (date x, x)) ss) (date e) = None"
    by (auto simp: map_of_eq_None_iff)
  then have "map_of (map (\<lambda>x. (date x, x)) ss @ [(date e, e)]) = (map_of (map (\<lambda>x. (date x, x)) ss))(date e \<mapsto> e)"
    by (intro ext) (simp add: map_of_append map_add_def split: option.split)
  with None show ?thesis by (simp add: upsert_schedule_def find_idx_date sched_map_def)
next
  case (Some i)
  from find_idx_Some [OF Some] have i: "i < length ss" "date (ss ! i) = date e" by auto
  have "map (\<lambda>x. (date x, x)) (ss[i := e]) = (map (\<lambda>x. (date x, x)) ss)[i := (date e, e)]"
    by (simp add: map_update)
  moreover have "map_of ((map (\<lambda>x. (date x, x)) ss)[i := (date e, e)]) =
      (map_of (map (\<lambda>x. (date x, x)) ss))(date e \<mapsto> e)"
    using assms i by (intro map_of_list_update_key) (simp_all add: dates_distinct_def comp_def)
  ultimately show ?thesis using Some by (simp add: upsert_schedule_def find_idx_date sched_map_def)
qed

lemma upsert_distinct:
  assumes "dates_distinct ss"
  shows "dates_distinct (upsert_schedule (JStr (date e)) e ss)"
proof (cases "find_idx (\<lambda>x. date e = date x) ss")
  case None
  then have "date e \<notin> set (map date ss)" by (auto simp: find_idx_None_iff)
  with None assms show ?thesis by (simp add: upsert_schedule_def find_idx_date dates_distinct_def)
next
  case (Some i)
  from find_idx_Some [OF Some] have i: "i < length ss" "date (ss ! i) = date e" by auto
  then have "(map date ss)[i := date e] = map date ss" by (metis list_update_id nth_map length_map)
  with Some assms show ?thesis
    by (simp add: upsert_schedule_def find_idx_date dates_distinct_def map_update)
qed

lemma filter_date_singleton:
  "distinct (map date ss) \<Longrightarrow> sched_map ss d = Some x \<Longrightarrow> filter (\<lambda>y. date y = d) ss = [x]"
proof (induction ss)
  case Nil
  then show ?case by (simp add: sched_map_def)
next
  case (Cons y ys)
  show ?case
  proof (cases "date y = d")
    case True
    with Cons.prems have "x = y" and "\<forall>z \<in> set ys. date z \<noteq> d"
      by (auto simp: sched_map_def image_iff)
    with True show ?thesis by (simp add: filter_empty_conv)
  next
    case False
    with Cons.prems Cons.IH show ?thesis by (simp add: sched_map_def)
  qed
qed

lemma cast_entry_Inr:
  "cast_entry sd = Inr entry \<Longrightarrow>
   sd_date sd = JStr (date entry) \<or> (\<forall>x. sd_date sd \<noteq> JStr x)"
  by (cases "sd_date sd") (auto simp: cast_entry_def split: sum.splits if_splits)

lemma cast_entry_JStr:
  "cast_entry sd = Inr entry \<Longrightarrow> sd_date sd = JStr d \<Longrightarrow> date entry = d"
  using cast_entry_Inr by fastforce

lemma updateAvailability_Inr:
  assumes "updateDoctorAvailability e did sch s = (Inr r, s')"
  shows "\<exists>entry. cast_entry (schedule_data_of sch (now e)) = Inr entry \<and>
           r = (did, schedule_data_of sch (now e), now e) \<and>
           doctor_schedules s' did =
             upsert_schedule (js_get sch ''date'') entry (doctor_schedules s did) \<and>
           doctors s' did \<noteq> None \<and>
           (doctors s did = None \<longrightarrow> (\<exists>d. doctors s' did = Some d \<and> name d = ''Dr. '' @ did \<and>
                                    specialization d = ''General Medicine'')) \<and>
           appointments s' = appointments s \<and> notifications s' = notifications s"
  using assms
  by (auto simp: updateDoctorAvailability_def Let_def store_doctor_def doctor_schedules_def
           new_doctor_def schedule_data_of_def split: if_splits sum.splits option.splits)

text \<open>C18: a successful availability update with a string date refines the schedule seen as a map from dates: the entry for that date is replaced by the new one, every other date is unchanged, and the dates stay distinct.\<close>

theorem availability_refines:
  assumes "updateDoctorAvailability e did sch s = (Inr r, s')"
    and "js_get sch ''date'' = JStr d" and "dates_distinct (doctor_schedules s did)"
  shows "\<exists>entry. cast_entry (schedule_data_of sch (now e)) = Inr entry \<and> date entry = d \<and>
           dates_distinct (doctor_schedules s' did) \<and>
           sched_map (doctor_schedules s' did) = (sched_map (doctor_schedules s did))(d \<mapsto> entry)"
proof -
  from updateAvailability_Inr [OF assms(1)] obtain entry where
    c: "cast_entry (schedule_data_of sch (now e)) = Inr entry"
    and u: "doctor_schedules s' did = upsert_schedule (js_get sch ''date'') entry (doctor_schedules s did)"
    by blast
  have d: "date entry = d"
    using cast_entry_JStr [OF c] assms(2) by (simp add: schedule_data_of_def)
  show ?thesis
    using c d u assms(2,3) upsert_refines upsert_distinct by fastforce
qed

text \<open>Two successful updates for the same doctor and the same string date leave exactly one entry for that date, the one of the second update.\<close>

theorem availability_same_date_twice:
  assumes "updateDoctorAvailability e1 did sch1 s = (Inr r1, s1)"
    and "updateDoctorAvailability e2 did sch2 s1 = (Inr r2, s2)"
    and "js_get sch1 ''date'' = JStr d" and "js_get sch2 ''date'' = JStr d"
    and "dates_distinct (doctor_schedules s did)"
  shows "\<exists>entry. cast_entry (schedule_data_of sch2 (now e2)) = Inr entry \<and>
           filter (\<lambda>x. date x = d) (doctor_schedules s2 did) = [entry]"
proof -
  from updateAvailability_Inr [OF assms(1)] obtain entry1 where
    c1: "cast_entry (schedule_data_of sch1 (now e1)) = Inr entry1"
    and u1: "doctor_schedules s1 did = upsert_schedule (JStr d) entry1 (doctor_schedules s did)"
    using assms(3) by auto
  have d1: "date entry1 = d" using cast_entry_JStr [OF c1] assms(3) by (simp add: schedule_data_of_def)
  from updateAvailability_Inr [OF assms(2)] obtain entry2 where
    c2: "cast_entry (schedule_data_of sch2 (now e2)) = Inr entry2"
    and u2: "doctor_schedules s2 did = upsert_schedule (JStr d) entry2 (doctor_schedules s1 did)"
    using assms(4) by auto
  have d2: "date entry2 = d" using cast_entry_JStr [OF c2] assms(4) by (simp add: schedule_data_of_def)
  have dist1: "dates_distinct (doctor_schedules s1 did)"
    using u1 d1 upsert_distinct [OF assms(5)] by metis
  have dist2: "dates_distinct (doctor_schedules s2 did)"
    using u2 d2 upsert_distinct [OF dist1] by metis
  have "sched_map (doctor_schedules s2 did) d = Some entry2"
    using u2 d2 upsert_refines [OF dist1, of entry2] by simp
  with dist2 c2 show ?thesis by (auto simp: dates_distinct_def intro: filter_date_singleton)
qed

text \<open>A schedule object without one of the four required keys is refused with the validation message and nothing is written.\<close>

theorem availability_missing_field:
  assumes "did \<noteq> []" and "js_truthy sch" and "js_is_object sch"
    and "\<not> js_has_own sch ''hasOwnProperty''" and "\<not> js_has_own sch ''available''"
  shows "updateDoctorAvailability e did sch s =
           (Inl (Invalid ''Schedule must include: date, startTime, endTime, available''), s)"
  using assms by (simp add: updateDoctorAvailability_def required_fields_def)

text \<open>A request object with an own key hasOwnProperty (a JSON value, never a function) makes
  the call schedule.hasOwnProperty(field) throw a TypeError, which the catch block reports;
  nothing is written.\<close>

theorem availability_own_hasOwnProperty:
  assumes "did \<noteq> []" and "js_truthy sch" and "js_is_object sch"
    and "js_has_own sch ''hasOwnProperty''"
  shows "updateDoctorAvailability e did sch s =
           (Inl (Failed ''Error updating doctor availability: '' (NotAFunction ''schedule.hasOwnProperty'')), s)"
  using assms by (simp add: updateDoctorAvailability_def)

lemma sample_schedule_date: "js_get (sample_schedule d st en) ''date'' = d"
  by (simp add: sample_schedule_def obj_get_def)

lemma upsert_numeric: "upsert_schedule (JNum n) x ss = ss @ [x]"
proof -
  have "find_idx (\<lambda>y. js_eq_str (JNum n) (date y)) ss = None" by (simp add: find_idx_None_iff)
  then show ?thesis by (simp add: upsert_schedule_def)
qed

text \<open>C31: the position is found by comparing each stored string date with the raw request
  date using strict equality, which never holds for a number: every successful update with a
  numeric date n appends an entry for the date "n" and never overwrites, so repeated updates
  for the same numeric date accumulate duplicate entries.\<close>

theorem availability_numeric_date_duplicates:
  assumes "updateDoctorAvailability e did b s = (Inr r, s')" and "js_get b ''date'' = JNum n"
  shows "\<exists>x. doctor_schedules s' did = doctor_schedules s did @ [x] \<and> date x = int_str n"
  using assms
  by (auto simp: updateDoctorAvailability_def Let_def schedule_data_of_def cast_entry_def upsert_numeric
      store_doctor_def doctor_schedules_def new_doctor_def split: if_splits sum.splits option.splits)

lemma sample_numeric_update:
  "fst (updateDoctorAvailability sample_env ''D1'' (sample_schedule (JNum 5) ''09:00'' ''11:00'') empty_db) =
   Inr (''D1'', schedule_data_of (sample_schedule (JNum 5) ''09:00'' ''11:00'') 1700000000000, 1700000000000)"
  by (simp add: updateDoctorAvailability_def sample_schedule_def required_fields_def has_own_def
      obj_get_def schedule_data_of_def cast_entry_def Let_def sample_env_def)

theorem availability_numeric_date_duplicates_witness:
  "\<exists>r s'. updateDoctorAvailability sample_env ''D1'' (sample_schedule (JNum 5) ''09:00'' ''11:00'') empty_db =
      (Inr r, s') \<and>
    (\<exists>x. doctor_schedules s' ''D1'' = doctor_schedules empty_db ''D1'' @ [x] \<and> date x = ''5'')"
proof -
  obtain s' where u: "updateDoctorAvailability sample_env ''D1'' (sample_schedule (JNum 5) ''09:00'' ''11:00'') empty_db =
      (Inr (''D1'', schedule_data_of (sample_schedule (JNum 5) ''09:00'' ''11:00'') 1700000000000, 1700000000000), s')"
    using fst_eq_Inr_obtain [OF sample_numeric_update] by blast
  have f: "int_str 5 = ''5''" by code_simp
  show ?thesis
    using u availability_numeric_date_duplicates [OF u sample_schedule_date] by (auto simp: f)
qed

lemma sample_availability:
  "fst (updateDoctorAvailability sample_env ''D1'' (sample_schedule (JStr ''2024-05-01'') ''09:00'' ''11:00'') empty_db) =
   Inr (''D1'', schedule_data_of (sample_schedule (JStr ''2024-05-01'') ''09:00'' ''11:00'') 1700000000000, 1700000000000)"
  by (simp add: updateDoctorAvailability_def sample_schedule_def required_fields_def has_own_def
      obj_get_def schedule_data_of_def cast_entry_def Let_def sample_env_def)

lemma sample_schedule_twice:
  "fst (updateDoctorAvailability sample_env ''D1'' (sample_schedule (JStr ''2024-05-01'') ''10:00'' ''12:00'')
     (snd (updateDoctorAvailability sample_env ''D1'' (sample_schedule (JStr ''2024-05-01'') ''09:00'' ''11:00'') empty_db))) =
   Inr (''D1'', schedule_data_of (sample_schedule (JStr ''2024-05-01'') ''10:00'' ''12:00'') 1700000000000, 1700000000000)"
  by (simp add: updateDoctorAvailability_def sample_schedule_def required_fields_def has_own_def
      obj_get_def schedule_data_of_def cast_entry_def Let_def sample_env_def store_doctor_def
      new_doctor_def empty_db_def upsert_schedule_def)

theorem availability_refines_witness:
  "\<exists>s' entry. updateDoctorAvailability sample_env ''D1'' (sample_schedule (JStr ''2024-05-01'') ''09:00'' ''11:00'') empty_db =
      (Inr (''D1'', schedule_data_of (sample_schedule (JStr ''2024-05-01'') ''09:00'' ''11:00'') 1700000000000, 1700000000000), s') \<and>
    sched_map (doctor_schedules s' ''D1'') = [''2024-05-01'' \<mapsto> entry]"
proof -
  obtain s' where h: "updateDoctorAvailability sample_env ''D1'' (sample_schedule (JStr ''2024-05-01'') ''09:00'' ''11:00'') empty_db =
      (Inr (''D1'', schedule_data_of (sample_schedule (JStr ''2024-05-01'') ''09:00'' ''11:00'') 1700000000000, 1700000000000), s')"
    using fst_eq_Inr_obtain [OF sample_availability] by blast
  have dd: "dates_distinct (doctor_schedules empty_db ''D1'')"
    by (simp add: dates_distinct_def doctor_schedules_def empty_db_def)
  from availability_refines [OF h sample_schedule_date dd] h show ?thesis
    by (auto simp: doctor_schedules_def empty_db_def sched_map_def)
qed

theorem availability_same_date_twice_witness:
  "\<exists>s1 s2 entry.
     updateDoctorAvailability sample_env ''D1'' (sample_schedule (JStr ''2024-05-01'') ''09:00'' ''11:00'') empty_db =
       (Inr (''D1'', schedule_data_of (sample_schedule (JStr ''2024-05-01'') ''09:00'' ''11:00'') 1700000000000, 1700000000000), s1) \<and>
     updateDoctorAvailability sample_env ''D1'' (sample_schedule (JStr ''2024-05-01'') ''10:00'' ''12:00'') s1 =
       (Inr (''D1'', schedule_data_of (sample_schedule (JStr ''2024-05-01'') ''10:00'' ''12:00'') 1700000000000, 1700000000000), s2) \<and>
     filter (\<lambda>x. date x = ''2024-05-01'') (doctor_schedules s2 ''D1'') = [entry]"
proof -
  obtain s1 where h1: "updateDoctorAvailability sample_env ''D1'' (sample_schedule (JStr ''2024-05-01'') ''09:00'' ''11:00'') empty_db =
       (Inr (''D1'', schedule_data_of (sample_schedule (JStr ''2024-05-01'') ''09:00'' ''11:00'') 1700000000000, 1700000000000), s1)"
    using fst_eq_Inr_obtain [OF sample_availability] by blast
  obtain s2 where h2: "updateDoctorAvailability sample_env ''D1'' (sample_schedule (JStr ''2024-05-01'') ''10:00'' ''12:00'') s1 =
       (Inr (''D1'', schedule_data_of (sample_schedule (JStr ''2024-05-01'') ''10:00'' ''12:00'') 1700000000000, 1700000000000), s2)"
    using fst_eq_Inr_obtain [OF sample_schedule_twice] h1 by auto
  have dd: "dates_distinct (doctor_schedules empty_db ''D1'')"
    by (simp add: dates_distinct_def doctor_schedules_def empty_db_def)
  from availability_same_date_twice [OF h1 h2 sample_schedule_date sample_schedule_date dd] h1 h2
  show ?thesis by blast
qed

theorem availability_missing_field_witness:
  "updateDoctorAvailability sample_env ''D1''
     (JObj [(''date'', JStr ''2024-05-01''), (''startTime'', JStr ''09:00''), (''endTime'', JStr ''11:00'')]) empty_db =
   (Inl (Invalid ''Schedule must include: date, startTime, endTime, available''), empty_db)"
  by (rule availability_missing_field) (simp_all add: has_own_def)

theorem availability_own_hasOwnProperty_witness:
  "updateDoctorAvailability sample_env ''D1'' (JObj [(''hasOwnProperty'', JNum 1), (''date'', JStr ''2024-05-01'')]) empty_db =
   (Inl (Failed ''Error updating doctor availability: '' (NotAFunction ''schedule.hasOwnProperty'')), empty_db)"
  by (rule availability_own_hasOwnProperty) (simp_all add: has_own_def)

end
