(* ===== verification/Notifications.thy ===== *)
theory Notifications
  imports Appointments
begin

text \<open>
  The notification service: \<open>sendNotification\<close> and \<open>generateNotificationId\<close> of
  \<open>src/backend/core-functions-db.js\<close>. A notification is only logged: the stored
  document has delivery method \<open>console\<close> and status \<open>sent\<close>. The message is the
  request value; \<open>message.trim()\<close> on a value that is not a string throws a
  \<open>TypeError\<close>, which the catch block turns into a failed result.
\<close>

section \<open>Operations\<close>

definition generateNotificationId :: "time \<Rightarrow> rnd \<Rightarrow> string" where
  "generateNotificationId t r = ''NOT'' @ int_str t @ nat_str (rand_below 1000 r)"

text \<open>\<open>message.trim()\<close> on a request value.\<close>

fun js_trim :: "jval \<Rightarrow> fault + string" where
  "js_trim (JStr m) = Inr (trim m)"
| "js_trim _ = Inl (NotAFunction ''message.trim'')"

definition new_notification :: "time \<Rightarrow> string \<Rightarrow> string \<Rightarrow> string \<Rightarrow> notification" where
  "new_notification t nid pid m =
     \<lparr>notificationId = nid, notif_patientId = pid, notif_message = m, notif_type = General,
      deliveryMethod = Console, notif_status = Sent, sentAt = t, notif_createdAt = t,
      notif_updatedAt = t\<rparr>"

text \<open>\<open>new Notification(doc).save()\<close> with the unique index on \<open>notificationId\<close>.\<close>

definition insert_notification :: "notification \<Rightarrow> db \<Rightarrow> fault + db" where
  "insert_notification n s =
     (if notifications s (notificationId n) \<noteq> None
      then Inl (DuplicateKey ''notificationId'')
      else Inr (s\<lparr>notifications := (notifications s)(notificationId n \<mapsto> n)\<rparr>))"

definition sendNotification :: "env \<Rightarrow> jval \<Rightarrow> jval \<Rightarrow> db \<Rightarrow> (error + string \<times> string \<times> time) \<times> db" where
  "sendNotification e pid msg s =
     (let fail = (\<lambda>f. (Inl (Failed ''Error sending notification: '' f), s)) in
      if \<not> js_truthy pid then (Inl (Invalid ''Patient ID is required''), s)
      else if \<not> js_truthy msg then (Inl (Invalid ''Notification message cannot be empty''), s)
      else case js_trim msg of
        Inl f \<Rightarrow> fail f
      | Inr m \<Rightarrow>
          if m = [] then (Inl (Invalid ''Notification message cannot be empty''), s)
          else
            (let nid = generateNotificationId (now e) (rnd e) in
             case cast_required_string ''patientId'' pid of
               Inl f \<Rightarrow> fail f
             | Inr p \<Rightarrow>
                 (case insert_notification (new_notification (now e) nid p m) s of
                    Inl f \<Rightarrow> fail f
                  | Inr s' \<Rightarrow> (Inr (nid, m, now e), s'))))"

section \<open>Lemmas\<close>

lemma send_Inr:
  assumes "sendNotification e pid msg s = (Inr (nid, m, t), s')"
  shows "\<exists>raw p. msg = JStr raw \<and> m = trim raw \<and> m \<noteq> [] \<and> t = now e \<and>
           nid = generateNotificationId (now e) (rnd e) \<and> notifications s nid = None \<and>
           cast_required_string ''patientId'' pid = Inr p \<and>
           s' = s\<lparr>notifications := (notifications s)(nid \<mapsto> new_notification (now e) nid p m)\<rparr>"
  using assms
  by (cases msg) (auto simp: sendNotification_def Let_def insert_notification_def new_notification_def
                       split: if_splits sum.splits)

text \<open>A message that is empty or only whitespace is refused with "Notification message cannot be empty" and nothing is stored.\<close>

theorem send_blank_rejected:
  assumes "js_truthy pid" and "\<forall>c \<in> set m. js_ws c"
  shows "sendNotification e pid (JStr m) s = (Inl (Invalid ''Notification message cannot be empty''), s)"
  using assms by (simp add: sendNotification_def Let_def trim_Nil_iff)

theorem send_blank_rejected_witness:
  "sendNotification sample_env (JStr ''P1'') (JStr ''  '') empty_db =
   (Inl (Invalid ''Notification message cannot be empty''), empty_db)"
  by (rule send_blank_rejected) (simp_all add: js_ws_def)

text \<open>C28: a successful send stores a fresh notification whose message is the trimmed request string, non-empty and without surrounding whitespace, typed general, delivered to the console, with status sent, and touches no other collection.\<close>

theorem send_stores_trimmed:
  assumes "sendNotification e pid msg s = (Inr (nid, m, t), s')"
  shows "\<exists>n. notifications s nid = None \<and> notifications s' nid = Some n \<and>
           notif_message n = m \<and> m \<noteq> [] \<and> \<not> js_ws (hd m) \<and> \<not> js_ws (last m) \<and>
           (\<exists>raw. msg = JStr raw \<and> m = trim raw) \<and>
           notif_type n = General \<and> deliveryMethod n = Console \<and> notif_status n = Sent \<and>
           sentAt n = now e \<and> appointments s' = appointments s \<and> doctors s' = doctors s"
proof -
  from send_Inr [OF assms] obtain raw p where
    r: "msg = JStr raw" "m = trim raw" "m \<noteq> []" "notifications s nid = None"
       "s' = s\<lparr>notifications := (notifications s)(nid \<mapsto> new_notification (now e) nid p m)\<rparr>"
    by blast
  with trim_ends [of raw] show ?thesis by (simp add: new_notification_def)
qed

lemma sample_send:
  "fst (sendNotification sample_env (JStr ''P1'') (JStr ''  Your turn is next '') empty_db) =
   Inr (''NOT17000000000001'', ''Your turn is next'', 1700000000000)"
  by (simp add: sendNotification_def Let_def trim_def js_ws_def generateNotificationId_def
      rand_below_def int_str_def nat_str.simps insert_notification_def sample_env_def empty_db_def)

text \<open>C32: a truthy message that is not a string (a number) makes message.trim() throw, and the caught TypeError is reported as a generic failure rather than a validation error.\<close>

theorem send_nonstring_message:
  assumes "js_truthy pid" and "n \<noteq> 0"
  shows "sendNotification e pid (JNum n) s =
           (Inl (Failed ''Error sending notification: '' (NotAFunction ''message.trim'')), s)"
  using assms by (simp add: sendNotification_def)

theorem send_stores_trimmed_witness:
  "\<exists>s'. sendNotification sample_env (JStr ''P1'') (JStr ''  Your turn is next '') empty_db =
      (Inr (''NOT17000000000001'', ''Your turn is next'', 1700000000000), s') \<and>
    (\<exists>n. notifications s' ''NOT17000000000001'' = Some n \<and> notif_message n = ''Your turn is next'' \<and>
         deliveryMethod n = Console)"
proof -
  obtain s' where h: "sendNotification sample_env (JStr ''P1'') (JStr ''  Your turn is next '') empty_db =
      (Inr (''NOT17000000000001'', ''Your turn is next'', 1700000000000), s')"
    using fst_eq_Inr_obtain [OF sample_send] by blast
  show ?thesis using h send_stores_trimmed [OF h] by blast
qed

theorem send_nonstring_message_witness:
  "sendNotification sample_env (JStr ''P1'') (JNum 5) empty_db =
   (Inl (Failed ''Error sending notification: '' (NotAFunction ''message.trim'')), empty_db)"
  by (rule send_nonstring_message) simp_all

end
