(* ===== verification/Routes.thy ===== *)
theory Routes
  imports Availability Notifications
begin

text \<open>
  The HTTP API layer, \<open>src/backend/routes/appointments.js\<close>: each route takes its path
  parameter (a string) and fields of the JSON body, calls one service function and answers
  with its result, with status 201 (booking) or 200 on success and 400 on failure. The
  routes are a datatype; \<open>dispatch\<close> is the router; every request is one step of the
  system, and the invariant of the stored appointments holds in every reachable state.
\<close>

section \<open>Routes and results\<close>

datatype route =
    BookRoute
  | CancelRoute string
  | ModifyRoute string
  | QueueRoute string
  | CheckInRoute string
  | AvailabilityRoute string
  | NotifyRoute

datatype api_result =
    BookResult "error + appointment"
  | CancelResult "error + string \<times> time"
  | ModifyResult "error + string \<times> jval \<times> time"
  | QueueResult "error + queue_result"
  | CheckInResult "error + string \<times> string \<times> time"
  | AvailabilityResult "error + string \<times> schedule_data \<times> time"
  | NotifyResult "error + string \<times> string \<times> time"

fun api_success :: "api_result \<Rightarrow> bool" where
  "api_success (BookResult r) = (\<not> isl r)"
| "api_success (CancelResult r) = (\<not> isl r)"
| "api_success (ModifyResult r) = (\<not> isl r)"
| "api_success (QueueResult r) = (\<not> isl r)"
| "api_success (CheckInResult r) = (\<not> isl r)"
| "api_success (AvailabilityResult r) = (\<not> isl r)"
| "api_success (NotifyResult r) = (\<not> isl r)"

text \<open>\<open>if (result.success) res.status(ok) else res.status(400)\<close>.\<close>

definition respond :: "nat \<Rightarrow> api_result \<Rightarrow> nat \<times> api_result" where
  "respond ok r = (if api_success r then ok else 400, r)"

section \<open>The router\<close>

text \<open>\<open>body\<close> is \<open>req.body\<close>; destructuring a field of it is \<open>js_get\<close>. The
  availability route passes the whole body as the schedule.\<close>

fun dispatch :: "env \<Rightarrow> route \<Rightarrow> jval \<Rightarrow> db \<Rightarrow> (nat \<times> api_result) \<times> db" where
  "dispatch e BookRoute body s =
     (let (r, s') = bookAppointment e (js_get body ''patientId'') (js_get body ''doctorId'')
                      (js_get body ''dateTime'') s
      in (respond 201 (BookResult r), s'))"
| "dispatch e (CancelRoute aid) body s =
     (let (r, s') = cancelAppointment e aid s in (respond 200 (CancelResult r), s'))"
| "dispatch e (ModifyRoute aid) body s =
     (let (r, s') = modifyAppointment e aid (js_get body ''newDateTime'') s
      in (respond 200 (ModifyResult r), s'))"
| "dispatch e (QueueRoute aid) body s =
     (let (r, s') = generateQueueNumber e aid s in (respond 200 (QueueResult r), s'))"
| "dispatch e (CheckInRoute aid) body s =
     (let (r, s') = checkInPatient e aid s in (respond 200 (CheckInResult r), s'))"
| "dispatch e (AvailabilityRoute did) body s =
     (let (r, s') = updateDoctorAvailability e did body s
      in (respond 200 (AvailabilityResult r), s'))"
| "dispatch e NotifyRoute body s =
     (let (r, s') = sendNotification e (js_get body ''patientId'') (js_get body ''message'') s
      in (respond 200 (NotifyResult r), s'))"

section \<open>Lemmas\<close>

lemma availability_appointments [simp]:
  "appointments (snd (updateDoctorAvailability e did sch s)) = appointments s"
  by (simp add: updateDoctorAvailability_def Let_def store_doctor_def split: sum.splits)

lemma send_appointments [simp]:
  "appointments (snd (sendNotification e pid msg s)) = appointments s"
  by (simp add: sendNotification_def Let_def insert_notification_def split: sum.splits)

lemma dispatch_book_Inr:
  assumes "dispatch e BookRoute body s = ((c, BookResult (Inr a)), s1)"
  shows "c = 201 \<and> bookAppointment e (js_get body ''patientId'') (js_get body ''doctorId'')
           (js_get body ''dateTime'') s = (Inr a, s1)"
  using assms by (auto simp: respond_def split: prod.splits)

lemma dispatch_queue_shape: "\<exists>c r s'. dispatch e (QueueRoute aid) b s = ((c, QueueResult r), s')"
  by (simp add: split_def Let_def respond_def)

lemma dispatch_checkIn_shape: "\<exists>c r s'. dispatch e (CheckInRoute aid) b s = ((c, CheckInResult r), s')"
  by (simp add: split_def Let_def respond_def)

text \<open>Every route answers 400 exactly when its service call failed, and 201 (booking) or 200 (every other route) when it succeeded.\<close>

theorem dispatch_status:
  "fst (fst (dispatch e rt body s)) =
     (if api_success (snd (fst (dispatch e rt body s)))
      then (if rt = BookRoute then 201 else 200) else 400)"
  by (cases rt) (simp_all add: respond_def split_def Let_def)

end
