(* ===== verification/Responses.thy ===== *)
theory Responses
  imports Routes
begin

text \<open>
  The bodies the router sends: every service of \<open>src/backend/core-functions-db.js\<close>
  returns an object \<open>{success, message, ...}\<close> whose further fields depend on the service
  and the branch, and \<open>res.json\<close> serialises it (a \<open>Date\<close> as its ISO string). Here
  \<open>response_json\<close> builds that object from the route, the request body (some fields echo
  request values) and the modelled result. A typing judgement on JSON values states what
  every client may rely on: a boolean \<open>success\<close> that agrees with the status code, a
  string \<open>message\<close>, and on success the fields of that route with their types.
\<close>

section \<open>Messages\<close>

text \<open>\<open>data.message\<close> of a failed result: the service's message, or its prefix followed by
  the exception's message. The texts Mongoose and V8 give their exceptions are stood in for
  by short descriptions naming the same path.\<close>

fun fault_message :: "fault \<Rightarrow> string" where
  "fault_message (DuplicateKey k) = ''E11000 duplicate key error: '' @ k"
| "fault_message (CastFailed p) = ''Cast failed for path '' @ p"
| "fault_message (RequiredMissing p) = ''Path '' @ p @ '' is required.''"
| "fault_message (DocumentNotFound k) = ''No document found for '' @ k"
| "fault_message (NotAFunction f) = f @ '' is not a function''"

fun error_message :: "error \<Rightarrow> string" where
  "error_message (Invalid m) = m"
| "error_message (NotFound m) = m"
| "error_message (Conflict m) = m"
| "error_message (Failed p f) = p @ fault_message f"

section \<open>Response bodies\<close>

definition iso_json :: "time \<Rightarrow> jval" where
  "iso_json t = JStr (toISOString t)"

definition fail_json :: "error \<Rightarrow> (string \<times> jval) list \<Rightarrow> jval" where
  "fail_json err extra = JObj ([(''success'', JBool False), (''message'', JStr (error_message err))] @ extra)"

definition ok_json :: "string \<Rightarrow> (string \<times> jval) list \<Rightarrow> jval" where
  "ok_json msg kvs = JObj ([(''success'', JBool True), (''message'', JStr msg)] @ kvs)"

text \<open>The path parameter of a route (\<open>req.params.appointmentId\<close> or \<open>doctorId\<close>).\<close>

fun route_param :: "route \<Rightarrow> string" where
  "route_param (CancelRoute a) = a"
| "route_param (ModifyRoute a) = a"
| "route_param (QueueRoute a) = a"
| "route_param (CheckInRoute a) = a"
| "route_param (AvailabilityRoute d) = d"
| "route_param _ = []"

text \<open>A failure of \<open>checkInPatient\<close>: the already-checked-in branch reports its status,
  a failed nested \<open>generateQueueNumber\<close> is returned as that function's own result
  (\<open>return queueResult\<close>), any other failure has status \<open>null\<close>.\<close>

definition queue_failure :: "error \<Rightarrow> bool" where
  "queue_failure err \<longleftrightarrow> (case err of Failed p f \<Rightarrow> p = ''Error generating queue number: '' | _ \<Rightarrow> False)"

definition checkin_fail_json :: "error \<Rightarrow> jval" where
  "checkin_fail_json err =
     (if err = Conflict ''Patient is already checked in''
      then fail_json err [(''status'', JStr ''already-checked-in'')]
      else if queue_failure err then fail_json err [(''queueNumber'', JNull)]
      else fail_json err [(''status'', JNull)])"

definition schedule_json :: "schedule_data \<Rightarrow> jval" where
  "schedule_json sd =
     JObj [(''date'', sd_date sd), (''startTime'', sd_startTime sd), (''endTime'', sd_endTime sd),
           (''available'', sd_available sd), (''updatedAt'', iso_json (sd_updatedAt sd))]"

fun response_json :: "route \<Rightarrow> jval \<Rightarrow> api_result \<Rightarrow> jval" where
  "response_json rt body (BookResult (Inl err)) = fail_json err [(''appointmentId'', JNull)]"
| "response_json rt body (BookResult (Inr a)) =
     ok_json ''Appointment booked successfully''
       [(''appointmentId'', JStr (appointmentId a)),
        (''appointment'', JObj [(''id'', JStr (appointmentId a)), (''patientId'', js_get body ''patientId''),
           (''doctorId'', js_get body ''doctorId''), (''dateTime'', js_get body ''dateTime''),
           (''status'', JStr ''confirmed''), (''queueNumber'', JNull), (''bookedAt'', iso_json (bookedAt a))])]"
| "response_json rt body (CancelResult (Inl err)) = fail_json err []"
| "response_json rt body (CancelResult (Inr (aid, t))) =
     ok_json ''Appointment cancelled successfully'' [(''appointmentId'', JStr aid), (''cancelledAt'', iso_json t)]"
| "response_json rt body (ModifyResult (Inl err)) = fail_json err []"
| "response_json rt body (ModifyResult (Inr (aid, ndt, t))) =
     ok_json ''Appointment modified successfully''
       [(''appointmentId'', JStr aid), (''newDateTime'', ndt), (''modifiedAt'', iso_json t)]"
| "response_json rt body (QueueResult (Inl err)) = fail_json err [(''queueNumber'', JNull)]"
| "response_json rt body (QueueResult (Inr (QueueExisting q t))) =
     ok_json ''Queue number already exists''
       [(''queueNumber'', JStr q), (''appointmentId'', JStr (route_param rt)), (''generatedAt'', iso_json t)]"
| "response_json rt body (QueueResult (Inr (QueueGenerated q t))) =
     ok_json ''Queue number generated successfully''
       [(''queueNumber'', JStr q), (''appointmentId'', JStr (route_param rt)), (''generatedAt'', iso_json t)]"
| "response_json rt body (CheckInResult (Inl err)) = checkin_fail_json err"
| "response_json rt body (CheckInResult (Inr (aid, q, t))) =
     ok_json ''Patient checked in successfully''
       [(''appointmentId'', JStr aid), (''status'', JStr ''checked-in''), (''queueNumber'', JStr q),
        (''checkedInAt'', iso_json t)]"
| "response_json rt body (AvailabilityResult (Inl err)) = fail_json err []"
| "response_json rt body (AvailabilityResult (Inr (did, sd, t))) =
     ok_json ''Doctor availability updated successfully''
       [(''doctorId'', JStr did), (''schedule'', schedule_json sd), (''updatedAt'', iso_json t)]"
| "response_json rt body (NotifyResult (Inl err)) = fail_json err [(''notificationId'', JNull)]"
| "response_json rt body (NotifyResult (Inr (nid, m, t))) =
     ok_json ''Notification sent successfully''
       [(''notificationId'', JStr nid), (''patientId'', js_get body ''patientId''),
        (''notificationMessage'', JStr m), (''sentAt'', iso_json t), (''deliveryMethod'', JStr ''console'')]"

end
