(* ===== verification/Frontend.thy ===== *)
theory Frontend
  imports Responses
begin

text \<open>
  The browser controller of \<open>src/public/js/app.js\<close> (the variant with sample doctor
  data). Its module-level variables (\<open>selectedDoctor\<close>, \<open>selectedDate\<close>,
  \<open>selectedTime\<close>, \<open>currentMonth\<close>, \<open>currentYear\<close>, \<open>navigationHistory\<close>) and
  the parts of the DOM it reads back or writes as text (the active page, the modal, the
  loading overlay, the queue list, the Go to pick time button, the doctor panels) form one
  record; each handler is a function on it. The booking form produces the body of
  \<open>POST /api/appointments/book\<close>, and the response handler produces the follow-up
  \<open>POST /:id/queue\<close> request, so the controller composes with \<open>dispatch\<close>.
  Rendering (HTML strings, CSS classes) is not modelled.
\<close>

section \<open>State\<close>

record doctor_card =
  card_doctorId :: string
  card_name :: string
  card_specialty :: string
  card_experience :: string
  card_availability :: string
  card_avatar :: string

text \<open>An entry of the simulated queue of \<open>loadQueueList\<close>, and what the queue list shows:
  nothing before the page has loaded, the loading placeholder while the one-second timer
  runs (with the entries already drawn), the empty state, or the rendered items.\<close>

record queue_item =
  qi_queueNumber :: string
  qi_waitingTime :: string
  qi_patientId :: string
  qi_doctorName :: string

datatype app_queue = AppQueueNone | AppQueueLoading "queue_item list" | AppQueueEmpty | AppQueueItems "string list list"

record ui =
  selectedDoctor :: "doctor_card option"
  selectedDate :: string
  selectedTime :: string
  currentMonth :: int
  currentYear :: int
  navigationHistory :: "string list"
  activePage :: string
  modal :: "(string \<times> string) option"
  loading :: bool
  queueList :: app_queue
  goToTimeLabel :: "string option"
  panelText :: "string \<rightharpoonup> string"

definition sampleDoctors :: "doctor_card list" where
  "sampleDoctors =
     [\<lparr>card_doctorId = ''DOC001'', card_name = ''Dr. Bob Smith'',
       card_specialty = ''General Practitioner (GP) / Family Doctor'', card_experience = ''5'',
       card_availability = ''Mon-Fri, 9am-3pm'', card_avatar = ''B''\<rparr>,
      \<lparr>card_doctorId = ''DOC002'', card_name = ''Dr. Alice Johnson'',
       card_specialty = ''Pediatrics Specialist'', card_experience = ''8'',
       card_availability = ''Mon-Wed-Fri, 10am-4pm'', card_avatar = ''A''\<rparr>,
      \<lparr>card_doctorId = ''DOC003'', card_name = ''Dr. David Wilson'',
       card_specialty = ''Cardiology Specialist'', card_experience = ''12'',
       card_availability = ''Tue-Thu, 8am-2pm'', card_avatar = ''D''\<rparr>]"

text \<open>The state after loading: \<open>navigationHistory = ['home']\<close>, nothing selected, the
  calendar on the current month, and the page the \<open>DOMContentLoaded\<close> handlers show.\<close>

definition init_ui :: "int \<Rightarrow> int \<Rightarrow> ui" where
  "init_ui m y =
     \<lparr>selectedDoctor = None, selectedDate = [], selectedTime = [], currentMonth = m,
      currentYear = y, navigationHistory = [''home''], activePage = ''home'', modal = None,
      loading = False, queueList = AppQueueNone,
      goToTimeLabel = None, panelText = Map.empty\<rparr>"

section \<open>Navigation\<close>

fun last_opt :: "'a list \<Rightarrow> 'a option" where
  "last_opt [] = None"
| "last_opt xs = Some (last xs)"

text \<open>\<open>showPage\<close>: push the page unless it is already the last entry, then make it the
  active page.\<close>

definition showPage :: "string \<Rightarrow> ui \<Rightarrow> ui" where
  "showPage p u =
     u\<lparr>navigationHistory :=
         (if last_opt (navigationHistory u) \<noteq> Some p then navigationHistory u @ [p]
          else navigationHistory u),
       activePage := p\<rparr>"

definition goBackToPrevious :: "ui \<Rightarrow> ui" where
  "goBackToPrevious u =
     (if 1 < length (navigationHistory u)
      then (let h = butlast (navigationHistory u) in showPage (last h) (u\<lparr>navigationHistory := h\<rparr>))
      else showPage ''home'' u)"

definition showModal :: "string \<Rightarrow> string \<Rightarrow> ui \<Rightarrow> ui" where
  "showModal title body u = u\<lparr>modal := Some (title, body)\<rparr>"

definition closeModal :: "ui \<Rightarrow> ui" where
  "closeModal u = u\<lparr>modal := None\<rparr>"

text \<open>A click, as far as the listeners of \<open>setupEventListeners\<close> look at its target: a
  navigation link with its \<open>data-page\<close>, an element inside the logo, or the modal's
  backdrop itself. The listener on the modal runs first (target phase), then the one on
  \<open>document\<close>: a navigation link with a non-empty page shows it, then a click inside the
  logo shows the home page. The active-link CSS class is not modelled.\<close>

record click_target =
  is_nav_link :: bool
  data_page :: "string option"
  in_logo :: bool
  is_modal_backdrop :: bool

definition document_click :: "click_target \<Rightarrow> ui \<Rightarrow> ui" where
  "document_click t u =
     (let u1 = (if is_modal_backdrop t then closeModal u else u);
          u2 = (if is_nav_link t
                then (case data_page t of Some p \<Rightarrow> if p \<noteq> [] then showPage p u1 else u1 | None \<Rightarrow> u1)
                else u1)
      in if in_logo t then showPage ''home'' u2 else u2)"

definition goToTimeSlots :: "ui \<Rightarrow> ui" where
  "goToTimeSlots u =
     (if selectedDate u = [] then showModal ''Select Date'' ''Please select an appointment date first.'' u
      else showPage ''time-slots'' u)"

section \<open>Calendar and selections\<close>

definition changeMonth :: "int \<Rightarrow> ui \<Rightarrow> ui" where
  "changeMonth direction u =
     (let m = currentMonth u + direction in
      if 11 < m then u\<lparr>currentMonth := 0, currentYear := currentYear u + 1\<rparr>
      else if m < 0 then u\<lparr>currentMonth := 11, currentYear := currentYear u - 1\<rparr>
      else u\<lparr>currentMonth := m\<rparr>)"

text \<open>\<open>date.toLocaleDateString('en-US', {weekday: 'long', year: 'numeric', month: 'long',
  day: 'numeric'})\<close>, e.g. \<open>Friday, March 14, 2025\<close>: the local day of the time value in
  the browser's zone, printed with its weekday (1970-01-01 was a Thursday). Years before 1,
  which V8 prints with an era, are outside what the page can show (the calendar starts at
  the current month) and are printed here as plain integers.\<close>

definition weekday_names :: "string list" where
  "weekday_names = [''Sunday'', ''Monday'', ''Tuesday'', ''Wednesday'', ''Thursday'', ''Friday'', ''Saturday'']"

definition month_names :: "string list" where
  "month_names =
     [''January'', ''February'', ''March'', ''April'', ''May'', ''June'', ''July'', ''August'',
      ''September'', ''October'', ''November'', ''December'']"

definition locale_day_long :: "int \<Rightarrow> string" where
  "locale_day_long k =
     (case civil_from_days k of
        (y, m, d) \<Rightarrow> weekday_names ! nat ((k + 4) mod 7) @ '', '' @ month_names ! nat (m - 1) @ '' '' @
                     nat_str (nat d) @ '', '' @ int_str y)"

definition locale_date_long :: "int \<Rightarrow> time \<Rightarrow> string" where
  "locale_date_long zone t = locale_day_long ((t + zone) div ms_per_day)"

text \<open>The right arrow at the end of the button text, as its UTF-8 bytes.\<close>

definition arrow_right :: string where
  "arrow_right = [CHR 0xE2, CHR 0x86, CHR 0x92]"

text \<open>\<open>selectDate(dateStr, element)\<close> in a browser whose zone is \<open>zone\<close>: a day cell
  marked \<open>disabled\<close> is ignored; otherwise the date is selected and the Go to pick time
  button shows it, formatted from \<open>new Date(dateStr)\<close> (\<open>Invalid Date\<close> when that is
  \<open>NaN\<close>). The selected CSS classes are not modelled.\<close>

definition go_to_time_text :: "int \<Rightarrow> string \<Rightarrow> string" where
  "go_to_time_text zone dateStr =
     ''Selected: '' @
     (case js_date zone (JStr dateStr) of None \<Rightarrow> ''Invalid Date'' | Some t \<Rightarrow> locale_date_long zone t) @
     '' - Go to pick time '' @ arrow_right"

definition selectDate :: "int \<Rightarrow> string \<Rightarrow> bool \<Rightarrow> ui \<Rightarrow> ui" where
  "selectDate zone dateStr disabled u =
     (if disabled then u else u\<lparr>selectedDate := dateStr, goToTimeLabel := Some (go_to_time_text zone dateStr)\<rparr>)"

text \<open>\<open>updateSelectedDoctorInfo\<close>: the text of the doctor panels of the booking page and of
  the time-slot page (ids ending in \<open>-2\<close>), each element id with the doctor's name,
  specialty, experience, availability and avatar; \<open>panelText\<close> is the \<open>textContent\<close>
  of those elements.\<close>

definition doctor_panels :: "string \<Rightarrow> string \<Rightarrow> string \<Rightarrow> string \<Rightarrow> string \<Rightarrow> (string \<times> string) list" where
  "doctor_panels nm sp ex av avatar =
     [(''selected-doctor-name'', nm), (''selected-doctor-specialty'', sp),
      (''selected-doctor-experience'', ex), (''selected-doctor-availability'', av),
      (''selected-avatar'', avatar),
      (''selected-doctor-name-2'', nm), (''selected-doctor-specialty-2'', sp),
      (''selected-doctor-experience-2'', ex), (''selected-doctor-availability-2'', av),
      (''selected-avatar-2'', avatar)]"

definition updateSelectedDoctorInfo :: "doctor_card \<Rightarrow> ui \<Rightarrow> ui" where
  "updateSelectedDoctorInfo d u =
     u\<lparr>panelText := panelText u ++ map_of (doctor_panels (card_name d) (card_specialty d)
                                          (card_experience d) (card_availability d) (card_avatar d))\<rparr>"

definition selectDoctor :: "doctor_card \<Rightarrow> ui \<Rightarrow> ui" where
  "selectDoctor d u = showPage ''booking'' (updateSelectedDoctorInfo d (u\<lparr>selectedDoctor := Some d\<rparr>))"

definition selectTimeSlot :: "string \<Rightarrow> ui \<Rightarrow> ui" where
  "selectTimeSlot t u = u\<lparr>selectedTime := t\<rparr>"

text \<open>The Learn more link of a doctor card: the doctor's details in a modal (its HTML
  layout is not modelled; the body here is the doctor's name).\<close>

definition showDoctorInfo :: "string \<Rightarrow> ui \<Rightarrow> ui" where
  "showDoctorInfo did u =
     (case find (\<lambda>d. card_doctorId d = did) sampleDoctors of
        None \<Rightarrow> u
      | Some d \<Rightarrow> showModal ''Doctor Information'' (card_name d) u)"

section \<open>Queue list\<close>

text \<open>JavaScript \<open>s + n\<close> for a string \<open>s\<close> and an integer \<open>n\<close>: the decimal
  string of \<open>n\<close> is appended.\<close>

definition js_str_plus :: "string \<Rightarrow> int \<Rightarrow> string" where
  "js_str_plus s n = s @ int_str n"

text \<open>\<open>loadQueueList\<close> of \<open>app.js\<close>: three simulated entries whose numbers are
  \<open>'Q' + Math.floor(Math.random() * 1000) + k\<close>, one draw each, shown after a
  one-second timer. Nothing in its \<open>try\<close> block can throw once the container exists,
  so the \<open>catch\<close> branch is unreachable.\<close>

definition sampleQueue :: "rnd \<Rightarrow> rnd \<Rightarrow> rnd \<Rightarrow> queue_item list" where
  "sampleQueue r1 r2 r3 =
     [\<lparr>qi_queueNumber = js_str_plus (js_str_plus ''Q'' (int (rand_below 1000 r1))) 1,
       qi_waitingTime = ''5 min'', qi_patientId = ''PAT001'', qi_doctorName = ''Dr. Bob Smith''\<rparr>,
      \<lparr>qi_queueNumber = js_str_plus (js_str_plus ''Q'' (int (rand_below 1000 r2))) 2,
       qi_waitingTime = ''10 min'', qi_patientId = ''PAT002'', qi_doctorName = ''Dr. Alice Johnson''\<rparr>,
      \<lparr>qi_queueNumber = js_str_plus (js_str_plus ''Q'' (int (rand_below 1000 r3))) 3,
       qi_waitingTime = ''15 min'', qi_patientId = ''PAT003'', qi_doctorName = ''Dr. David Wilson''\<rparr>]"

definition app_loadQueueList :: "rnd \<Rightarrow> rnd \<Rightarrow> rnd \<Rightarrow> ui \<Rightarrow> ui" where
  "app_loadQueueList r1 r2 r3 u = u\<lparr>queueList := AppQueueLoading (sampleQueue r1 r2 r3)\<rparr>"

text \<open>\<open>createQueueItem\<close>: the three texts of the item (its HTML layout is not modelled).\<close>

definition createQueueItem :: "queue_item \<Rightarrow> string list" where
  "createQueueItem q =
     [''Queue No# '' @ qi_queueNumber q, ''Doctor: '' @ qi_doctorName q,
      ''Estimated waiting time: '' @ qi_waitingTime q]"

definition queue_timer :: "ui \<Rightarrow> ui" where
  "queue_timer u =
     (case queueList u of
        AppQueueLoading items \<Rightarrow>
          u\<lparr>queueList := (if items = [] then AppQueueEmpty else AppQueueItems (map createQueueItem items))\<rparr>
      | _ \<Rightarrow> u)"

section \<open>Login, signup and page load\<close>

text \<open>The login and signup forms of \<open>app.js\<close> only validate their fields and simulate
  success: no request is sent and nothing is stored. The text of the \<open>alert\<close> each shows
  is returned with the new state.\<close>

definition demo_login :: "string \<Rightarrow> string \<Rightarrow> ui \<Rightarrow> ui \<times> string" where
  "demo_login email password u =
     (if trim email = [] \<or> trim password = [] then (u, ''Please enter both email and password.'')
      else (showPage ''home'' u, ''Login successful!''))"

definition demo_signup :: "string \<Rightarrow> string \<Rightarrow> string \<Rightarrow> ui \<Rightarrow> ui \<times> string" where
  "demo_signup fullname email password u =
     (if trim fullname = [] \<or> trim email = [] \<or> trim password = [] then (u, ''Please fill out all fields.'')
      else (showPage ''login'' u, ''Signup successful! Please login.''))"

text \<open>The \<open>DOMContentLoaded\<close> listener on \<open>document\<close>: the click listeners are
  installed (the events \<open>EvClick\<close>), the calendar is rendered (a function of the state,
  \<open>Calendar\<close>), the queue list starts loading, and the home page is shown.\<close>

definition dom_loaded :: "rnd \<Rightarrow> rnd \<Rightarrow> rnd \<Rightarrow> ui \<Rightarrow> ui" where
  "dom_loaded r1 r2 r3 u = showPage ''home'' (app_loadQueueList r1 r2 r3 u)"

text \<open>Loading the page with \<open>localStorage\<close> \<open>st\<close>: the listener on \<open>document\<close> runs
  first, then the one on \<open>window\<close> shows home again when a patient ID is stored and the
  login page otherwise.\<close>

definition app_load :: "(string \<rightharpoonup> string) \<Rightarrow> rnd \<Rightarrow> rnd \<Rightarrow> rnd \<Rightarrow> int \<Rightarrow> int \<Rightarrow> ui" where
  "app_load st r1 r2 r3 m y =
     (let u = dom_loaded r1 r2 r3 (init_ui m y) in
      if (case st ''patientId'' of Some p \<Rightarrow> p \<noteq> [] | None \<Rightarrow> False) then showPage ''home'' u
      else showPage ''login'' u)"

section \<open>Booking\<close>

definition resetBookingForm :: "ui \<Rightarrow> ui" where
  "resetBookingForm u =
     u\<lparr>selectedDate := [], selectedTime := [], selectedDoctor := None,
       goToTimeLabel := Some (''Go to pick time '' @ arrow_right), navigationHistory := [''home'']\<rparr>"

text \<open>\<open>confirmAppointment\<close> up to the request: the four validations in the source's
  order, then the body of the booking request with \<open>dateTime = date + 'T' + time + ':00'\<close>
  and the loading overlay shown.\<close>

definition confirmAppointment :: "string \<Rightarrow> ui \<Rightarrow> ui \<times> jval option" where
  "confirmAppointment input u =
     (let pid = trim input in
      if pid = [] then (showModal ''Validation Error'' ''Please enter a Patient ID.'' u, None)
      else (case selectedDoctor u of
        None \<Rightarrow> (showModal ''Validation Error'' ''Please select a doctor.'' u, None)
      | Some d \<Rightarrow>
        if card_doctorId d = [] then (showModal ''Validation Error'' ''Please select a doctor.'' u, None)
        else if selectedDate u = []
        then (showModal ''Validation Error'' ''Please select an appointment date.'' u, None)
        else if selectedTime u = []
        then (showModal ''Validation Error'' ''Please select a time slot.'' u, None)
        else (u\<lparr>loading := True\<rparr>,
              Some (JObj [(''patientId'', JStr pid), (''doctorId'', JStr (card_doctorId d)),
                          (''dateTime'', JStr (selectedDate u @ ''T'' @ selectedTime u @ '':00''))]))))"

text \<open>The response handler: on success the queue number is requested for the new
  appointment, the success modal is shown and the form is reset; otherwise the error
  message is shown.\<close>

definition confirm_response :: "api_result \<Rightarrow> ui \<Rightarrow> ui \<times> route option" where
  "confirm_response r u =
     (let u' = u\<lparr>loading := False\<rparr> in
      case r of
        BookResult (Inr a) \<Rightarrow>
          (resetBookingForm (showModal ''Appointment Confirmed!'' ''Appointment booked successfully!'' u'),
           Some (QueueRoute (appointmentId a)))
      | BookResult (Inl err) \<Rightarrow> (showModal ''Booking Failed'' (error_message err) u', None)
      | _ \<Rightarrow> (u', None))"

section \<open>Events\<close>

text \<open>The user's actions, and the timer that \<open>confirmAppointment\<close> sets to show the
  appointments page two seconds after a successful booking.\<close>

datatype ui_event =
    EvShowPage string
  | EvGoBack
  | EvGoToTimeSlots
  | EvChangeMonth int
  | EvSelectDate int string bool
  | EvSelectDoctor doctor_card
  | EvSelectTime string
  | EvCloseModal
  | EvRedirectTimer
  | EvDoctorInfo string
  | EvLogin string string
  | EvSignup string string string
  | EvClick click_target
  | EvQueueTimer

fun ui_step :: "ui \<Rightarrow> ui_event \<Rightarrow> ui" where
  "ui_step u (EvShowPage p) = showPage p u"
| "ui_step u EvGoBack = goBackToPrevious u"
| "ui_step u EvGoToTimeSlots = goToTimeSlots u"
| "ui_step u (EvChangeMonth d) = changeMonth d u"
| "ui_step u (EvSelectDate zone s dis) = selectDate zone s dis u"
| "ui_step u (EvSelectDoctor d) = selectDoctor d u"
| "ui_step u (EvSelectTime t) = selectTimeSlot t u"
| "ui_step u EvCloseModal = closeModal u"
| "ui_step u EvRedirectTimer = showPage ''check-appointments'' u"
| "ui_step u (EvDoctorInfo did) = showDoctorInfo did u"
| "ui_step u (EvLogin email password) = fst (demo_login email password u)"
| "ui_step u (EvSignup fullname email password) = fst (demo_signup fullname email password u)"
| "ui_step u (EvClick t) = document_click t u"
| "ui_step u EvQueueTimer = queue_timer u"

fun ui_run :: "ui \<Rightarrow> ui_event list \<Rightarrow> ui" where
  "ui_run u [] = u"
| "ui_run u (ev # evs) = ui_run (ui_step u ev) evs"

section \<open>Properties of the controller state\<close>

text \<open>The history stack is never empty and never holds the same page twice in a row
  (\<open>showPage\<close> pushes only a page different from the top).\<close>

definition nav_ok :: "ui \<Rightarrow> bool" where
  "nav_ok u \<longleftrightarrow> navigationHistory u \<noteq> [] \<and> successively (\<noteq>) (navigationHistory u)"

text \<open>The calendar position as a single month count.\<close>

definition month_index :: "ui \<Rightarrow> int" where
  "month_index u = 12 * currentYear u + currentMonth u"

text \<open>A form with the first sample doctor, a date and a time chosen.\<close>

definition sample_ui :: ui where
  "sample_ui = (init_ui 0 2999)\<lparr>selectedDoctor := Some (hd sampleDoctors),
     selectedDate := ''2999-01-01'', selectedTime := ''09:00''\<rparr>"

section \<open>Lemmas\<close>

subsection \<open>Navigation\<close>

lemma last_opt_Some: "xs \<noteq> [] \<Longrightarrow> last_opt xs = Some (last xs)"
  by (cases xs) auto

lemma showPage_history:
  "navigationHistory u \<noteq> [] \<Longrightarrow>
   navigationHistory (showPage p u) =
     (if last (navigationHistory u) = p then navigationHistory u else navigationHistory u @ [p])"
  by (simp add: showPage_def last_opt_Some)

lemma successively_snoc_neq:
  "successively (\<noteq>) xs \<Longrightarrow> xs \<noteq> [] \<Longrightarrow> last xs \<noteq> p \<Longrightarrow> successively (\<noteq>) (xs @ [p])"
  by (simp add: successively_append_iff)

lemma successively_butlast: "successively P xs \<Longrightarrow> successively P (butlast xs)"
  by (metis append_butlast_last_id butlast.simps(1) successively_append_iff)

lemma showPage_nav_ok: "nav_ok u \<Longrightarrow> nav_ok (showPage p u)"
  by (auto simp: nav_ok_def showPage_history successively_snoc_neq)

lemma goBack_nav_ok: "nav_ok u \<Longrightarrow> nav_ok (goBackToPrevious u)"
proof -
  assume ok: "nav_ok u"
  show ?thesis
  proof (cases "1 < length (navigationHistory u)")
    case True
    let ?h = "butlast (navigationHistory u)"
    have "?h \<noteq> []" using True by (cases "navigationHistory u" rule: rev_cases) auto
    moreover have "successively (\<noteq>) ?h" using ok by (simp add: nav_ok_def successively_butlast)
    ultimately have "nav_ok (u\<lparr>navigationHistory := ?h\<rparr>)" by (simp add: nav_ok_def)
    with True show ?thesis by (simp add: goBackToPrevious_def Let_def showPage_nav_ok)
  next
    case False
    with ok show ?thesis by (simp add: goBackToPrevious_def showPage_nav_ok)
  qed
qed

lemma nav_ok_fields [simp]:
  "nav_ok (u\<lparr>modal := x\<rparr>) = nav_ok u"
  "nav_ok (u\<lparr>selectedDoctor := d\<rparr>) = nav_ok u"
  "nav_ok (u\<lparr>selectedDate := s\<rparr>) = nav_ok u"
  "nav_ok (u\<lparr>selectedTime := s\<rparr>) = nav_ok u"
  "nav_ok (u\<lparr>currentMonth := m\<rparr>) = nav_ok u"
  "nav_ok (u\<lparr>currentMonth := m, currentYear := y\<rparr>) = nav_ok u"
  "nav_ok (u\<lparr>loading := b\<rparr>) = nav_ok u"
  "nav_ok (u\<lparr>queueList := q\<rparr>) = nav_ok u"
  "nav_ok (u\<lparr>goToTimeLabel := l\<rparr>) = nav_ok u"
  "nav_ok (u\<lparr>panelText := pt\<rparr>) = nav_ok u"
  by (simp_all add: nav_ok_def)

lemma ui_step_nav_ok: "nav_ok u \<Longrightarrow> nav_ok (ui_step u ev)"
  by (cases ev)
     (simp_all add: goBack_nav_ok showPage_nav_ok goToTimeSlots_def showModal_def changeMonth_def
                    Let_def selectDate_def selectDoctor_def updateSelectedDoctorInfo_def selectTimeSlot_def closeModal_def
                    showDoctorInfo_def demo_login_def demo_signup_def document_click_def queue_timer_def
                    split: option.splits app_queue.splits)

subsection \<open>Booking form\<close>

text \<open>What a request from the booking form carries.\<close>

lemma confirmAppointment_Some:
  assumes "confirmAppointment input u = (u', Some body)"
  shows "\<exists>d. selectedDoctor u = Some d \<and> card_doctorId d \<noteq> [] \<and> trim input \<noteq> [] \<and>
           selectedDate u \<noteq> [] \<and> selectedTime u \<noteq> [] \<and> u' = u\<lparr>loading := True\<rparr> \<and>
           body = JObj [(''patientId'', JStr (trim input)), (''doctorId'', JStr (card_doctorId d)),
                        (''dateTime'', JStr (selectedDate u @ ''T'' @ selectedTime u @ '':00''))]"
  using assms
  by (auto simp: confirmAppointment_def Let_def showModal_def split: option.splits if_splits)

lemma confirm_response_booked:
  "confirm_response (BookResult (Inr a)) u =
     (resetBookingForm (showModal ''Appointment Confirmed!'' ''Appointment booked successfully!''
        (u\<lparr>loading := False\<rparr>)), Some (QueueRoute (appointmentId a)))"
  by (simp add: confirm_response_def)

text \<open>From any state whose history satisfies the invariant (the initial one does), every
  sequence of user actions and timers keeps the history non-empty and free of a page
  repeated twice in a row.\<close>

theorem ui_run_nav_ok: "nav_ok u \<Longrightarrow> nav_ok (ui_run u evs)"
  by (induction evs arbitrary: u) (simp_all add: ui_step_nav_ok)

theorem ui_run_nav_ok_witness:
  "nav_ok (init_ui 0 2025) \<and>
   nav_ok (ui_run (init_ui 0 2025) [EvShowPage ''doctors'', EvSelectDoctor (hd sampleDoctors),
     EvShowPage ''booking'', EvGoBack, EvGoBack, EvRedirectTimer])"
proof -
  have ok: "nav_ok (init_ui 0 2025)" by (simp add: nav_ok_def init_ui_def)
  show ?thesis using ok ui_run_nav_ok [OF ok, of "[EvShowPage ''doctors'', EvSelectDoctor (hd sampleDoctors),
     EvShowPage ''booking'', EvGoBack, EvGoBack, EvRedirectTimer]"] by (simp del: ui_run.simps)
qed

text \<open>With at least two pages on the history, Back pops exactly the top entry and shows
  the page below it.\<close>

theorem goBack_pops_one:
  assumes "1 < length (navigationHistory u)"
  shows "navigationHistory (goBackToPrevious u) = butlast (navigationHistory u) \<and>
         activePage (goBackToPrevious u) = last (butlast (navigationHistory u))"
proof -
  let ?h = "butlast (navigationHistory u)"
  have "?h \<noteq> []" using assms by (cases "navigationHistory u" rule: rev_cases) auto
  with assms show ?thesis
    by (simp add: goBackToPrevious_def Let_def showPage_def last_opt_Some)
qed

theorem goBack_pops_one_witness:
  "1 < length (navigationHistory ((init_ui 0 2025)\<lparr>navigationHistory := [''home'', ''doctors'', ''booking'']\<rparr>)) \<and>
   navigationHistory (goBackToPrevious ((init_ui 0 2025)\<lparr>navigationHistory := [''home'', ''doctors'', ''booking'']\<rparr>))
     = [''home'', ''doctors''] \<and>
   activePage (goBackToPrevious ((init_ui 0 2025)\<lparr>navigationHistory := [''home'', ''doctors'', ''booking'']\<rparr>))
     = ''doctors''"
  using goBack_pops_one [of "(init_ui 0 2025)\<lparr>navigationHistory := [''home'', ''doctors'', ''booking'']\<rparr>"]
  by simp

text \<open>Whatever the step, changeMonth leaves the month in 0..11.\<close>

theorem changeMonth_range:
  "0 \<le> currentMonth (changeMonth d u) \<and> currentMonth (changeMonth d u) \<le> 11"
  by (simp add: changeMonth_def Let_def)

text \<open>For the calendar's previous and next buttons (a step of -1 or +1) from a month in
  0..11, changeMonth moves the month count (12 * year + month) by exactly the step, wrapping
  December to January of the next year and back.\<close>

theorem changeMonth_refines:
  assumes "0 \<le> currentMonth u" and "currentMonth u \<le> 11" and "d = 1 \<or> d = -1"
  shows "month_index (changeMonth d u) = month_index u + d"
  using assms by (auto simp: changeMonth_def month_index_def Let_def)

theorem changeMonth_refines_witness:
  "0 \<le> currentMonth (init_ui 11 2024) \<and> currentMonth (init_ui 11 2024) \<le> 11 \<and>
   month_index (changeMonth 1 (init_ui 11 2024)) = month_index (init_ui 11 2024) + 1 \<and>
   currentMonth (changeMonth 1 (init_ui 11 2024)) = 0 \<and> currentYear (changeMonth 1 (init_ui 11 2024)) = 2025"
  using changeMonth_refines [of "init_ui 11 2024" 1]
  by (simp add: init_ui_def changeMonth_def)

lemma trim_blank: "trim ''  '' = []"
  by (simp add: trim_Nil_iff js_ws_def)

lemma trim_P1: "trim ''P1'' = ''P1''" and trim_P2: "trim ''P2'' = ''P2''"
  by code_simp+

text \<open>The booking form sends a request exactly when the four validations pass (a
  non-blank patient ID, a doctor with an ID, a date, a time); otherwise it only shows the
  validation modal.\<close>

theorem confirm_validation:
  "(snd (confirmAppointment input u) \<noteq> None \<longleftrightarrow>
      trim input \<noteq> [] \<and> (\<exists>d. selectedDoctor u = Some d \<and> card_doctorId d \<noteq> []) \<and>
      selectedDate u \<noteq> [] \<and> selectedTime u \<noteq> []) \<and>
   (snd (confirmAppointment input u) = None \<longrightarrow>
      (\<exists>m. fst (confirmAppointment input u) = u\<lparr>modal := Some (''Validation Error'', m)\<rparr>))"
  by (cases "selectedDoctor u"; simp add: confirmAppointment_def Let_def showModal_def; blast)

theorem confirm_validation_witness:
  "snd (confirmAppointment ''P1'' sample_ui) \<noteq> None \<and>
   fst (confirmAppointment ''  '' sample_ui) =
     sample_ui\<lparr>modal := Some (''Validation Error'', ''Please enter a Patient ID.'')\<rparr>"
proof -
  have "snd (confirmAppointment ''P1'' sample_ui) \<noteq> None"
    using confirm_validation [of "''P1''" sample_ui]
    by (simp add: sample_ui_def sampleDoctors_def trim_def js_ws_def)
  moreover have "fst (confirmAppointment ''  '' sample_ui) =
     sample_ui\<lparr>modal := Some (''Validation Error'', ''Please enter a Patient ID.'')\<rparr>"
    using confirm_validation [of "''  ''" sample_ui]
    by (simp add: confirmAppointment_def trim_blank showModal_def)
  ultimately show ?thesis ..
qed
subsection \<open>Queue list\<close>

lemma length_nat_str_step: "length (nat_str n) = (if n < 10 then 1 else Suc (length (nat_str (n div 10))))"
  by (subst nat_str.simps) simp

lemma length_nat_str_three:
  assumes "n < 1000"
  shows "length (nat_str n) = 3 \<longleftrightarrow> 100 \<le> n"
proof -
  have "n div 10 < 10 \<longleftrightarrow> n < 100" by auto
  with assms show ?thesis
    by (simp add: length_nat_str_step [of n] length_nat_str_step [of "n div 10"]
        length_nat_str_step [of "n div 10 div 10"])
qed

lemma sample_number_format:
  assumes "n < 1000" "0 \<le> k" "k < 10"
  shows "queue_format (js_str_plus (js_str_plus ''Q'' (int n)) k) \<longleftrightarrow> 100 \<le> n"
proof -
  have d: "\<forall>c \<in> set (nat_str n @ nat_str (nat k)). dec_digit c"
    using nat_str_digits [of n] nat_str_digits [of "nat k"] by auto
  have l: "length (nat_str (nat k)) = 1" using assms(3) by simp
  show ?thesis
    using d l length_nat_str_three [OF assms(1)] assms(2)
    by (simp add: js_str_plus_def int_str_def queue_format_def)
qed

lemma app_load_queueList: "queueList (app_load st r1 r2 r3 m y) = AppQueueLoading (sampleQueue r1 r2 r3)"
  by (simp add: app_load_def dom_loaded_def app_loadQueueList_def showPage_def Let_def)

text \<open>C26: after the page has loaded and the queue timer has fired, the queue list of app.js
  shows the three simulated entries; their numbers are distinct, and because
  'Q' + n + k concatenates strings each has the documented format Q followed by four
  digits exactly when its draw n is at least 100.\<close>

theorem sample_queue_shown:
  "queueList (ui_run (app_load st r1 r2 r3 m y) [EvQueueTimer]) =
     AppQueueItems (map createQueueItem (sampleQueue r1 r2 r3)) \<and>
   distinct (map qi_queueNumber (sampleQueue r1 r2 r3)) \<and>
   list_all2 (\<lambda>q r. queue_format (qi_queueNumber q) \<longleftrightarrow> 100 \<le> rand_below 1000 r)
     (sampleQueue r1 r2 r3) [r1, r2, r3]"
proof -
  have b: "rand_below 1000 r < 1000" for r by (rule rand_below_bound) simp
  have f: "queue_format (js_str_plus (js_str_plus ''Q'' (int (rand_below 1000 r))) k) \<longleftrightarrow>
             100 \<le> rand_below 1000 r" if "0 \<le> k" "k < 10" for r k
    using sample_number_format [OF b that] .
  have fmt: "list_all2 (\<lambda>q r. queue_format (qi_queueNumber q) \<longleftrightarrow> 100 \<le> rand_below 1000 r)
               (sampleQueue r1 r2 r3) [r1, r2, r3]"
    by (simp add: sampleQueue_def f)
  have dist: "distinct (map qi_queueNumber (sampleQueue r1 r2 r3))"
    by (simp add: sampleQueue_def js_str_plus_def int_str_def)
  have shown: "queueList (ui_run (app_load st r1 r2 r3 m y) [EvQueueTimer]) =
                 AppQueueItems (map createQueueItem (sampleQueue r1 r2 r3))"
    by (simp add: app_load_queueList queue_timer_def sampleQueue_def)
  from shown dist fmt show ?thesis by blast
qed

lemma sample_queue_zero:
  "map qi_queueNumber (sampleQueue 0 0 0) = [''Q01'', ''Q02'', ''Q03'']" "rand_below 1000 0 = 0"
  by (simp_all add: sampleQueue_def rand_below_def js_str_plus_def int_str_def)

theorem sample_queue_shown_witness:
  "queueList (ui_run (app_load Map.empty 0 0 0 0 2025) [EvQueueTimer]) =
     AppQueueItems (map createQueueItem (sampleQueue 0 0 0)) \<and>
   map qi_queueNumber (sampleQueue 0 0 0) = [''Q01'', ''Q02'', ''Q03''] \<and> \<not> queue_format ''Q01''"
proof -
  have "list_all2 (\<lambda>q r. queue_format (qi_queueNumber q) \<longleftrightarrow> 100 \<le> rand_below 1000 r) (sampleQueue 0 0 0) [0, 0, 0]"
    and shown: "queueList (ui_run (app_load Map.empty 0 0 0 0 2025) [EvQueueTimer]) =
     AppQueueItems (map createQueueItem (sampleQueue 0 0 0))"
    using sample_queue_shown [of Map.empty 0 0 0 0 2025] by simp_all
  then have "queue_format (hd (map qi_queueNumber (sampleQueue 0 0 0))) \<longleftrightarrow> 100 \<le> rand_below 1000 (0::rnd)"
    by (simp add: sampleQueue_def)
  then have "\<not> queue_format ''Q01''" unfolding sample_queue_zero by simp
  with shown sample_queue_zero(1) show ?thesis by simp
qed

end
