(* ===== verification/Server.thy ===== *)
theory Server
  imports Routes
begin

text \<open>
  Request routing of \<open>src/backend/server.js\<close> and the router it mounts: which handler an
  HTTP method and URL reach. The application registers \<open>GET /\<close>, \<open>GET /api/test\<close>,
  the appointment router under \<open>/api/appointments\<close> and \<open>GET /api/health\<close>, in that
  order; a request no handler matches gets Express's final handler, a 404 whose body is an
  HTML page. Express matches paths case-insensitively, ignores the query string and a
  trailing slash, and a route parameter is one non-empty path segment. The informational
  handlers only report constants and are not modelled further; percent-decoding of
  parameters is not modelled (the identifiers the services generate are letters and
  digits).
\<close>

section \<open>Methods, endpoints and paths\<close>

datatype http_method = GET | POST | PUT | DELETE

datatype endpoint = RootInfo | ApiTest | ApiHealth | Api route

text \<open>The path of a URL as its segments: the query string dropped, the leading slash
  required, one trailing slash ignored (non-strict routing).\<close>

definition path_segments :: "string \<Rightarrow> string list option" where
  "path_segments url =
     (case split_on CHR ''/'' (takeWhile (\<lambda>c. c \<noteq> CHR ''?'') url) of
        [] # segs \<Rightarrow> Some (if segs \<noteq> [] \<and> last segs = [] then butlast segs else segs)
      | _ \<Rightarrow> None)"

definition lower_ascii :: "char \<Rightarrow> char" where
  "lower_ascii c = (if (65::nat) \<le> of_char c \<and> of_char c \<le> (90::nat) then char_of (of_char c + (32::nat)) else c)"

text \<open>A literal path segment, matched case-insensitively.\<close>

definition seg_is :: "string \<Rightarrow> string \<Rightarrow> bool" where
  "seg_is w seg \<longleftrightarrow> map lower_ascii seg = w"

section \<open>The appointment router\<close>

text \<open>The routes of \<open>src/backend/routes/appointments.js\<close> in registration order, on the
  segments after the mount point.\<close>

fun router_match :: "http_method \<Rightarrow> string list \<Rightarrow> route option" where
  "router_match m [a] = (if m = POST \<and> seg_is ''book'' a then Some BookRoute else None)"
| "router_match m [a, b] =
     (if m = DELETE \<and> a \<noteq> [] \<and> seg_is ''cancel'' b then Some (CancelRoute a)
      else if m = PUT \<and> a \<noteq> [] \<and> seg_is ''modify'' b then Some (ModifyRoute a)
      else if m = POST \<and> a \<noteq> [] \<and> seg_is ''queue'' b then Some (QueueRoute a)
      else if m = POST \<and> a \<noteq> [] \<and> seg_is ''checkin'' b then Some (CheckInRoute a)
      else if m = POST \<and> seg_is ''notifications'' a \<and> seg_is ''send'' b then Some NotifyRoute
      else None)"
| "router_match m [a, b, c] =
     (if m = PUT \<and> seg_is ''doctors'' a \<and> b \<noteq> [] \<and> seg_is ''availability'' c
      then Some (AvailabilityRoute b) else None)"
| "router_match m _ = None"

section \<open>The application\<close>

definition resolve :: "http_method \<Rightarrow> string \<Rightarrow> endpoint option" where
  "resolve m url =
     (case path_segments url of
        None \<Rightarrow> None
      | Some segs \<Rightarrow>
          if m = GET \<and> segs = [] then Some RootInfo
          else if m = GET \<and> length segs = 2 \<and> seg_is ''api'' (segs ! 0) \<and> seg_is ''test'' (segs ! 1)
          then Some ApiTest
          else
            (case (if 2 \<le> length segs \<and> seg_is ''api'' (segs ! 0) \<and> seg_is ''appointments'' (segs ! 1)
                   then router_match m (drop 2 segs) else None) of
               Some r \<Rightarrow> Some (Api r)
             | None \<Rightarrow>
                 if m = GET \<and> length segs = 2 \<and> seg_is ''api'' (segs ! 0) \<and> seg_is ''health'' (segs ! 1)
                 then Some ApiHealth else None))"

text \<open>A segment a route parameter matches and that no path character ends early.\<close>

definition plain_segment :: "string \<Rightarrow> bool" where
  "plain_segment s \<longleftrightarrow> s \<noteq> [] \<and> CHR ''/'' \<notin> set s \<and> CHR ''?'' \<notin> set s"

section \<open>Lemmas\<close>

lemma split_on_segments:
  "\<forall>s \<in> set segs. c \<notin> set s \<Longrightarrow> split_on c (concat (map (\<lambda>s. c # s) segs)) = [] # segs"
proof (induction segs)
  case Nil
  then show ?case by simp
next
  case (Cons s segs)
  then show ?case by (simp add: split_on_append)
qed

lemma path_segments_plain:
  assumes "\<forall>s \<in> set segs. plain_segment s"
  shows "path_segments (concat (map (\<lambda>s. CHR ''/'' # s) segs)) = Some segs"
proof -
  have q: "takeWhile (\<lambda>c. c \<noteq> CHR ''?'') (concat (map (\<lambda>s. CHR ''/'' # s) segs)) =
           concat (map (\<lambda>s. CHR ''/'' # s) segs)"
    using assms by (auto simp: takeWhile_eq_all_conv plain_segment_def)
  have sp: "split_on CHR ''/'' (concat (map (\<lambda>s. CHR ''/'' # s) segs)) = [] # segs"
    using assms by (intro split_on_segments) (auto simp: plain_segment_def)
  have "segs \<noteq> [] \<longrightarrow> last segs \<noteq> []"
    using assms by (auto simp: plain_segment_def)
  then show ?thesis by (simp only: path_segments_def q sp) auto
qed

lemma generateAppointmentId_plain: "plain_segment (generateAppointmentId t r)"
proof -
  have d: "\<forall>c \<in> set (nat_str n). c \<noteq> CHR ''/'' \<and> c \<noteq> CHR ''?''" for n
    using nat_str_digits [of n] by (auto simp: dec_digit_def)
  show ?thesis
    using d by (auto simp: plain_segment_def generateAppointmentId_def int_str_def)
qed

lemma resolve_api_route:
  assumes "path_segments url = Some (a # b # rest)" and "seg_is ''api'' a"
    and "seg_is ''appointments'' b" and "router_match m rest = Some r"
  shows "resolve m url = Some (Api r)"
proof -
  have "\<not> seg_is ''test'' b" using assms(3) by (auto simp: seg_is_def)
  with assms show ?thesis by (simp add: resolve_def)
qed

lemma path_segments_api:
  assumes "plain_segment aid" and "plain_segment w"
  shows "path_segments (''/api/appointments/'' @ aid @ CHR ''/'' # w) =
           Some [''api'', ''appointments'', aid, w]"
  using path_segments_plain [of "[''api'', ''appointments'', aid, w]"] assms
  by (simp add: plain_segment_def)

text \<open>The URLs both browser controllers build for an appointment the service created
  (its identifier in the path) reach the intended route: queue, check-in, cancel and modify;
  and the booking URL reaches the booking route.\<close>

theorem generated_paths_resolve:
  "resolve POST (''/api/appointments/'' @ generateAppointmentId t r @ ''/queue'') =
     Some (Api (QueueRoute (generateAppointmentId t r))) \<and>
   resolve POST (''/api/appointments/'' @ generateAppointmentId t r @ ''/checkin'') =
     Some (Api (CheckInRoute (generateAppointmentId t r))) \<and>
   resolve DELETE (''/api/appointments/'' @ generateAppointmentId t r @ ''/cancel'') =
     Some (Api (CancelRoute (generateAppointmentId t r))) \<and>
   resolve PUT (''/api/appointments/'' @ generateAppointmentId t r @ ''/modify'') =
     Some (Api (ModifyRoute (generateAppointmentId t r))) \<and>
   resolve POST ''/api/appointments/book'' = Some (Api BookRoute)"
proof -
  have p: "plain_segment (generateAppointmentId t r)" by (rule generateAppointmentId_plain)
  then have ne: "generateAppointmentId t r \<noteq> []" by (simp add: plain_segment_def)
  have w: "plain_segment ''queue''" "plain_segment ''checkin''" "plain_segment ''cancel''"
    "plain_segment ''modify''" by (simp_all add: plain_segment_def)
  note ps = path_segments_api [OF p w(1)] path_segments_api [OF p w(2)]
    path_segments_api [OF p w(3)] path_segments_api [OF p w(4)]
  have r: "router_match POST [generateAppointmentId t r, ''queue''] = Some (QueueRoute (generateAppointmentId t r))"
    "router_match POST [generateAppointmentId t r, ''checkin''] = Some (CheckInRoute (generateAppointmentId t r))"
    "router_match DELETE [generateAppointmentId t r, ''cancel''] = Some (CancelRoute (generateAppointmentId t r))"
    "router_match PUT [generateAppointmentId t r, ''modify''] = Some (ModifyRoute (generateAppointmentId t r))"
    using ne by (simp_all add: seg_is_def lower_ascii_def)
  show ?thesis
    using resolve_api_route [OF ps(1) _ _ r(1)] resolve_api_route [OF ps(2) _ _ r(2)]
      resolve_api_route [OF ps(3) _ _ r(3)] resolve_api_route [OF ps(4) _ _ r(4)]
    by (simp add: seg_is_def lower_ascii_def resolve_def path_segments_def)
qed

lemma resolve_other_prefix:
  assumes "path_segments url = Some (a # b # rest)" and "seg_is ''api'' a"
    and "\<not> seg_is ''appointments'' b" and "\<not> seg_is ''test'' b" and "\<not> seg_is ''health'' b"
  shows "resolve m url = None"
  using assms by (simp add: resolve_def)

lemma takeWhile_no_stop: "\<forall>x \<in> set xs. P x \<Longrightarrow> takeWhile P (xs @ ys) = xs @ takeWhile P ys"
  by (induction xs) auto

lemma path_segments_two:
  assumes "plain_segment a" and "plain_segment b"
  shows "\<exists>rest. path_segments (CHR ''/'' # a @ CHR ''/'' # b @ CHR ''/'' # z) = Some (a # b # rest)"
proof -
  let ?y = "takeWhile (\<lambda>c. c \<noteq> CHR ''?'') z"
  have tw: "takeWhile (\<lambda>c. c \<noteq> CHR ''?'') (CHR ''/'' # a @ CHR ''/'' # b @ CHR ''/'' # z) =
            CHR ''/'' # a @ CHR ''/'' # b @ CHR ''/'' # ?y"
  proof -
    have "\<forall>x \<in> set a. x \<noteq> CHR ''?''" "\<forall>x \<in> set b. x \<noteq> CHR ''?''"
      using assms by (auto simp: plain_segment_def)
    then show ?thesis by (simp add: takeWhile_no_stop)
  qed
  have sp: "split_on CHR ''/'' (CHR ''/'' # a @ CHR ''/'' # b @ CHR ''/'' # ?y) =
            [] # a # b # split_on CHR ''/'' ?y"
    using assms by (simp add: plain_segment_def split_on_append_sep)
  have "split_on CHR ''/'' ?y \<noteq> []" by simp
  then show ?thesis
    by (simp only: path_segments_def tw sp) (auto simp: butlast_append)
qed

lemma query_paths_unrouted:
  "resolve GET (''/api/queue?patientId='' @ p) = None"
  "resolve GET (''/api/appointments?patientId='' @ p) = None"
  by (simp_all add: resolve_def path_segments_def seg_is_def lower_ascii_def)

lemma user_paths_unrouted:
  "resolve m ''/api/user/login'' = None" "resolve m ''/api/user/signup'' = None"
  "resolve m ''/api/doctor'' = None"
  by (simp_all add: resolve_def path_segments_def seg_is_def lower_ascii_def)

text \<open>C13: none of the endpoints the live controller (src/public/js/somefile.js) uses for
  login, signup, the doctor list, the time slots of a doctor, the queue list and the
  appointment search is served: each request reaches Express's 404 handler, whatever the
  doctor, date or patient in the URL.\<close>

theorem live_paths_unrouted:
  "resolve POST ''/api/user/login'' = None \<and> resolve POST ''/api/user/signup'' = None \<and>
   resolve GET ''/api/doctor'' = None \<and>
   (\<forall>d. resolve GET (''/api/doctors/'' @ d) = None) \<and>
   (\<forall>p. resolve GET (''/api/queue?patientId='' @ p) = None) \<and>
   (\<forall>p. resolve GET (''/api/appointments?patientId='' @ p) = None)"
proof -
  have slots: "resolve GET (''/api/doctors/'' @ d) = None" for d
  proof (cases d)
    case Nil
    then show ?thesis by (simp add: resolve_def path_segments_def seg_is_def lower_ascii_def)
  next
    case (Cons c z)
    have pa: "plain_segment ''api''" "plain_segment ''doctors''" by (simp_all add: plain_segment_def)
    obtain rest where
      "path_segments (CHR ''/'' # ''api'' @ CHR ''/'' # ''doctors'' @ CHR ''/'' # d) =
         Some (''api'' # ''doctors'' # rest)"
      using path_segments_two [OF pa, of d] by blast
    then have "path_segments (''/api/doctors/'' @ d) = Some (''api'' # ''doctors'' # rest)" by simp
    then show ?thesis
      by (rule resolve_other_prefix) (simp_all add: seg_is_def lower_ascii_def)
  qed
  show ?thesis using slots query_paths_unrouted user_paths_unrouted by blast
qed

end
