(* ===== verification/FrontendLive.thy ===== *)
theory FrontendLive
  imports Frontend Server
begin

text \<open>
  The live-API browser controller, \<open>src/public/js/somefile.js\<close>. It keeps the state of the
  sample-data controller (the \<open>ui\<close> record of \<open>Frontend\<close>) and adds the login state
  (\<open>loggedIn\<close>, \<open>patientId\<close>, \<open>patientName\<close>, \<open>patientEmail\<close>), the browser's
  \<open>localStorage\<close>, the visibility the header toggle sets, the alerts shown, the selected
  doctor as the JSON object it came from, and the doctors and time slots the page rendered
  from the server. Every \<open>fetch\<close> goes to the backend through \<open>resolve\<close>: a URL no
  handler serves gets Express's HTML 404 page, on which \<open>response.json()\<close> rejects; the
  replies of the served endpoints are a parameter \<open>h\<close> of every operation, so the
  theorems hold whatever the backend answers there. An awaited request is one step (the
  reply is handled before the next user event).
\<close>

section \<open>Replies and conversions\<close>

text \<open>The outcome of \<open>await fetch(...)\<close> followed by \<open>await response.json()\<close>: a status
  with a parsed body, a body that is not JSON, or a failed connection.\<close>

datatype fetch_reply = Reply nat jval | NotJson | NoConnection

definition express_fetch :: "(endpoint \<Rightarrow> fetch_reply) \<Rightarrow> http_method \<Rightarrow> string \<Rightarrow> fetch_reply" where
  "express_fetch h m url = (case resolve m url of None \<Rightarrow> NotJson | Some ep \<Rightarrow> h ep)"

definition http_ok :: "nat \<Rightarrow> bool" where
  "http_ok c \<longleftrightarrow> 200 \<le> c \<and> c < 300"

text \<open>\<open>String(v)\<close>; a missing property (\<open>undefined\<close>) and \<open>null\<close> are both \<open>JNull\<close>
  and print as \<open>undefined\<close>.\<close>

fun js_to_string :: "jval \<Rightarrow> string" where
  "js_to_string JNull = ''undefined''"
| "js_to_string (JBool b) = (if b then ''true'' else ''false'')"
| "js_to_string (JNum n) = int_str n"
| "js_to_string (JStr s) = s"
| "js_to_string (JArr xs) = join_with '','' (map (\<lambda>v. if v = JNull then [] else js_to_string v) xs)"
| "js_to_string (JObj _) = ''[object Object]''"

text \<open>\<open>localStorage.getItem(k) || ''\<close>.\<close>

definition stored :: "(string \<rightharpoonup> string) \<Rightarrow> string \<Rightarrow> string" where
  "stored st k = (case st k of None \<Rightarrow> [] | Some v \<Rightarrow> v)"

section \<open>State\<close>

record session =
  sui :: ui
  loggedIn :: bool
  sess_patientId :: string
  patientName :: string
  patientEmail :: string
  storage :: "string \<rightharpoonup> string"
  headerVisible :: bool
  alerts :: "string list"
  liveDoctor :: jval
  doctorsShown :: "jval list"
  slotsShown :: "string list"

definition network_alert :: string where
  "network_alert = ''Network error. Please check your connection and try again.''"

section \<open>Pages\<close>

definition toggleHeader :: "session \<Rightarrow> session" where
  "toggleHeader s = s\<lparr>headerVisible := loggedIn s\<rparr>"

text \<open>The part of \<open>showPage\<close> common to every page: the history push of the sample
  controller, then the header toggle once the page element is shown.\<close>

definition base_show :: "string \<Rightarrow> session \<Rightarrow> session" where
  "base_show p s = toggleHeader (s\<lparr>sui := showPage p (sui s)\<rparr>)"

definition loadDoctors_result :: "fetch_reply \<Rightarrow> jval list" where
  "loadDoctors_result r =
     (case r of Reply c (JArr xs) \<Rightarrow> if http_ok c then xs else [] | _ \<Rightarrow> [])"

definition loadTimeSlots_result :: "fetch_reply \<Rightarrow> string list" where
  "loadTimeSlots_result r =
     (case r of Reply c (JArr xs) \<Rightarrow> if http_ok c then map js_to_string xs else [] | _ \<Rightarrow> [])"

definition slots_url :: "session \<Rightarrow> string" where
  "slots_url s = ''/api/doctors/'' @ js_to_string (js_get (liveDoctor s) ''doctorId'') @
                 ''/slots?date='' @ selectedDate (sui s)"

text \<open>\<open>loadProfile\<close>: without a patient ID and name it shows an error and the login page.\<close>

definition loadProfile :: "session \<Rightarrow> session" where
  "loadProfile s =
     (if sess_patientId s = [] \<or> patientName s = []
      then base_show ''login''
             (s\<lparr>sui := showModal ''Profile Error'' ''Please login to view your profile.'' (sui s)\<rparr>)
      else s)"

definition live_showPage :: "(endpoint \<Rightarrow> fetch_reply) \<Rightarrow> string \<Rightarrow> session \<Rightarrow> session" where
  "live_showPage h p s =
     (let s1 = base_show p s in
      if p = ''home'' then s1\<lparr>doctorsShown := loadDoctors_result (express_fetch h GET ''/api/doctor'')\<rparr>
      else if p = ''time-slots''
      then s1\<lparr>slotsShown := loadTimeSlots_result (express_fetch h GET (slots_url s1))\<rparr>
      else if p = ''profile'' then loadProfile s1
      else s1)"

definition live_goBack :: "(endpoint \<Rightarrow> fetch_reply) \<Rightarrow> session \<Rightarrow> session" where
  "live_goBack h s =
     (if 1 < length (navigationHistory (sui s))
      then (let hh = butlast (navigationHistory (sui s)) in
            live_showPage h (last hh) (s\<lparr>sui := (sui s)\<lparr>navigationHistory := hh\<rparr>\<rparr>))
      else live_showPage h ''home'' s)"

definition live_goToTimeSlots :: "(endpoint \<Rightarrow> fetch_reply) \<Rightarrow> session \<Rightarrow> session" where
  "live_goToTimeSlots h s =
     (if selectedDate (sui s) = []
      then s\<lparr>sui := showModal ''Select Date'' ''Please select an appointment date first.'' (sui s)\<rparr>
      else live_showPage h ''time-slots'' s)"

section \<open>Loading the page\<close>

text \<open>The \<open>DOMContentLoaded\<close> listener on \<open>document\<close> runs before the one on
  \<open>window\<close>: first the home page is shown, then the stored user is read back.\<close>

definition fresh_session :: "(string \<rightharpoonup> string) \<Rightarrow> int \<Rightarrow> int \<Rightarrow> session" where
  "fresh_session st m y =
     \<lparr>sui = init_ui m y, loggedIn = False, sess_patientId = [], patientName = [], patientEmail = [],
      storage = st, headerVisible = True, alerts = [], liveDoctor = JObj [], doctorsShown = [],
      slotsShown = []\<rparr>"

text \<open>The listener on \<open>document\<close>: the click listeners are installed (\<open>live_step\<close>), the
  calendar is rendered, the queue list is requested (its page state is in \<open>LivePage\<close>),
  and the home page is shown.\<close>

definition live_dom_loaded :: "(endpoint \<Rightarrow> fetch_reply) \<Rightarrow> session \<Rightarrow> session" where
  "live_dom_loaded h s = live_showPage h ''home'' s"

definition live_load :: "(endpoint \<Rightarrow> fetch_reply) \<Rightarrow> (string \<rightharpoonup> string) \<Rightarrow> int \<Rightarrow> int \<Rightarrow> session" where
  "live_load h st m y =
     (let s1 = live_dom_loaded h (fresh_session st m y);
          s2 = s1\<lparr>sess_patientId := stored st ''patientId'', patientName := stored st ''patientName'',
                  patientEmail := stored st ''patientEmail''\<rparr>;
          s3 = (if sess_patientId s2 \<noteq> [] then s2\<lparr>loggedIn := True\<rparr> else s2)
      in if loggedIn s3 then toggleHeader (live_showPage h ''home'' s3) else live_showPage h ''login'' s3)"

section \<open>Authentication\<close>

text \<open>\<open>handleLogin\<close> and \<open>handleSignup\<close> after the request: they differ only in the
  messages. \<open>loggedIn\<close> is set before \<open>data.patient.id\<close> is read, so a reply
  without a patient object leaves it set and ends in the catch block.\<close>

definition auth_reply ::
    "(endpoint \<Rightarrow> fetch_reply) \<Rightarrow> string \<Rightarrow> string \<Rightarrow> fetch_reply \<Rightarrow> session \<Rightarrow> session" where
  "auth_reply h okm failm r s =
     (case r of
        Reply c body \<Rightarrow>
          if http_ok c then
            (case js_get body ''patient'' of
               JNull \<Rightarrow> s\<lparr>loggedIn := True, alerts := alerts s @ [network_alert]\<rparr>
             | pat \<Rightarrow>
                 (let pid = js_to_string (js_get pat ''id''); nm = js_to_string (js_get pat ''name'');
                      em = js_to_string (js_get pat ''email'')
                  in live_showPage h ''home''
                       (s\<lparr>loggedIn := True, sess_patientId := pid, patientName := nm, patientEmail := em,
                          storage := (storage s)(''patientId'' \<mapsto> pid, ''patientName'' \<mapsto> nm,
                                                 ''patientEmail'' \<mapsto> em),
                          alerts := alerts s @ [okm]\<rparr>)))
          else s\<lparr>alerts := alerts s @
                   [if js_truthy (js_get body ''message'') then js_to_string (js_get body ''message'')
                    else failm]\<rparr>
      | _ \<Rightarrow> s\<lparr>alerts := alerts s @ [network_alert]\<rparr>)"

text \<open>\<open>handleLogin(email, password)\<close> and \<open>handleSignup(name, email, password)\<close>: the
  request to their endpoint (its body does not select the reply: the replies of served
  endpoints are the parameter \<open>h\<close>), then the shared reply handling.\<close>

definition handleLogin :: "(endpoint \<Rightarrow> fetch_reply) \<Rightarrow> session \<Rightarrow> session" where
  "handleLogin h s =
     auth_reply h ''Login successful!'' ''Login failed. Please try again.'' (express_fetch h POST ''/api/user/login'') s"

definition handleSignup :: "(endpoint \<Rightarrow> fetch_reply) \<Rightarrow> session \<Rightarrow> session" where
  "handleSignup h s =
     auth_reply h ''Signup successful!'' ''Signup failed. Please try again.'' (express_fetch h POST ''/api/user/signup'') s"

definition login_submit :: "(endpoint \<Rightarrow> fetch_reply) \<Rightarrow> string \<Rightarrow> string \<Rightarrow> session \<Rightarrow> session" where
  "login_submit h email password s =
     (if trim email = [] \<or> trim password = []
      then s\<lparr>alerts := alerts s @ [''Please enter both email and password.'']\<rparr>
      else handleLogin h s)"

definition signup_submit ::
    "(endpoint \<Rightarrow> fetch_reply) \<Rightarrow> string \<Rightarrow> string \<Rightarrow> string \<Rightarrow> session \<Rightarrow> session" where
  "signup_submit h fullname email password s =
     (if trim fullname = [] \<or> trim email = [] \<or> trim password = []
      then s\<lparr>alerts := alerts s @ [''Please fill out all fields.'']\<rparr>
      else handleSignup h s)"

definition logout :: "(endpoint \<Rightarrow> fetch_reply) \<Rightarrow> session \<Rightarrow> session" where
  "logout h s =
     live_showPage h ''login''
       (s\<lparr>loggedIn := False, sess_patientId := [], patientEmail := [], patientName := [],
          storage := (storage s)(''patientId'' := None, ''patientName'' := None, ''patientEmail'' := None)\<rparr>)"

section \<open>Doctors\<close>

text \<open>Setting \<open>element.textContent\<close> to a value of the doctor object: \<open>null\<close> and a
  missing property both give the empty text.\<close>

definition dom_text :: "jval \<Rightarrow> string" where
  "dom_text v = (if v = JNull then [] else js_to_string v)"

text \<open>\<open>selectDoctor(doctor)\<close> with the doctor object of a rendered card: it is stored,
  the panels show its fields (\<open>updateSelectedDoctorInfo\<close>, the same code as in
  \<open>app.js\<close>), and the booking page is shown.\<close>

definition live_selectDoctor :: "(endpoint \<Rightarrow> fetch_reply) \<Rightarrow> jval \<Rightarrow> session \<Rightarrow> session" where
  "live_selectDoctor h d s =
     live_showPage h ''booking''
       (s\<lparr>liveDoctor := d,
          sui := (sui s)\<lparr>panelText := panelText (sui s) ++
                    map_of (doctor_panels (dom_text (js_get d ''name'')) (dom_text (js_get d ''specialty''))
                      (dom_text (js_get d ''experience'')) (dom_text (js_get d ''availability''))
                      (dom_text (js_get d ''avatar'')))\<rparr>\<rparr>)"

text \<open>An exception a handler throws and nothing catches: the event loop reports it and
  the handler's remaining statements do not run.\<close>

datatype js_exception = ReferenceError string

text \<open>The Learn more link of a doctor card, \<open>showDoctorInfo(doctorId)\<close>: its first
  statement reads \<open>sampleDoctors\<close>, which \<open>somefile.js\<close> never declares (the
  controller is loaded alone), so it throws before looking for the doctor.\<close>

definition live_showDoctorInfo :: "string \<Rightarrow> session \<Rightarrow> js_exception + session" where
  "live_showDoctorInfo did s = Inl (ReferenceError ''sampleDoctors is not defined'')"

text \<open>An event handler's effect: the new state, or the state as it was when it threw.\<close>

definition handler_result :: "session \<Rightarrow> js_exception + session \<Rightarrow> session" where
  "handler_result s r = (case r of Inl _ \<Rightarrow> s | Inr s' \<Rightarrow> s')"

section \<open>Booking\<close>

definition live_confirm :: "session \<Rightarrow> session \<times> jval option" where
  "live_confirm s =
     (let modal_err = (\<lambda>m. s\<lparr>sui := showModal ''Validation Error'' m (sui s)\<rparr>) in
      if sess_patientId s = [] then (modal_err ''Please login to book an appointment.'', None)
      else if \<not> js_truthy (js_get (liveDoctor s) ''doctorId'') then (modal_err ''Please select a doctor.'', None)
      else if selectedDate (sui s) = [] then (modal_err ''Please select an appointment date.'', None)
      else if selectedTime (sui s) = [] then (modal_err ''Please select a time slot.'', None)
      else (s\<lparr>sui := (sui s)\<lparr>loading := True\<rparr>\<rparr>,
            Some (JObj [(''patientId'', JStr (sess_patientId s)),
                        (''doctorId'', js_get (liveDoctor s) ''doctorId''),
                        (''dateTime'', JStr (selectedDate (sui s) @ ''T'' @ selectedTime (sui s) @ '':00''))])))"

definition live_resetBookingForm :: "session \<Rightarrow> session" where
  "live_resetBookingForm s =
     s\<lparr>sui := (sui s)\<lparr>selectedDate := [], selectedTime := [],
                  goToTimeLabel := Some (''Go to pick time '' @ arrow_right), navigationHistory := [''home'']\<rparr>,
       liveDoctor := JObj []\<rparr>"

text \<open>The booking reply: on success the queue request is sent (its reply is only logged),
  the success modal shown and the form reset.\<close>

definition live_book_reply :: "fetch_reply \<Rightarrow> session \<Rightarrow> session" where
  "live_book_reply r s =
     (let s' = s\<lparr>sui := (sui s)\<lparr>loading := False\<rparr>\<rparr> in
      case r of
        Reply c body \<Rightarrow>
          if http_ok c \<and> js_truthy (js_get body ''success'')
          then live_resetBookingForm
                 (s'\<lparr>sui := showModal ''Appointment Confirmed!'' ''Appointment booked successfully!'' (sui s')\<rparr>)
          else s'\<lparr>sui := showModal ''Booking Failed''
                   (if js_truthy (js_get body ''message'') then js_to_string (js_get body ''message'')
                    else ''Failed to book appointment.'') (sui s')\<rparr>
      | _ \<Rightarrow> s'\<lparr>sui := showModal ''Network Error''
               ''Unable to connect to server. Please try again later.'' (sui s')\<rparr>)"

section \<open>Events\<close>

datatype live_event =
    LShowPage string
  | LGoBack
  | LGoToTimeSlots
  | LChangeMonth int
  | LSelectDate int string bool
  | LSelectDoctor nat
  | LDoctorInfo string
  | LPickSlot nat
  | LCloseModal
  | LLogin string string
  | LSignup string string string
  | LLogout
  | LConfirm
  | LRedirectTimer

text \<open>A doctor or a time slot is chosen by clicking one of the cards or slots the page
  rendered from the server's reply (\<open>doctorsShown\<close>, \<open>slotsShown\<close>).\<close>

fun live_step :: "(endpoint \<Rightarrow> fetch_reply) \<Rightarrow> session \<Rightarrow> live_event \<Rightarrow> session" where
  "live_step h s (LShowPage p) = live_showPage h p s"
| "live_step h s LGoBack = live_goBack h s"
| "live_step h s LGoToTimeSlots = live_goToTimeSlots h s"
| "live_step h s (LChangeMonth d) = s\<lparr>sui := changeMonth d (sui s)\<rparr>"
| "live_step h s (LSelectDate zone ds dis) = s\<lparr>sui := selectDate zone ds dis (sui s)\<rparr>"
| "live_step h s (LSelectDoctor n) =
     (if n < length (doctorsShown s) then live_selectDoctor h (doctorsShown s ! n) s else s)"
| "live_step h s (LDoctorInfo did) = handler_result s (live_showDoctorInfo did s)"
| "live_step h s (LPickSlot n) =
     (if n < length (slotsShown s) then s\<lparr>sui := selectTimeSlot (slotsShown s ! n) (sui s)\<rparr> else s)"
| "live_step h s LCloseModal = s\<lparr>sui := closeModal (sui s)\<rparr>"
| "live_step h s (LLogin e p) = login_submit h e p s"
| "live_step h s (LSignup n e p) = signup_submit h n e p s"
| "live_step h s LLogout = logout h s"
| "live_step h s LConfirm =
     (case live_confirm s of
        (s', None) \<Rightarrow> s'
      | (s', Some body) \<Rightarrow> live_book_reply (express_fetch h POST ''/api/appointments/book'') s')"
| "live_step h s LRedirectTimer = live_showPage h ''check-appointments'' s"

fun live_run :: "(endpoint \<Rightarrow> fetch_reply) \<Rightarrow> session \<Rightarrow> live_event list \<Rightarrow> session" where
  "live_run h s [] = s"
| "live_run h s (ev # evs) = live_run h (live_step h s ev) evs"

section \<open>Lemmas\<close>

lemma express_fetch_unrouted: "resolve m url = None \<Longrightarrow> express_fetch h m url = NotJson"
  by (simp add: express_fetch_def)

lemma live_showPage_fields [simp]:
  "sess_patientId (live_showPage h p s) = sess_patientId s"
  "patientName (live_showPage h p s) = patientName s"
  "storage (live_showPage h p s) = storage s"
  "loggedIn (live_showPage h p s) = loggedIn s"
  "alerts (live_showPage h p s) = alerts s"
  by (simp_all add: live_showPage_def Let_def base_show_def toggleHeader_def loadProfile_def)

lemma live_showPage_activePage:
  "activePage (sui (live_showPage h p s)) =
     (if p = ''profile'' \<and> (sess_patientId s = [] \<or> patientName s = []) then ''login'' else p)"
  by (simp add: live_showPage_def Let_def base_show_def toggleHeader_def loadProfile_def showPage_def
      showModal_def)

lemma login_submit_eq:
  "login_submit h e p s =
     s\<lparr>alerts := alerts s @ [if trim e = [] \<or> trim p = [] then ''Please enter both email and password.''
                            else network_alert]\<rparr>"
  using user_paths_unrouted(1) [of POST]
  by (simp add: login_submit_def handleLogin_def auth_reply_def express_fetch_unrouted)

lemma signup_submit_eq:
  "signup_submit h n e p s =
     s\<lparr>alerts := alerts s @ [if trim n = [] \<or> trim e = [] \<or> trim p = [] then ''Please fill out all fields.''
                            else network_alert]\<rparr>"
  using user_paths_unrouted(2) [of POST]
  by (simp add: signup_submit_def handleSignup_def auth_reply_def express_fetch_unrouted)

text \<open>Against the repository's server, a login or signup submit never logs the user
  in: whatever the replies of the served endpoints, the session and the stored user are
  unchanged and the only effect is an alert (the validation message, or the network error
  raised when the 404 page is read as JSON).\<close>

theorem live_auth_never_succeeds:
  "login_submit h e p s =
     s\<lparr>alerts := alerts s @ [if trim e = [] \<or> trim p = [] then ''Please enter both email and password.''
                            else network_alert]\<rparr> \<and>
   signup_submit h n e p s =
     s\<lparr>alerts := alerts s @ [if trim n = [] \<or> trim e = [] \<or> trim p = [] then ''Please fill out all fields.''
                            else network_alert]\<rparr>"
  by (simp add: login_submit_eq signup_submit_eq)

lemma live_confirm_no_patient:
  "sess_patientId s = [] \<Longrightarrow>
   live_confirm s = (s\<lparr>sui := showModal ''Validation Error'' ''Please login to book an appointment.'' (sui s)\<rparr>, None)"
  by (simp add: live_confirm_def)

lemma live_step_no_patient:
  "sess_patientId s = [] \<Longrightarrow> sess_patientId (live_step h s ev) = []"
  by (cases ev)
     (simp_all add: live_goBack_def Let_def live_goToTimeSlots_def login_submit_eq signup_submit_eq
        logout_def live_confirm_no_patient live_selectDoctor_def handler_result_def live_showDoctorInfo_def)

lemma live_run_no_patient:
  "sess_patientId s = [] \<Longrightarrow> sess_patientId (live_run h s evs) = []"
  by (induction evs arbitrary: s) (simp_all add: live_step_no_patient)

lemma live_load_patient:
  "sess_patientId (live_load h st m y) = stored st ''patientId''"
  by (simp add: live_load_def live_dom_loaded_def Let_def toggleHeader_def)

text \<open>C11: starting from a browser with no stored patient ID, no sequence of user actions
  (navigation, selections, login, signup, logout, booking) ever makes the live controller
  send a booking request: the patient ID stays empty, so the first validation of
  confirmAppointment refuses.\<close>

theorem live_never_books:
  assumes "stored st ''patientId'' = []"
  shows "snd (live_confirm (live_run h (live_load h st m y) evs)) = None"
proof -
  have "sess_patientId (live_run h (live_load h st m y) evs) = []"
    by (rule live_run_no_patient) (simp add: live_load_patient assms)
  then show ?thesis by (simp add: live_confirm_no_patient)
qed

text \<open>When the profile guard has sent a user without a patient ID to the login page
  (history ending in profile, login), Back shows the profile page again, whose guard pushes
  login back: the history and the page are unchanged, so Back cannot leave the login page.\<close>

theorem live_profile_back_trap:
  assumes "sess_patientId s = []" and "navigationHistory (sui s) = hs @ [''profile'', ''login'']"
  shows "navigationHistory (sui (live_goBack h s)) = navigationHistory (sui s) \<and>
         activePage (sui (live_goBack h s)) = ''login''"
proof -
  have hh: "butlast (navigationHistory (sui s)) = hs @ [''profile'']"
    using assms(2) by (simp add: butlast_append)
  show ?thesis
    using assms hh
    by (simp add: live_goBack_def live_showPage_def Let_def base_show_def toggleHeader_def
        loadProfile_def showPage_def showModal_def last_opt_Some)
qed

lemma stored_cleared: "stored (st(''patientId'' := None, ''patientName'' := None, ''patientEmail'' := None)) ''patientId'' = []"
  by (simp add: stored_def)

text \<open>After logout, reloading the page with the storage it left starts logged out, with
  no patient ID, on the login page.\<close>

theorem live_logout_reload:
  "\<not> loggedIn (live_load h (storage (logout h s)) m y) \<and>
   sess_patientId (live_load h (storage (logout h s)) m y) = [] \<and>
   activePage (sui (live_load h (storage (logout h s)) m y)) = ''login''"
  by (simp add: logout_def live_load_def live_dom_loaded_def Let_def stored_cleared live_showPage_activePage toggleHeader_def
      fresh_session_def)

text \<open>Reloading with a stored non-empty patient ID restores the session: logged in,
  the header shown, the stored patient ID in use and the home page active.\<close>

theorem live_reload_restores:
  assumes "stored st ''patientId'' \<noteq> []"
  shows "loggedIn (live_load h st m y) \<and> headerVisible (live_load h st m y) \<and>
         sess_patientId (live_load h st m y) = stored st ''patientId'' \<and>
         activePage (sui (live_load h st m y)) = ''home''"
  using assms
  by (simp add: live_load_def live_dom_loaded_def Let_def toggleHeader_def live_showPage_activePage)

theorem live_never_books_witness:
  "stored Map.empty ''patientId'' = [] \<and>
   snd (live_confirm (live_run (\<lambda>_. NotJson) (live_load (\<lambda>_. NotJson) Map.empty 0 2025)
     [LLogin ''ann@example.com'' ''secret'', LShowPage ''home'', LSelectDate 0 ''2999-01-01'' False, LConfirm])) = None"
proof -
  have a: "stored Map.empty ''patientId'' = []" by (simp add: stored_def)
  show ?thesis by (rule conjI [OF a live_never_books [OF a]])
qed

theorem live_profile_back_trap_witness:
  "sess_patientId ((fresh_session Map.empty 0 2025)\<lparr>sui := (init_ui 0 2025)\<lparr>navigationHistory :=
       [''home'', ''profile'', ''login'']\<rparr>\<rparr>) = [] \<and>
   navigationHistory (sui (live_goBack (\<lambda>_. NotJson) ((fresh_session Map.empty 0 2025)\<lparr>sui :=
       (init_ui 0 2025)\<lparr>navigationHistory := [''home'', ''profile'', ''login'']\<rparr>\<rparr>))) =
     [''home'', ''profile'', ''login''] \<and>
   activePage (sui (live_goBack (\<lambda>_. NotJson) ((fresh_session Map.empty 0 2025)\<lparr>sui :=
       (init_ui 0 2025)\<lparr>navigationHistory := [''home'', ''profile'', ''login'']\<rparr>\<rparr>))) = ''login''"
  using live_profile_back_trap [of "(fresh_session Map.empty 0 2025)\<lparr>sui :=
       (init_ui 0 2025)\<lparr>navigationHistory := [''home'', ''profile'', ''login'']\<rparr>\<rparr>" "[''home'']"
       "\<lambda>_. NotJson"]
  by (simp add: fresh_session_def)

theorem live_reload_restores_witness:
  "stored [''patientId'' \<mapsto> ''P1'', ''patientName'' \<mapsto> ''Ann''] ''patientId'' \<noteq> [] \<and>
   loggedIn (live_load (\<lambda>_. NotJson) [''patientId'' \<mapsto> ''P1'', ''patientName'' \<mapsto> ''Ann''] 0 2025) \<and>
   sess_patientId (live_load (\<lambda>_. NotJson) [''patientId'' \<mapsto> ''P1'', ''patientName'' \<mapsto> ''Ann''] 0 2025) = ''P1'' \<and>
   activePage (sui (live_load (\<lambda>_. NotJson) [''patientId'' \<mapsto> ''P1'', ''patientName'' \<mapsto> ''Ann''] 0 2025)) = ''home''"
proof -
  have a: "stored [''patientId'' \<mapsto> ''P1'', ''patientName'' \<mapsto> ''Ann''] ''patientId'' \<noteq> []"
    by (simp add: stored_def)
  show ?thesis
    using a live_reload_restores [OF a, of "\<lambda>_. NotJson" 0 2025] by (simp add: stored_def)
qed

end
