(* ===== verification/Calendar.thy ===== *)
theory Calendar
  imports Frontend "HOL-Library.While_Combinator"
begin

text \<open>
  \<open>generateCalendar\<close>, identical in \<open>src/public/js/app.js\<close> and
  \<open>src/public/js/somefile.js\<close>: the cells of the month grid for the controller's
  \<open>currentMonth\<close> and \<open>currentYear\<close>, in the browser's zone (milliseconds east of UTC)
  on the day \<open>today\<close>. Its three \<open>for\<close> loops are translated as \<open>while_option\<close> loops
  over the loop counter and the cells built so far. A cell of the month carries the date
  string its click passes to \<open>selectDate\<close>, whether it is disabled (a past day) and
  whether it is the selected date; the cells of the neighbouring months are disabled and
  carry no date. The HTML strings and CSS classes are not modelled.
\<close>

datatype cal_cell = OtherMonthDay nat | MonthDay nat string bool bool

section \<open>The loops\<close>

text \<open>\<open>for (let i = firstDay - 1; i >= 0; i--)\<close>: the trailing days of the previous month.\<close>

definition prev_loop :: "nat \<Rightarrow> nat \<Rightarrow> (int \<times> cal_cell list) option" where
  "prev_loop daysInPrevMonth firstDay =
     while_option (\<lambda>(i, acc). 0 \<le> i)
       (\<lambda>(i, acc). (i - 1, acc @ [OtherMonthDay (daysInPrevMonth - nat i)]))
       (int firstDay - 1, [])"

text \<open>The body of \<open>for (let day = 1; day <= daysInMonth; day++)\<close>: one day of the month.\<close>

definition month_cell :: "int \<Rightarrow> time \<Rightarrow> ui \<Rightarrow> nat \<Rightarrow> cal_cell" where
  "month_cell zone today u day =
     (let date = local_time zone (currentYear u) (currentMonth u) (int day);
          dateStr = iso_date_part date
      in MonthDay day dateStr (date < local_midnight zone today) (selectedDate u = dateStr))"

definition month_loop :: "int \<Rightarrow> time \<Rightarrow> ui \<Rightarrow> nat \<Rightarrow> (nat \<times> cal_cell list) option" where
  "month_loop zone today u daysInMonth =
     while_option (\<lambda>(day, acc). day \<le> daysInMonth)
       (\<lambda>(day, acc). (Suc day, acc @ [month_cell zone today u day])) (1, [])"

text \<open>\<open>for (let day = 1; day <= remainingCells && remainingCells < 7; day++)\<close>.\<close>

definition next_loop :: "int \<Rightarrow> (nat \<times> cal_cell list) option" where
  "next_loop remainingCells =
     while_option (\<lambda>(day, acc). int day \<le> remainingCells \<and> remainingCells < 7)
       (\<lambda>(day, acc). (Suc day, acc @ [OtherMonthDay day])) (1, [])"

section \<open>generateCalendar\<close>

definition generateCalendar :: "int \<Rightarrow> time \<Rightarrow> ui \<Rightarrow> cal_cell list" where
  "generateCalendar zone today u =
     (let y = currentYear u; m = currentMonth u;
          firstDay = getDay zone (local_time zone y m 1);
          daysInMonth = getDate zone (local_time zone y (m + 1) 0);
          daysInPrevMonth = getDate zone (local_time zone y m 0);
          remainingCells = 42 - (int firstDay + int daysInMonth)
      in snd (the (prev_loop daysInPrevMonth firstDay)) @
         snd (the (month_loop zone today u daysInMonth)) @
         snd (the (next_loop remainingCells)))"

text \<open>The grid as the loops are meant to build it: the reference the loops are proved
  equal to.\<close>

definition calendar_ref :: "int \<Rightarrow> time \<Rightarrow> ui \<Rightarrow> cal_cell list" where
  "calendar_ref zone today u =
     (let y = currentYear u; m = currentMonth u;
          firstDay = getDay zone (local_time zone y m 1);
          daysInMonth = getDate zone (local_time zone y (m + 1) 0);
          daysInPrevMonth = getDate zone (local_time zone y m 0);
          remainingCells = 42 - (int firstDay + int daysInMonth)
      in map (\<lambda>i. OtherMonthDay (daysInPrevMonth - i)) (rev [0..<firstDay]) @
         map (month_cell zone today u) [1..<daysInMonth + 1] @
         (if remainingCells < 7 then map OtherMonthDay [1..<nat remainingCells + 1] else []))"

text \<open>A click on a cell: \<open>selectDate(dateStr, element)\<close> for a day of the month; the
  cells of other months have no handler.\<close>

fun click_cell :: "int \<Rightarrow> cal_cell \<Rightarrow> ui \<Rightarrow> ui" where
  "click_cell zone (MonthDay d s dis sel) u = selectDate zone s dis u"
| "click_cell zone (OtherMonthDay d) u = u"

text \<open>The heading \<open>generateCalendar\<close> writes,
  \<open>`${months[currentMonth]} ${currentYear}`\<close>: an index outside the array reads
  \<open>undefined\<close>.\<close>

definition calendar_heading :: "ui \<Rightarrow> string" where
  "calendar_heading u =
     (if 0 \<le> currentMonth u \<and> currentMonth u < 12 then month_names ! nat (currentMonth u) else ''undefined'') @
     '' '' @ int_str (currentYear u)"

section \<open>Lemmas\<close>

subsection \<open>Loops\<close>

text \<open>The two shapes of counting loop the function uses, each run to its end.\<close>

lemma while_option_count_up:
  "while_option (\<lambda>(k, acc). k < n) (\<lambda>(k, acc). (Suc k, acc @ [g k])) (k0, acc0) =
     Some (max k0 n, acc0 @ map g [k0..<n])"
proof (induction "n - k0" arbitrary: k0 acc0)
  case 0
  then show ?case by (subst while_option_unfold) simp
next
  case (Suc d)
  then have "k0 < n" by simp
  with Suc.hyps(1) [of "Suc k0" "acc0 @ [g k0]"] Suc.hyps(2) show ?case
    by (subst while_option_unfold) (simp add: upt_conv_Cons max_def)
qed

lemma while_option_count_down:
  "while_option (\<lambda>(i::int, acc). 0 \<le> i) (\<lambda>(i, acc). (i - 1, acc @ [g i])) (i0, acc0) =
     Some (min i0 (-1), acc0 @ map (\<lambda>j. g (int j)) (rev [0..<nat (i0 + 1)]))"
proof (induction "nat (i0 + 1)" arbitrary: i0 acc0)
  case 0
  then show ?case by (subst while_option_unfold) simp
next
  case (Suc d)
  then have i: "0 \<le> i0" and d: "d = nat i0" by simp_all
  from Suc.hyps(1) [of "i0 - 1" "acc0 @ [g i0]"] d have
    "while_option (\<lambda>(i::int, acc). 0 \<le> i) (\<lambda>(i, acc). (i - 1, acc @ [g i])) (i0 - 1, acc0 @ [g i0]) =
     Some (min (i0 - 1) (-1), acc0 @ [g i0] @ map (\<lambda>j. g (int j)) (rev [0..<nat i0]))" by simp
  moreover have "rev [0..<nat (i0 + 1)] = nat i0 # rev [0..<nat i0]" using i by (simp add: nat_add_distrib)
  ultimately show ?case using i by (subst while_option_unfold) (simp add: min_def)
qed

lemma month_loop_Some:
  "month_loop zone today u n = Some (Suc n, map (month_cell zone today u) [1..<Suc n])"
proof -
  have b: "(\<lambda>(day, acc). day \<le> n) = (\<lambda>(day, acc::cal_cell list). day < Suc n)" by auto
  show ?thesis unfolding month_loop_def b while_option_count_up by simp
qed

lemma next_loop_Some:
  "next_loop r = Some (max 1 (if r < 7 then nat (r + 1) else 0),
                       map OtherMonthDay [1..<if r < 7 then nat (r + 1) else 0])"
proof -
  have b: "(\<lambda>(day, acc). int day \<le> r \<and> r < 7) =
           (\<lambda>(day, acc::cal_cell list). day < (if r < 7 then nat (r + 1) else 0))" by auto
  show ?thesis unfolding next_loop_def b while_option_count_up by simp
qed

lemma prev_loop_Some:
  "prev_loop dp f = Some (min (int f - 1) (-1), map (\<lambda>i. OtherMonthDay (dp - i)) (rev [0..<f]))"
  unfolding prev_loop_def while_option_count_down by (simp add: rev_map [symmetric])

lemma next_cells:
  "snd (the (next_loop r)) = (if r < 7 then map OtherMonthDay [1..<nat r + 1] else [])"
proof (cases "0 \<le> r")
  case True
  then show ?thesis by (simp add: next_loop_Some nat_add_distrib)
next
  case False
  then show ?thesis by (simp add: next_loop_Some)
qed

lemmas calendar_loops = prev_loop_Some month_loop_Some next_cells

lemma getDay_lt7: "getDay zone t < 7"
  by (simp add: getDay_def nat_less_iff)

lemma generateCalendar_month_cell:
  "day \<in> {1..getDate zone (local_time zone (currentYear u) (currentMonth u + 1) 0)} \<Longrightarrow>
   month_cell zone today u day \<in> set (generateCalendar zone today u)"
proof -
  assume d: "day \<in> {1..getDate zone (local_time zone (currentYear u) (currentMonth u + 1) 0)}"
  have "month_cell zone today u day \<in>
    set (map (month_cell zone today u) [1..<getDate zone (local_time zone (currentYear u) (currentMonth u + 1) 0) + 1])"
    unfolding set_map by (rule imageI) (use d in auto)
  then show ?thesis unfolding generateCalendar_def Let_def calendar_loops by simp
qed

lemma generateCalendar_MonthDay:
  "MonthDay d s dis sel \<in> set (generateCalendar zone today u) \<Longrightarrow>
   s = iso_date_part (local_time zone (currentYear u) (currentMonth u) (int d))"
  by (auto simp: generateCalendar_def Let_def calendar_loops month_cell_def)

text \<open>C19: the loops build exactly the intended grid: the trailing days of the previous month
  in increasing order, one cell per day of the month, and the leading days of the next month
  when fewer than seven cells remain.\<close>

theorem calendar_equiv: "generateCalendar zone today u = calendar_ref zone today u"
  by (simp add: generateCalendar_def calendar_ref_def Let_def calendar_loops)

text \<open>The grid never has more than 42 cells (six weeks).\<close>

theorem calendar_bound: "length (generateCalendar zone today u) \<le> 42"
proof -
  let ?y = "currentYear u" and ?m = "currentMonth u"
  let ?f = "getDay zone (local_time zone ?y ?m 1)"
  let ?n = "getDate zone (local_time zone ?y (?m + 1) 0)"
  have fl: "?f < 7" by (rule getDay_lt7)
  have nl: "?n \<le> 31" using getDate_bounds by blast
  from fl nl have "int (42 - (?f + ?n)) = 42 - (int ?f + int ?n)" by simp
  then have r: "nat (42 - (int ?f + int ?n)) = 42 - (?f + ?n)" by linarith
  show ?thesis using fl nl by (auto simp: generateCalendar_def Let_def calendar_loops r)
qed

text \<open>C20: in a zone up to one day east of UTC (zone > 0) every day cell of the calendar
  carries the ISO date of the day before the one it shows, so clicking a day selects the
  previous date; at UTC and west of it the cell carries its own date.\<close>

theorem calendar_cell_date:
  assumes "MonthDay d s dis sel \<in> set (generateCalendar zone today u)"
    and "- ms_per_day < zone" and "zone \<le> ms_per_day"
  shows "s = day_string (make_day (currentYear u) (currentMonth u) (int d) - (if 0 < zone then 1 else 0))"
  using generateCalendar_MonthDay [OF assms(1)] assms(2,3) by (simp add: iso_date_part_day local_time_day)

lemma myanmar_cell:
  "month_cell 23400000 1741996800000 (init_ui 2 2025) 15 = MonthDay 15 ''2025-03-14'' False False"
  by code_simp

lemma myanmar_days: "getDate 23400000 (local_time 23400000 2025 3 0) = 31"
  by code_simp

lemma myanmar_day_string: "day_string (make_day 2025 2 15) = ''2025-03-15''"
  by code_simp

theorem calendar_cell_date_witness:
  "MonthDay 15 ''2025-03-14'' False False \<in> set (generateCalendar 23400000 1741996800000 (init_ui 2 2025)) \<and>
   day_string (make_day 2025 2 15 - 1) = ''2025-03-14'' \<and>
   ''2025-03-14'' \<noteq> day_string (make_day 2025 2 15)"
proof -
  have m: "MonthDay 15 ''2025-03-14'' False False \<in> set (generateCalendar 23400000 1741996800000 (init_ui 2 2025))"
  proof -
    have d: "15 \<in> {1..getDate 23400000 (local_time 23400000 (currentYear (init_ui 2 2025))
               (currentMonth (init_ui 2 2025) + 1) 0)}"
      by (simp add: init_ui_def myanmar_days)
    show ?thesis
      using generateCalendar_month_cell [OF d, of 1741996800000] by (simp only: myanmar_cell)
  qed
  have z: "- ms_per_day < 23400000" "(23400000::int) \<le> ms_per_day" by (simp_all add: ms_per_day_def)
  have e: "''2025-03-14'' = day_string (make_day 2025 2 15 - 1)"
    using calendar_cell_date [OF m z] by (simp add: init_ui_def)
  have "''2025-03-14'' \<noteq> day_string (make_day 2025 2 15)" by (simp add: myanmar_day_string)
  with m e show ?thesis by simp
qed

text \<open>C21: in a zone east of UTC, clicking the enabled cell of day d, choosing a slot
  HH:MM and confirming sends a dateTime that the server, in whatever zone it runs, reads as
  HH:MM on the day before d: the appointment is stored one day early.\<close>

theorem calendar_booking_day_before:
  assumes cell: "MonthDay d s False sel \<in> set (generateCalendar zone today u)"
    and z: "0 < zone" "zone \<le> ms_per_day"
    and y: "0 \<le> fst (civil_from_days (make_day (currentYear u) (currentMonth u) (int d) - 1))"
           "fst (civil_from_days (make_day (currentYear u) (currentMonth u) (int d) - 1)) \<le> 9999"
    and slot: "hh < 24" "mm < 60"
    and conf: "confirmAppointment input (selectTimeSlot (pad2 hh @ '':'' @ pad2 mm) (selectDate zone s False u)) =
               (u', Some body)"
  shows "js_date tz' (js_get body ''dateTime'') =
           Some ((make_day (currentYear u) (currentMonth u) (int d) - 1) * ms_per_day +
                 int ((hh * 60 + mm) * 60000) - tz') \<and>
         ((make_day (currentYear u) (currentMonth u) (int d) - 1) * ms_per_day +
           int ((hh * 60 + mm) * 60000) - tz' + tz') div ms_per_day =
           make_day (currentYear u) (currentMonth u) (int d) - 1"
proof -
  let ?k = "make_day (currentYear u) (currentMonth u) (int d) - 1"
  have s: "s = day_string ?k"
    using generateCalendar_MonthDay [OF cell] z by (simp add: iso_date_part_day local_time_day)
  have b: "body = JObj [(''patientId'', JStr (trim input)), (''doctorId'', JStr (card_doctorId the_d)),
                   (''dateTime'', JStr (s @ ''T'' @ (pad2 hh @ '':'' @ pad2 mm) @ '':00''))]"
    if "selectedDoctor u = Some the_d" for the_d
    using confirmAppointment_Some [OF conf] that by (auto simp: selectTimeSlot_def selectDate_def)
  obtain the_d where "selectedDoctor u = Some the_d"
    using confirmAppointment_Some [OF conf] by (auto simp: selectTimeSlot_def selectDate_def)
  then have dt: "js_get body ''dateTime'' = JStr (day_string ?k @ CHR ''T'' # pad2 hh @ CHR '':'' # pad2 mm @ '':00'')"
    using b s by (simp add: obj_get_def)
  have p: "js_date tz' (js_get body ''dateTime'') =
      map_option (\<lambda>ofs. ?k * ms_per_day + ofs) (parse_time tz' (pad2 hh @ CHR '':'' # pad2 mm @ '':00''))"
    unfolding dt js_date_def jval.case parse_day_string [OF y] list.case by simp
  have t: "0 \<le> int ((hh * 60 + mm) * 60000)" "int ((hh * 60 + mm) * 60000) < ms_per_day"
    using slot by (simp_all add: ms_per_day_def)
  have "(?k * ms_per_day + int ((hh * 60 + mm) * 60000) - tz' + tz') div ms_per_day = ?k"
    by (rule int_div_unique) (use t in \<open>simp_all add: ms_per_day_def\<close>)
  then show ?thesis
    using p unfolding parse_slot_time [OF slot] by simp
qed

lemma myanmar_make_day: "make_day 2025 2 15 = 20162"
  by code_simp

theorem calendar_booking_day_before_witness:
  "\<exists>u' body.
     MonthDay 15 ''2025-03-14'' False False \<in>
       set (generateCalendar 23400000 1741996800000 ((init_ui 2 2025)\<lparr>selectedDoctor := Some (hd sampleDoctors)\<rparr>)) \<and>
     confirmAppointment ''P1'' (selectTimeSlot (pad2 9 @ '':'' @ pad2 0)
       (selectDate 23400000 ''2025-03-14'' False ((init_ui 2 2025)\<lparr>selectedDoctor := Some (hd sampleDoctors)\<rparr>))) = (u', Some body) \<and>
     js_date 0 (js_get body ''dateTime'') = Some 1741942800000 \<and>
     1741942800000 div ms_per_day = make_day 2025 2 15 - 1"
proof -
  let ?u = "(init_ui 2 2025)\<lparr>selectedDoctor := Some (hd sampleDoctors)\<rparr>"
  have c: "month_cell 23400000 1741996800000 ?u 15 = MonthDay 15 ''2025-03-14'' False False"
    by code_simp
  have d: "15 \<in> {1..getDate 23400000 (local_time 23400000 (currentYear ?u) (currentMonth ?u + 1) 0)}"
    by (simp add: init_ui_def myanmar_days)
  have cell: "MonthDay 15 ''2025-03-14'' False False \<in> set (generateCalendar 23400000 1741996800000 ?u)"
    using generateCalendar_month_cell [OF d, of 1741996800000] by (simp only: c)
  have cy: "currentYear ?u = 2025" "currentMonth ?u = 2" by (simp_all add: init_ui_def)
  have y: "0 \<le> fst (civil_from_days (make_day (currentYear ?u) (currentMonth ?u) (int 15) - 1))"
          "fst (civil_from_days (make_day (currentYear ?u) (currentMonth ?u) (int 15) - 1)) \<le> 9999"
    unfolding cy by code_simp+
  have z: "0 < (23400000::int)" "(23400000::int) \<le> ms_per_day" by (simp_all add: ms_per_day_def)
  obtain u' body where conf:
    "confirmAppointment ''P1'' (selectTimeSlot (pad2 9 @ '':'' @ pad2 0) (selectDate 23400000 ''2025-03-14'' False ?u)) =
     (u', Some body)"
    by (simp add: confirmAppointment_def Let_def trim_P1 selectTimeSlot_def selectDate_def sampleDoctors_def
        pad2_def pad_start_def)
  have "js_date 0 (js_get body ''dateTime'') = Some 1741942800000 \<and>
        1741942800000 div ms_per_day = make_day 2025 2 15 - 1"
    using calendar_booking_day_before [OF cell z y _ _ conf, of 0]
    by (simp add: cy myanmar_make_day ms_per_day_def)
  with cell conf show ?thesis by blast
qed

text \<open>C22: the Go to pick time button names the day before the clicked one in every zone
  but UTC: east of UTC because the cell carries the previous date, west of UTC because
  new Date(dateStr) reads the correct date as UTC midnight, which is still the previous
  day locally.\<close>

theorem calendar_label_day_before:
  assumes cell: "MonthDay d s False sel \<in> set (generateCalendar zone today u)"
    and z: "- ms_per_day < zone" "zone < ms_per_day"
    and y: "0 \<le> fst (civil_from_days (make_day (currentYear u) (currentMonth u) (int d) - 1))"
      "fst (civil_from_days (make_day (currentYear u) (currentMonth u) (int d) - 1)) \<le> 9999"
      "0 \<le> fst (civil_from_days (make_day (currentYear u) (currentMonth u) (int d)))"
      "fst (civil_from_days (make_day (currentYear u) (currentMonth u) (int d))) \<le> 9999"
  shows "goToTimeLabel (click_cell zone (MonthDay d s False sel) u) =
           Some (''Selected: '' @
                 locale_day_long (make_day (currentYear u) (currentMonth u) (int d) - (if zone = 0 then 0 else 1)) @
                 '' - Go to pick time '' @ arrow_right)"
proof -
  let ?k = "make_day (currentYear u) (currentMonth u) (int d)"
  have s: "s = day_string (?k - (if 0 < zone then 1 else 0))"
    using generateCalendar_MonthDay [OF cell] z by (simp add: iso_date_part_day local_time_day)
  have "locale_date_long zone (t * ms_per_day) = locale_day_long (?k - (if zone = 0 then 0 else 1))"
    if "t = ?k - (if 0 < zone then 1 else 0)" for t
  proof -
    have "(t * ms_per_day + zone) div ms_per_day = t - (if zone < 0 then 1 else 0)" by (rule day_shift [OF z])
    then show ?thesis unfolding locale_date_long_def using that by auto
  qed
  moreover have "js_date zone (JStr s) = Some ((?k - (if 0 < zone then 1 else 0)) * ms_per_day)"
    using y unfolding s by (cases "0 < zone") (simp_all add: js_date_day_string)
  ultimately show ?thesis by (simp add: selectDate_def go_to_time_text_def)
qed

lemma ny_days: "getDate (- 18000000) (local_time (- 18000000) 2025 3 0) = 31"
  by code_simp

lemma ny_cell:
  "month_cell (- 18000000) 1741996800000 (init_ui 2 2025) 15 = MonthDay 15 ''2025-03-15'' False False"
  by code_simp

lemma ny_label: "locale_day_long (make_day 2025 2 15 - 1) = ''Friday, March 14, 2025''"
  by code_simp

theorem calendar_label_day_before_witness:
  "MonthDay 15 ''2025-03-15'' False False \<in> set (generateCalendar (- 18000000) 1741996800000 (init_ui 2 2025)) \<and>
   goToTimeLabel (click_cell (- 18000000) (MonthDay 15 ''2025-03-15'' False False) (init_ui 2 2025)) =
     Some (''Selected: Friday, March 14, 2025 - Go to pick time '' @ arrow_right)"
proof -
  have d: "15 \<in> {1..getDate (- 18000000) (local_time (- 18000000) (currentYear (init_ui 2 2025))
             (currentMonth (init_ui 2 2025) + 1) 0)}"
    by (simp add: init_ui_def ny_days)
  have m: "MonthDay 15 ''2025-03-15'' False False \<in> set (generateCalendar (- 18000000) 1741996800000 (init_ui 2 2025))"
    using generateCalendar_month_cell [OF d, of 1741996800000] by (simp only: ny_cell)
  have z: "- ms_per_day < - 18000000" "(- 18000000::int) < ms_per_day" by (simp_all add: ms_per_day_def)
  have cy: "currentYear (init_ui 2 2025) = 2025" "currentMonth (init_ui 2 2025) = 2" by (simp_all add: init_ui_def)
  let ?k = "make_day (currentYear (init_ui 2 2025)) (currentMonth (init_ui 2 2025)) (int 15)"
  have y: "0 \<le> fst (civil_from_days (?k - 1))" "fst (civil_from_days (?k - 1)) \<le> 9999"
    "0 \<le> fst (civil_from_days ?k)" "fst (civil_from_days ?k) \<le> 9999"
    unfolding cy by code_simp+
  have "goToTimeLabel (click_cell (- 18000000) (MonthDay 15 ''2025-03-15'' False False) (init_ui 2 2025)) =
     Some (''Selected: '' @ locale_day_long (make_day 2025 2 15 - 1) @ '' - Go to pick time '' @ arrow_right)"
    using calendar_label_day_before [OF m z y] unfolding cy by simp
  with m show ?thesis by (simp only: ny_label) simp
qed

end
