(* ===== verification/System.thy ===== *)
theory System
  imports FrontendLive Calendar
begin

text \<open>
  The browser page and the server together: the controller state of
  \<open>src/public/js/app.js\<close>, the appointment cards it shows, and the server's database. A
  \<open>fetch\<close> of the browser is served by \<open>backend\<close>: Express routing (\<open>resolve\<close>), the
  router (\<open>dispatch\<close>) on the database, and the JSON body the route sends
  (\<open>response_json\<close>); the informational endpoints answer a body given as a parameter. The
  handlers of the appointment page read that body as the code does (\<open>response.ok\<close>,
  \<open>data.success\<close>, \<open>data.message\<close>, \<open>data.queueNumber\<close>). The answers of the
  \<open>confirm()\<close> and \<open>prompt()\<close> dialogs are inputs of the events. The page reload the
  handlers schedule after a success re-initialises the page and is not modelled.
\<close>

section \<open>The server as the browser sees it\<close>

definition backend ::
    "(endpoint \<Rightarrow> jval) \<Rightarrow> env \<Rightarrow> http_method \<Rightarrow> string \<Rightarrow> jval \<Rightarrow> db \<Rightarrow> fetch_reply \<times> db" where
  "backend info e m url body s =
     (case resolve m url of
        None \<Rightarrow> (NotJson, s)
      | Some (Api rt) \<Rightarrow>
          (let ((code, r), s') = dispatch e rt body s in (Reply code (response_json rt body r), s'))
      | Some ep \<Rightarrow> (Reply 200 (info ep), s))"

text \<open>\<open>data.message || fallback\<close>.\<close>

definition reply_message :: "jval \<Rightarrow> string \<Rightarrow> string" where
  "reply_message data fallback =
     (if js_truthy (js_get data ''message'') then js_to_string (js_get data ''message'') else fallback)"

section \<open>Booking reply\<close>

text \<open>The part of \<open>confirmAppointment\<close> after the booking request: on success the queue
  request is sent to the URL built from \<open>data.appointmentId\<close> (its reply is only logged),
  the success modal is shown and the form reset.\<close>

definition book_reply :: "fetch_reply \<Rightarrow> ui \<Rightarrow> ui \<times> string option" where
  "book_reply r u =
     (let u' = u\<lparr>loading := False\<rparr> in
      case r of
        Reply code data \<Rightarrow>
          if http_ok code \<and> js_truthy (js_get data ''success'')
          then (resetBookingForm (showModal ''Appointment Confirmed!'' ''Appointment booked successfully!'' u'),
                Some (''/api/appointments/'' @ js_to_string (js_get data ''appointmentId'') @ ''/queue''))
          else (showModal ''Booking Failed'' (reply_message data ''Failed to book appointment.'') u', None)
      | _ \<Rightarrow> (showModal ''Network Error'' ''Unable to connect to server. Please try again later.'' u', None))"

section \<open>The appointment page\<close>

text \<open>An appointment card as \<open>createAppointmentCard\<close> renders it: the texts of its
  fields (\<open>`${appointment.f}`\<close>, the queue number \<open>|| 'Not assigned'\<close>) and whether it
  was rendered with the Modify, Cancel and Check In buttons
  (\<open>appointment.status === 'confirmed'\<close>).\<close>

record appt_card =
  card_appointmentId :: string
  card_doctorName :: string
  card_dateTime :: string
  card_time :: string
  card_status :: string
  card_queueNumber :: string
  card_patientId :: string
  card_buttons :: bool

definition createAppointmentCard :: "jval \<Rightarrow> appt_card" where
  "createAppointmentCard a =
     \<lparr>card_appointmentId = js_to_string (js_get a ''appointmentId''),
      card_doctorName = js_to_string (js_get a ''doctorName''),
      card_dateTime = js_to_string (js_get a ''dateTime''),
      card_time = js_to_string (js_get a ''time''),
      card_status = js_to_string (js_get a ''status''),
      card_queueNumber = (if js_truthy (js_get a ''queueNumber'') then js_to_string (js_get a ''queueNumber'')
                          else ''Not assigned''),
      card_patientId = js_to_string (js_get a ''patientId''),
      card_buttons = (js_get a ''status'' = JStr ''confirmed'')\<rparr>"

text \<open>The two appointments \<open>searchAppointments\<close> of \<open>app.js\<close> shows for every patient
  ID, \<open>bookedAt\<close> being the time of the search.\<close>

definition sampleAppointments :: "string \<Rightarrow> time \<Rightarrow> jval list" where
  "sampleAppointments pid t =
     [JObj [(''appointmentId'', JStr ''APT1703123456789''), (''doctorName'', JStr ''Dr. Bob Smith''),
            (''dateTime'', JStr ''2024-01-15''), (''time'', JStr ''09:00 AM''), (''status'', JStr ''confirmed''),
            (''queueNumber'', JStr ''Q001''), (''bookedAt'', iso_json t), (''patientId'', JStr pid)],
      JObj [(''appointmentId'', JStr ''APT1703123456790''), (''doctorName'', JStr ''Dr. Alice Johnson''),
            (''dateTime'', JStr ''2024-01-20''), (''time'', JStr ''02:00 PM''), (''status'', JStr ''completed''),
            (''queueNumber'', JStr ''Q002''), (''bookedAt'', iso_json t), (''patientId'', JStr pid)]]"

text \<open>The part of a page both controllers share: the controller state, the cards of the
  appointment list and the server's database. Each controller extends it with the state of
  its own search.\<close>

record system =
  sys_ui :: ui
  cards :: "appt_card list"
  sys_db :: db

text \<open>The page of \<open>app.js\<close>: the patient IDs of the searches waiting for their
  one-second timer, in the order they were started (timers of equal delay fire in that
  order).\<close>

record sample_page = system +
  searches :: "string list"

text \<open>\<open>searchAppointments\<close> up to its \<open>await\<close>: the validation, and the placeholder that
  replaces the list while the search waits.\<close>

definition searchAppointments :: "string \<Rightarrow> sample_page \<Rightarrow> sample_page" where
  "searchAppointments input st =
     (let pid = trim input in
      if pid = [] then st\<lparr>sys_ui := showModal ''Validation Error'' ''Please enter a Patient ID to search.'' (sys_ui st)\<rparr>
      else st\<lparr>cards := [], searches := searches st @ [pid]\<rparr>)"

text \<open>The timer of the oldest waiting search: \<open>displayAppointments\<close> with the sample
  appointments, which renders them only when the list shows no card yet.\<close>

definition search_timer :: "time \<Rightarrow> sample_page \<Rightarrow> sample_page" where
  "search_timer t st =
     (case searches st of
        [] \<Rightarrow> st
      | pid # rest \<Rightarrow>
          (let apps = sampleAppointments pid t in
           if apps = [] then st\<lparr>cards := [], searches := rest\<rparr>
           else if cards st = [] then st\<lparr>cards := map createAppointmentCard apps, searches := rest\<rparr>
           else st\<lparr>searches := rest\<rparr>))"

text \<open>The common shape of the three button handlers after their request.\<close>

definition action_reply :: "string \<Rightarrow> string \<Rightarrow> string \<Rightarrow> string \<Rightarrow> fetch_reply \<Rightarrow> ui \<Rightarrow> ui" where
  "action_reply okTitle okBody failTitle fallback r u =
     (let u' = u\<lparr>loading := False\<rparr> in
      case r of
        Reply code data \<Rightarrow>
          if http_ok code \<and> js_truthy (js_get data ''success'') then showModal okTitle okBody u'
          else showModal failTitle (reply_message data fallback) u'
      | _ \<Rightarrow> showModal ''Network Error'' ''Unable to connect to server.'' u')"

text \<open>A request of a button: the loading overlay, the request to the server and the reply
  handled by \<open>k\<close>.\<close>

definition send ::
    "(endpoint \<Rightarrow> jval) \<Rightarrow> env \<Rightarrow> http_method \<Rightarrow> string \<Rightarrow> jval \<Rightarrow> (fetch_reply \<Rightarrow> ui \<Rightarrow> ui) \<Rightarrow>
     'a system_scheme \<Rightarrow> 'a system_scheme" where
  "send info e m url body k st =
     (let (r, s') = backend info e m url body (sys_db st)
      in st\<lparr>sys_ui := k r ((sys_ui st)\<lparr>loading := True\<rparr>), sys_db := s'\<rparr>)"

definition cancelAppointment_click ::
    "(endpoint \<Rightarrow> jval) \<Rightarrow> env \<Rightarrow> bool \<Rightarrow> string \<Rightarrow> 'a system_scheme \<Rightarrow> 'a system_scheme" where
  "cancelAppointment_click info e confirmed aid st =
     (if \<not> confirmed then st
      else send info e DELETE (''/api/appointments/'' @ aid @ ''/cancel'') (JObj [])
             (action_reply ''Appointment Cancelled'' ''Your appointment has been cancelled successfully.''
                ''Cancellation Failed'' ''Failed to cancel appointment.'') st)"

definition modifyAppointment_click ::
    "(endpoint \<Rightarrow> jval) \<Rightarrow> env \<Rightarrow> string \<Rightarrow> string \<Rightarrow> 'a system_scheme \<Rightarrow> 'a system_scheme" where
  "modifyAppointment_click info e newDateTime aid st =
     (if newDateTime = [] then st
      else send info e PUT (''/api/appointments/'' @ aid @ ''/modify'') (JObj [(''newDateTime'', JStr newDateTime)])
             (action_reply ''Appointment Modified'' ''Your appointment has been modified successfully.''
                ''Modification Failed'' ''Failed to modify appointment.'') st)"

text \<open>The success modal of a check-in shows the queue number of the reply; its HTML
  layout and the formatted check-in time are not modelled.\<close>

definition checkin_reply :: "fetch_reply \<Rightarrow> ui \<Rightarrow> ui" where
  "checkin_reply r u =
     action_reply ''Check-in Successful''
       (case r of Reply c data \<Rightarrow> ''Queue Number: '' @ js_to_string (js_get data ''queueNumber'') | _ \<Rightarrow> [])
       ''Check-in Failed'' ''Failed to check in.'' r u"

definition checkInPatient_click ::
    "(endpoint \<Rightarrow> jval) \<Rightarrow> env \<Rightarrow> bool \<Rightarrow> string \<Rightarrow> 'a system_scheme \<Rightarrow> 'a system_scheme" where
  "checkInPatient_click info e confirmed aid st =
     (if \<not> confirmed then st
      else send info e POST (''/api/appointments/'' @ aid @ ''/checkin'') (JObj []) checkin_reply st)"

section \<open>Booking through the server\<close>

text \<open>\<open>confirmAppointment\<close> end to end: the form, the booking request, the queue request
  of the reply (awaited, reply ignored) and the handling of the booking reply.\<close>

definition confirm_click :: "(endpoint \<Rightarrow> jval) \<Rightarrow> env \<Rightarrow> string \<Rightarrow> 'a system_scheme \<Rightarrow> 'a system_scheme" where
  "confirm_click info e input st =
     (case confirmAppointment input (sys_ui st) of
        (u1, None) \<Rightarrow> st\<lparr>sys_ui := u1\<rparr>
      | (u1, Some body) \<Rightarrow>
          (let (r, s1) = backend info e POST ''/api/appointments/book'' body (sys_db st);
               (u2, q) = book_reply r u1;
               s2 = (case q of None \<Rightarrow> s1 | Some url \<Rightarrow> snd (backend info e POST url (JObj []) s1))
           in st\<lparr>sys_ui := u2, sys_db := s2\<rparr>))"

section \<open>Events\<close>

datatype sys_event =
    UiEvent ui_event
  | ConfirmClick string
  | SearchClick string
  | SearchTimer
  | CancelClick nat bool
  | ModifyClick nat string
  | CheckInClick nat bool

text \<open>A button of the \<open>n\<close>-th card, when that card was rendered with its buttons.\<close>

definition on_card ::
    "nat \<Rightarrow> (string \<Rightarrow> 'a system_scheme \<Rightarrow> 'a system_scheme) \<Rightarrow> 'a system_scheme \<Rightarrow> 'a system_scheme" where
  "on_card n act st =
     (if n < length (cards st) \<and> card_buttons (cards st ! n)
      then act (card_appointmentId (cards st ! n)) st else st)"

fun sys_step :: "(endpoint \<Rightarrow> jval) \<Rightarrow> sample_page \<Rightarrow> env \<times> sys_event \<Rightarrow> sample_page" where
  "sys_step info st (e, UiEvent ev) = st\<lparr>sys_ui := ui_step (sys_ui st) ev\<rparr>"
| "sys_step info st (e, ConfirmClick input) = confirm_click info e input st"
| "sys_step info st (e, SearchClick input) = searchAppointments input st"
| "sys_step info st (e, SearchTimer) = search_timer (now e) st"
| "sys_step info st (e, CancelClick n yes) = on_card n (cancelAppointment_click info e yes) st"
| "sys_step info st (e, ModifyClick n ndt) = on_card n (modifyAppointment_click info e ndt) st"
| "sys_step info st (e, CheckInClick n yes) = on_card n (checkInPatient_click info e yes) st"

fun sys_run :: "(endpoint \<Rightarrow> jval) \<Rightarrow> sample_page \<Rightarrow> (env \<times> sys_event) list \<Rightarrow> sample_page" where
  "sys_run info st [] = st"
| "sys_run info st (ev # evs) = sys_run info (sys_step info st ev) evs"

section \<open>Sample states\<close>

text \<open>A database holding a confirmed appointment under the first sample card's identifier.\<close>

definition demo_db :: db where
  "demo_db = empty_db\<lparr>appointments := [''APT1703123456789'' \<mapsto>
     new_appointment sample_env ''APT1703123456789'' ''P1'' ''DOC001'' 32472176400000]\<rparr>"

definition demo_system :: "db \<Rightarrow> appt_card list \<Rightarrow> sample_page" where
  "demo_system s cs = \<lparr>sys_ui = init_ui 2 2025, cards = cs, sys_db = s, searches = []\<rparr>"

section \<open>Lemmas\<close>

subsection \<open>Routing of the browser's URLs\<close>

lemma resolve_book: "resolve POST ''/api/appointments/book'' = Some (Api BookRoute)"
  by (simp add: resolve_def path_segments_def seg_is_def lower_ascii_def)

lemma resolve_appointment_url:
  assumes "plain_segment aid" and "plain_segment w" and "router_match m [aid, w] = Some r"
  shows "resolve m (''/api/appointments/'' @ aid @ CHR ''/'' # w) = Some (Api r)"
  using resolve_api_route [OF path_segments_api [OF assms(1,2)] _ _ assms(3)]
  by (simp add: seg_is_def lower_ascii_def)

lemma resolve_action:
  assumes "plain_segment aid"
  shows "resolve DELETE (''/api/appointments/'' @ aid @ ''/cancel'') = Some (Api (CancelRoute aid))"
    and "resolve PUT (''/api/appointments/'' @ aid @ ''/modify'') = Some (Api (ModifyRoute aid))"
    and "resolve POST (''/api/appointments/'' @ aid @ ''/queue'') = Some (Api (QueueRoute aid))"
    and "resolve POST (''/api/appointments/'' @ aid @ ''/checkin'') = Some (Api (CheckInRoute aid))"
proof -
  have "aid \<noteq> []" using assms by (simp add: plain_segment_def)
  note url = resolve_appointment_url [OF assms]
  show "resolve DELETE (''/api/appointments/'' @ aid @ ''/cancel'') = Some (Api (CancelRoute aid))"
    by (rule url) (simp_all add: \<open>aid \<noteq> []\<close> plain_segment_def seg_is_def lower_ascii_def)
  show "resolve PUT (''/api/appointments/'' @ aid @ ''/modify'') = Some (Api (ModifyRoute aid))"
    by (rule url) (simp_all add: \<open>aid \<noteq> []\<close> plain_segment_def seg_is_def lower_ascii_def)
  show "resolve POST (''/api/appointments/'' @ aid @ ''/queue'') = Some (Api (QueueRoute aid))"
    by (rule url) (simp_all add: \<open>aid \<noteq> []\<close> plain_segment_def seg_is_def lower_ascii_def)
  show "resolve POST (''/api/appointments/'' @ aid @ ''/checkin'') = Some (Api (CheckInRoute aid))"
    by (rule url) (simp_all add: \<open>aid \<noteq> []\<close> plain_segment_def seg_is_def lower_ascii_def)
qed

subsection \<open>The sample search\<close>

lemma sample_cards_shown:
  "map createAppointmentCard (sampleAppointments pid t) =
     [\<lparr>card_appointmentId = ''APT1703123456789'', card_doctorName = ''Dr. Bob Smith'',
       card_dateTime = ''2024-01-15'', card_time = ''09:00 AM'', card_status = ''confirmed'',
       card_queueNumber = ''Q001'', card_patientId = pid, card_buttons = True\<rparr>,
      \<lparr>card_appointmentId = ''APT1703123456790'', card_doctorName = ''Dr. Alice Johnson'',
       card_dateTime = ''2024-01-20'', card_time = ''02:00 PM'', card_status = ''completed'',
       card_queueNumber = ''Q002'', card_patientId = pid, card_buttons = False\<rparr>]"
  by (simp add: createAppointmentCard_def sampleAppointments_def obj_get_def)

lemma sampleAppointments_not_Nil [simp]: "sampleAppointments pid t \<noteq> []"
  by (simp add: sampleAppointments_def)

subsection \<open>The server\<close>

lemma backend_api:
  "resolve m url = Some (Api rt) \<Longrightarrow>
   backend info e m url body s =
     (Reply (fst (fst (dispatch e rt body s))) (response_json rt body (snd (fst (dispatch e rt body s)))),
      snd (dispatch e rt body s))"
  by (simp add: backend_def split_def Let_def)

lemma book_error_nonempty:
  "bookAppointment e p d t s = (Inl err, s') \<Longrightarrow> error_message err \<noteq> []"
  by (auto simp: bookAppointment_def Let_def split: if_splits sum.splits option.splits)

lemma reply_message_fail:
  "error_message err \<noteq> [] \<Longrightarrow> ''message'' \<notin> fst ` set kvs \<Longrightarrow>
   reply_message (fail_json err kvs) fallback = error_message err"
proof -
  assume "error_message err \<noteq> []" and "''message'' \<notin> fst ` set kvs"
  moreover from this(2) have "map_of (rev kvs) ''message'' = None" by (simp add: map_of_eq_None_iff)
  ultimately show ?thesis by (simp add: reply_message_def fail_json_def obj_get_def map_add_def)
qed

subsection \<open>Properties\<close>

text \<open>C9: the reply of the booking request, read as JSON by the browser, leads the page to
  the state the handler reaches on the service's result (success modal and reset form,
  or the service's failure message); the queue request it then sends reaches the queue
  route of the appointment just booked; and the database is the one the router leaves.\<close>

theorem book_reply_refines:
  "fst (book_reply (fst (backend info e POST ''/api/appointments/book'' body s)) u) =
     fst (confirm_response (snd (fst (dispatch e BookRoute body s))) u) \<and>
   map_option (resolve POST) (snd (book_reply (fst (backend info e POST ''/api/appointments/book'' body s)) u)) =
     map_option (\<lambda>rt. Some (Api rt)) (snd (confirm_response (snd (fst (dispatch e BookRoute body s))) u)) \<and>
   snd (backend info e POST ''/api/appointments/book'' body s) = snd (dispatch e BookRoute body s)"
proof -
  obtain x s1 where b: "bookAppointment e (js_get body ''patientId'') (js_get body ''doctorId'')
                           (js_get body ''dateTime'') s = (x, s1)"
    by (cases "bookAppointment e (js_get body ''patientId'') (js_get body ''doctorId'') (js_get body ''dateTime'') s")
  then have d: "dispatch e BookRoute body s = (respond 201 (BookResult x), s1)" by simp
  note be = backend_api [OF resolve_book, of info e body s]
  show ?thesis
  proof (cases x)
    case (Inl err)
    with b have "error_message err \<noteq> []" by (simp add: book_error_nonempty)
    with d be Inl show ?thesis
      by (simp add: respond_def book_reply_def confirm_response_def http_ok_def reply_message_fail)
  next
    case (Inr a)
    from book_Inr [OF b [unfolded Inr]] have "appointmentId a = generateAppointmentId (now e) (rnd e)"
      by (auto simp: new_appointment_def)
    then have "plain_segment (appointmentId a)" by (simp add: generateAppointmentId_plain)
    note q = resolve_action(3) [OF this, simplified]
    from d be Inr q show ?thesis
      by (simp add: respond_def book_reply_def confirm_response_def http_ok_def ok_json_def obj_get_def)
  qed
qed

theorem book_reply_refines_witness:
  "fst (book_reply (fst (backend (\<lambda>_. JNull) sample_env POST ''/api/appointments/book'' (JObj []) empty_db))
      (init_ui 2 2025)) =
     fst (confirm_response (snd (fst (dispatch sample_env BookRoute (JObj []) empty_db))) (init_ui 2 2025)) \<and>
   map_option (resolve POST) (snd (book_reply (fst (backend (\<lambda>_. JNull) sample_env POST ''/api/appointments/book''
      (JObj []) empty_db)) (init_ui 2 2025))) =
     map_option (\<lambda>rt. Some (Api rt)) (snd (confirm_response (snd (fst (dispatch sample_env BookRoute (JObj []) empty_db)))
      (init_ui 2 2025))) \<and>
   snd (backend (\<lambda>_. JNull) sample_env POST ''/api/appointments/book'' (JObj []) empty_db) =
     snd (dispatch sample_env BookRoute (JObj []) empty_db)"
  by (rule book_reply_refines)

text \<open>C15: clicking Cancel on a card showing a confirmed appointment, and confirming the
  dialog, cancels that appointment in the database (status, cancellation time, update
  time) and shows the cancellation modal, the loading overlay hidden again.\<close>

theorem cancel_click_cancels:
  assumes "n < length (cards st)" and "card_buttons (cards st ! n)"
    and "card_appointmentId (cards st ! n) = aid" and "plain_segment aid"
    and "appointments (sys_db st) aid = Some a" and "status a \<noteq> Cancelled"
  shows "sys_step info st (e, CancelClick n True) =
    st\<lparr>sys_ui := showModal ''Appointment Cancelled'' ''Your appointment has been cancelled successfully.''
                   ((sys_ui st)\<lparr>loading := False\<rparr>),
       sys_db := (sys_db st)\<lparr>appointments := (appointments (sys_db st))(aid \<mapsto>
                   a\<lparr>status := Cancelled, cancelledAt := Some (now e), updatedAt := now e\<rparr>)\<rparr>\<rparr>"
proof -
  have "aid \<noteq> []" using assms(4) by (simp add: plain_segment_def)
  with assms(5,6) have "cancelAppointment e aid (sys_db st) =
      (Inr (aid, now e), (sys_db st)\<lparr>appointments := (appointments (sys_db st))(aid \<mapsto>
                   a\<lparr>status := Cancelled, cancelledAt := Some (now e), updatedAt := now e\<rparr>)\<rparr>)"
    by (simp add: cancelAppointment_def lifecycle_defs)
  with backend_api [OF resolve_action(1) [OF assms(4)]] assms(1-3) show ?thesis
    by (simp add: on_card_def cancelAppointment_click_def send_def action_reply_def
                  respond_def http_ok_def ok_json_def obj_get_def)
qed

theorem cancel_click_cancels_witness:
  "sys_step (\<lambda>_. JNull) (demo_system demo_db (map createAppointmentCard (sampleAppointments ''P1'' 1700000000000))) (sample_env, CancelClick 0 True) =
   (demo_system demo_db (map createAppointmentCard (sampleAppointments ''P1'' 1700000000000)))\<lparr>
      sys_ui := showModal ''Appointment Cancelled'' ''Your appointment has been cancelled successfully.''
                  ((init_ui 2 2025)\<lparr>loading := False\<rparr>),
      sys_db := demo_db\<lparr>appointments := (appointments demo_db)(''APT1703123456789'' \<mapsto>
                  (the (appointments demo_db ''APT1703123456789''))\<lparr>status := Cancelled,
                     cancelledAt := Some 1700000000000, updatedAt := 1700000000000\<rparr>)\<rparr>\<rparr>"
  using cancel_click_cancels [of 0 "demo_system demo_db (map createAppointmentCard (sampleAppointments ''P1'' 1700000000000))" "''APT1703123456789''"
      "the (appointments demo_db ''APT1703123456789'')" "\<lambda>_. JNull" sample_env]
  by (simp add: demo_system_def demo_db_def sample_cards_shown plain_segment_def new_appointment_def sample_env_def)

text \<open>C25: the appointment search shows the two hard-coded sample appointments whatever
  the patient ID and the database hold; of two overlapping searches the list keeps the
  first patient's cards; Cancel on the first card, for a database that never stored its
  identifier, ends in the not-found failure and writes nothing; the second (completed)
  card has no buttons.\<close>

theorem search_shows_samples:
  assumes "trim pid \<noteq> []" and "trim pid' \<noteq> []" and "searches st = []"
    and "appointments (sys_db st) ''APT1703123456789'' = None"
  shows "cards (sys_run info st [(e, SearchClick pid), (e, SearchTimer)]) = map createAppointmentCard (sampleAppointments (trim pid) (now e)) \<and>
         cards (sys_run info st [(e, SearchClick pid), (e, SearchClick pid'), (e, SearchTimer), (e, SearchTimer)]) =
           map createAppointmentCard (sampleAppointments (trim pid) (now e)) \<and>
         sys_run info st [(e, SearchClick pid), (e, SearchTimer), (e, CancelClick 0 True)] =
           st\<lparr>cards := map createAppointmentCard (sampleAppointments (trim pid) (now e)), sys_ui := showModal ''Cancellation Failed''
              ''Invalid appointment ID or appointment not found'' ((sys_ui st)\<lparr>loading := False\<rparr>)\<rparr> \<and>
         sys_run info st [(e, SearchClick pid), (e, SearchTimer), (e, CancelClick 1 yes)] =
           st\<lparr>cards := map createAppointmentCard (sampleAppointments (trim pid) (now e))\<rparr>"
proof -
  have s1: "sys_run info st [(e, SearchClick pid), (e, SearchTimer)] = st\<lparr>cards := map createAppointmentCard (sampleAppointments (trim pid) (now e))\<rparr>"
    using assms(1,3) by (simp add: searchAppointments_def search_timer_def Let_def)
  have s2: "cards (sys_run info st [(e, SearchClick pid), (e, SearchClick pid'), (e, SearchTimer), (e, SearchTimer)]) =
              map createAppointmentCard (sampleAppointments (trim pid) (now e))"
    using assms(1-3) by (simp add: searchAppointments_def search_timer_def Let_def sample_cards_shown)
  have p: "plain_segment ''APT1703123456789''" by (simp add: plain_segment_def)
  have "cancelAppointment e ''APT1703123456789'' (sys_db st) =
          (Inl (NotFound ''Invalid appointment ID or appointment not found''), sys_db st)"
    using assms(4) by (simp add: cancelAppointment_def find_appointment_def)
  with backend_api [OF resolve_action(1) [OF p]]
  have c: "sys_step info (st\<lparr>cards := map createAppointmentCard (sampleAppointments (trim pid) (now e))\<rparr>) (e, CancelClick 0 True) =
           st\<lparr>cards := map createAppointmentCard (sampleAppointments (trim pid) (now e)), sys_ui := showModal ''Cancellation Failed''
              ''Invalid appointment ID or appointment not found'' ((sys_ui st)\<lparr>loading := False\<rparr>)\<rparr>"
    by (simp add: on_card_def sample_cards_shown cancelAppointment_click_def send_def
                  action_reply_def respond_def http_ok_def reply_message_fail)
  have "sys_step info (st\<lparr>cards := map createAppointmentCard (sampleAppointments (trim pid) (now e))\<rparr>) (e, CancelClick 1 yes) =
          st\<lparr>cards := map createAppointmentCard (sampleAppointments (trim pid) (now e))\<rparr>"
    by (simp add: on_card_def sample_cards_shown)
  with s1 s2 c show ?thesis by (simp del: sys_step.simps)
qed

theorem search_shows_samples_witness:
  "cards (sys_run (\<lambda>_. JNull) (demo_system empty_db []) [(sample_env, SearchClick ''P1''), (sample_env, SearchTimer)]) =
     map createAppointmentCard (sampleAppointments ''P1'' 1700000000000) \<and>
   cards (sys_run (\<lambda>_. JNull) (demo_system empty_db [])
     [(sample_env, SearchClick ''P1''), (sample_env, SearchClick ''P2''), (sample_env, SearchTimer), (sample_env, SearchTimer)]) =
     map createAppointmentCard (sampleAppointments ''P1'' 1700000000000) \<and>
   sys_run (\<lambda>_. JNull) (demo_system empty_db [])
     [(sample_env, SearchClick ''P1''), (sample_env, SearchTimer), (sample_env, CancelClick 0 True)] =
     (demo_system empty_db [])\<lparr>cards := map createAppointmentCard (sampleAppointments ''P1'' 1700000000000), sys_ui := showModal ''Cancellation Failed''
        ''Invalid appointment ID or appointment not found'' ((init_ui 2 2025)\<lparr>loading := False\<rparr>)\<rparr> \<and>
   sys_run (\<lambda>_. JNull) (demo_system empty_db [])
     [(sample_env, SearchClick ''P1''), (sample_env, SearchTimer), (sample_env, CancelClick 1 True)] =
     (demo_system empty_db [])\<lparr>cards := map createAppointmentCard (sampleAppointments ''P1'' 1700000000000)\<rparr>"
  using search_shows_samples [of "''P1''" "''P2''" "demo_system empty_db []" "\<lambda>_. JNull" sample_env True]
  by (simp add: demo_system_def empty_db_def trim_P1 trim_P2 sample_env_def del: sys_run.simps)

text \<open>C14: when Check In on a card ends in the success modal, the modal shows the queue
  number the server stored for that appointment, and the appointment is stored checked in.\<close>

theorem checkin_click_shows_stored_queue:
  assumes "n < length (cards st)" and "card_buttons (cards st ! n)"
    and "card_appointmentId (cards st ! n) = aid" and "plain_segment aid"
    and "modal (sys_ui (sys_step info st (e, CheckInClick n True))) = Some (''Check-in Successful'', msg)"
  shows "\<exists>a q. appointments (sys_db (sys_step info st (e, CheckInClick n True))) aid = Some a \<and>
           checkedIn a \<and> queueNumber a = Some q \<and> msg = ''Queue Number: '' @ q"
proof -
  obtain x s' where c: "checkInPatient e aid (sys_db st) = (x, s')"
    by (cases "checkInPatient e aid (sys_db st)")
  with backend_api [OF resolve_action(4) [OF assms(4)]] assms(1-3)
  have st': "sys_step info st (e, CheckInClick n True) =
      st\<lparr>sys_ui := checkin_reply (Reply (fst (respond 200 (CheckInResult x)))
                     (response_json (CheckInRoute aid) (JObj []) (CheckInResult x))) ((sys_ui st)\<lparr>loading := True\<rparr>),
         sys_db := s'\<rparr>"
    by (simp add: on_card_def checkInPatient_click_def send_def respond_def)
  show ?thesis
  proof (cases x)
    case (Inl err)
    with assms(5) st' show ?thesis
      by (simp add: checkin_reply_def action_reply_def respond_def http_ok_def showModal_def)
  next
    case (Inr r)
    obtain aid' q t where r: "r = (aid', q, t)" by (cases r)
    from checkIn_Inr_stored [OF c [unfolded Inr r]] obtain a where
      a: "appointments s' aid = Some a" "queueNumber a = Some q" "checkedIn a" by blast
    from assms(5) st' Inr r have "msg = ''Queue Number: '' @ q"
      by (simp add: checkin_reply_def action_reply_def respond_def http_ok_def showModal_def
                    ok_json_def obj_get_def)
    with a st' show ?thesis by simp
  qed
qed

lemma demo_queue_number: "queue_number 14 (Suc 0) = ''Q1401''"
  by code_simp

lemma demo_checkIn:
  "checkInPatient sample_env ''APT1703123456789'' demo_db =
     (Inr (''APT1703123456789'', ''Q1401'', 1700000000000),
      demo_db\<lparr>appointments := (appointments demo_db)(''APT1703123456789'' \<mapsto>
        (the (appointments demo_db ''APT1703123456789''))\<lparr>queueNumber := Some ''Q1401'',
          updatedAt := 1700000000000, checkedIn := True, checkedInAt := Some 1700000000000\<rparr>)\<rparr>)"
  by (simp add: checkInPatient_def generateQueueNumber_fresh checkin_save_def lifecycle_defs demo_db_def
                new_appointment_def sample_env_def sample_getDate [unfolded sample_env_def] sample_queue_suffix
                demo_queue_number)

theorem checkin_click_shows_stored_queue_witness:
  "\<exists>a q. appointments (sys_db (sys_step (\<lambda>_. JNull) (demo_system demo_db (map createAppointmentCard (sampleAppointments ''P1'' 1700000000000)))
             (sample_env, CheckInClick 0 True))) ''APT1703123456789'' = Some a \<and>
          checkedIn a \<and> queueNumber a = Some q \<and> ''Queue Number: Q1401'' = ''Queue Number: '' @ q"
proof (rule checkin_click_shows_stored_queue)
  show "modal (sys_ui (sys_step (\<lambda>_. JNull) (demo_system demo_db (map createAppointmentCard (sampleAppointments ''P1'' 1700000000000)))
          (sample_env, CheckInClick 0 True))) = Some (''Check-in Successful'', ''Queue Number: Q1401'')"
    using backend_api [OF resolve_action(4), of "''APT1703123456789''" "\<lambda>_. JNull" sample_env "JObj []" demo_db]
    by (simp add: demo_system_def sample_cards_shown on_card_def checkInPatient_click_def
                  send_def checkin_reply_def action_reply_def respond_def http_ok_def showModal_def
                  ok_json_def obj_get_def demo_checkIn plain_segment_def)
qed (simp_all add: demo_system_def sample_cards_shown plain_segment_def)

subsection \<open>The calendar month\<close>

lemma ui_step_month:
  "currentMonth (ui_step u ev) = (case ev of EvChangeMonth d \<Rightarrow> currentMonth (changeMonth d u) | _ \<Rightarrow> currentMonth u)"
  by (cases ev)
     (simp_all add: goBackToPrevious_def Let_def showPage_def goToTimeSlots_def showModal_def selectDate_def
        selectDoctor_def updateSelectedDoctorInfo_def selectTimeSlot_def closeModal_def showDoctorInfo_def
        demo_login_def demo_signup_def document_click_def queue_timer_def split: option.splits app_queue.splits)

lemma ui_run_month:
  "0 \<le> currentMonth u \<Longrightarrow> currentMonth u \<le> 11 \<Longrightarrow>
   0 \<le> currentMonth (ui_run u evs) \<and> currentMonth (ui_run u evs) \<le> 11"
proof (induction evs arbitrary: u)
  case Nil
  then show ?case by simp
next
  case (Cons ev evs)
  have "0 \<le> currentMonth (ui_step u ev) \<and> currentMonth (ui_step u ev) \<le> 11"
    using Cons.prems changeMonth_range by (simp add: ui_step_month split: ui_event.splits)
  with Cons.IH show ?case by simp
qed

lemma live_step_month:
  "currentMonth (sui (live_step h s ev)) =
     (case ev of LChangeMonth d \<Rightarrow> currentMonth (changeMonth d (sui s)) | _ \<Rightarrow> currentMonth (sui s))"
  by (cases ev)
     (simp_all add: live_showPage_def Let_def base_show_def toggleHeader_def loadProfile_def showPage_def
        showModal_def live_goBack_def live_goToTimeSlots_def selectDate_def live_selectDoctor_def
        selectTimeSlot_def closeModal_def login_submit_eq signup_submit_eq logout_def live_confirm_def
        live_book_reply_def live_resetBookingForm_def handler_result_def live_showDoctorInfo_def
        split: prod.splits option.splits fetch_reply.splits)

lemma live_run_month:
  "0 \<le> currentMonth (sui s) \<Longrightarrow> currentMonth (sui s) \<le> 11 \<Longrightarrow>
   0 \<le> currentMonth (sui (live_run h s evs)) \<and> currentMonth (sui (live_run h s evs)) \<le> 11"
proof (induction evs arbitrary: s)
  case Nil
  then show ?case by simp
next
  case (Cons ev evs)
  have "0 \<le> currentMonth (sui (live_step h s ev)) \<and> currentMonth (sui (live_step h s ev)) \<le> 11"
    using Cons.prems changeMonth_range by (simp add: live_step_month split: live_event.splits)
  with Cons.IH show ?case by simp
qed

lemma heading_in_range:
  "0 \<le> currentMonth u \<and> currentMonth u \<le> 11 \<Longrightarrow>
   \<exists>k<12. calendar_heading u = month_names ! k @ '' '' @ int_str (currentYear u)"
  by (rule exI [of _ "nat (currentMonth u)"]) (auto simp: calendar_heading_def)

lemma load_month:
  "currentMonth (app_load st r1 r2 r3 m y) = m"
  "currentMonth (sui (live_load h st m y)) = m"
  "currentYear (app_load st r1 r2 r3 m y) = y"
  by (simp_all add: app_load_def dom_loaded_def app_loadQueueList_def showPage_def init_ui_def Let_def
      live_load_def live_dom_loaded_def live_showPage_def base_show_def toggleHeader_def loadProfile_def fresh_session_def
      showModal_def)

text \<open>C23: from a page loaded in a month 0..11, every sequence of user events of either
  controller keeps currentMonth within 0..11, so the calendar heading months[currentMonth]
  always names a month, never undefined.\<close>

theorem calendar_heading_month:
  assumes "0 \<le> m" "m \<le> 11"
  shows "(\<exists>k<12. calendar_heading (ui_run (app_load st r1 r2 r3 m y) evs) =
            month_names ! k @ '' '' @ int_str (currentYear (ui_run (app_load st r1 r2 r3 m y) evs))) \<and>
         (\<exists>k<12. calendar_heading (sui (live_run h (live_load h st m y) levs)) =
            month_names ! k @ '' '' @ int_str (currentYear (sui (live_run h (live_load h st m y) levs))))"
  using ui_run_month [of "app_load st r1 r2 r3 m y" evs] live_run_month [of "live_load h st m y" h levs]
    assms heading_in_range by (simp add: load_month)

theorem calendar_heading_month_witness:
  "calendar_heading (ui_run (app_load Map.empty 0 0 0 11 2025) [EvChangeMonth 1]) = ''January 2026'' \<and>
   (\<exists>k<12. calendar_heading (ui_run (app_load Map.empty 0 0 0 11 2025) [EvChangeMonth 1]) =
      month_names ! k @ '' '' @ int_str (currentYear (ui_run (app_load Map.empty 0 0 0 11 2025) [EvChangeMonth 1])))"
proof -
  have "calendar_heading (ui_run (app_load Map.empty 0 0 0 11 2025) [EvChangeMonth 1]) = ''January 2026''"
  proof -
    have "int_str 2026 = ''2026''" by code_simp
    then show ?thesis by (simp add: calendar_heading_def changeMonth_def load_month Let_def month_names_def)
  qed
  moreover have "\<exists>k<12. calendar_heading (ui_run (app_load Map.empty 0 0 0 11 2025) [EvChangeMonth 1]) =
      month_names ! k @ '' '' @ int_str (currentYear (ui_run (app_load Map.empty 0 0 0 11 2025) [EvChangeMonth 1]))"
    using calendar_heading_month [of 11 Map.empty 0 0 0 2025 "[EvChangeMonth 1]"] by simp
  ultimately show ?thesis by simp
qed

end
