(* ===== verification/LivePage.thy ===== *)
theory LivePage
  imports System
begin

text \<open>
  The appointment and queue pages of \<open>src/public/js/somefile.js\<close> with the server. They
  share the page record, \<open>createAppointmentCard\<close> and the Cancel, Modify and Check In
  handlers with \<open>app.js\<close> (the code is the same), and differ in their data source:
  \<open>searchAppointments\<close> and \<open>loadQueueList\<close> request
  \<open>GET /api/appointments?patientId=...\<close> and \<open>GET /api/queue?patientId=...\<close> from the
  server and render an array reply. Each awaited request and its reply are one step.
\<close>

datatype list_view = ListIdle | ListCards | ListNoneFound | ListSearchFailed

datatype queue_view = QueueIdle | QueueShown "string list list" | QueueEmpty | QueueUnavailable

text \<open>The live page: the shared part, what the appointment list shows besides cards, and
  the queue list.\<close>

record live_page = system +
  list_view :: list_view
  queue_view :: queue_view

text \<open>\<open>displayAppointments\<close> of \<open>somefile.js\<close>: the cards of the reply replace the list.\<close>

definition live_displayAppointments :: "jval list \<Rightarrow> live_page \<Rightarrow> live_page" where
  "live_displayAppointments xs p =
     (if xs = [] then p\<lparr>cards := [], list_view := ListNoneFound\<rparr>
      else p\<lparr>cards := map createAppointmentCard xs, list_view := ListCards\<rparr>)"

definition live_searchAppointments :: "(endpoint \<Rightarrow> jval) \<Rightarrow> env \<Rightarrow> string \<Rightarrow> live_page \<Rightarrow> live_page" where
  "live_searchAppointments info e input p =
     (let pid = trim input in
      if pid = [] then p\<lparr>sys_ui := showModal ''Validation Error'' ''Please enter a Patient ID to search.'' (sys_ui p)\<rparr>
      else
        (let (r, s') = backend info e GET (''/api/appointments?patientId='' @ pid) (JObj []) (sys_db p);
             p' = p\<lparr>sys_db := s'\<rparr>
         in case r of
              Reply c (JArr xs) \<Rightarrow>
                if http_ok c then live_displayAppointments xs p' else p'\<lparr>cards := [], list_view := ListNoneFound\<rparr>
            | Reply c _ \<Rightarrow> p'\<lparr>cards := [], list_view := ListNoneFound\<rparr>
            | _ \<Rightarrow> p'\<lparr>cards := [], list_view := ListSearchFailed\<rparr>))"

text \<open>\<open>createQueueItem\<close> of \<open>somefile.js\<close> on an element of the reply: the texts of
  the item, each field printed by its template (a missing field prints as
  \<open>undefined\<close>). Reading a field of \<open>null\<close> throws a \<open>TypeError\<close> (\<open>None\<close>).\<close>

definition live_createQueueItem :: "jval \<Rightarrow> string list option" where
  "live_createQueueItem q =
     (if q = JNull then None
      else Some [''Queue No# '' @ js_to_string (js_get q ''queueNumber''),
                 ''Doctor: '' @ js_to_string (js_get q ''doctorName''),
                 ''Estimated waiting time: '' @ js_to_string (js_get q ''waitingTime'')])"

text \<open>\<open>loadQueueList\<close>, for the patient ID of the session. An array reply is rendered
  item by item; an item that throws ends in the catch block, which replaces the list by the
  failure message.\<close>

definition loadQueueList :: "(endpoint \<Rightarrow> jval) \<Rightarrow> env \<Rightarrow> string \<Rightarrow> live_page \<Rightarrow> live_page" where
  "loadQueueList info e pid p =
     (let (r, s') = backend info e GET (''/api/queue?patientId='' @ pid) (JObj []) (sys_db p)
      in p\<lparr>sys_db := s',
           queue_view := (case r of
                            Reply c (JArr xs) \<Rightarrow>
                              if http_ok c
                              then (case those (map live_createQueueItem xs) of
                                      Some items \<Rightarrow> QueueShown items
                                    | None \<Rightarrow> QueueUnavailable)
                              else QueueEmpty
                          | Reply c _ \<Rightarrow> QueueEmpty
                          | _ \<Rightarrow> QueueUnavailable)\<rparr>)"

datatype live_page_event =
    LiveSearch string
  | LiveQueue string
  | LiveCancel nat bool
  | LiveModify nat string
  | LiveCheckIn nat bool

fun live_page_step :: "(endpoint \<Rightarrow> jval) \<Rightarrow> live_page \<Rightarrow> env \<times> live_page_event \<Rightarrow> live_page" where
  "live_page_step info p (e, LiveSearch input) = live_searchAppointments info e input p"
| "live_page_step info p (e, LiveQueue pid) = loadQueueList info e pid p"
| "live_page_step info p (e, LiveCancel n yes) = on_card n (cancelAppointment_click info e yes) p"
| "live_page_step info p (e, LiveModify n ndt) = on_card n (modifyAppointment_click info e ndt) p"
| "live_page_step info p (e, LiveCheckIn n yes) = on_card n (checkInPatient_click info e yes) p"

fun live_page_run :: "(endpoint \<Rightarrow> jval) \<Rightarrow> live_page \<Rightarrow> (env \<times> live_page_event) list \<Rightarrow> live_page" where
  "live_page_run info p [] = p"
| "live_page_run info p (ev # evs) = live_page_run info (live_page_step info p ev) evs"

definition demo_live_page :: "db \<Rightarrow> live_page" where
  "demo_live_page s =
     \<lparr>sys_ui = init_ui 2 2025, cards = [], sys_db = s, list_view = ListIdle, queue_view = QueueIdle\<rparr>"

section \<open>Lemmas\<close>

lemma backend_unrouted: "resolve m url = None \<Longrightarrow> backend info e m url body s = (NotJson, s)"
  by (simp add: backend_def)

lemmas live_backend_unrouted =
  backend_unrouted [OF query_paths_unrouted(1), simplified]
  backend_unrouted [OF query_paths_unrouted(2), simplified]

lemma live_search_reply:
  "trim input \<noteq> [] \<Longrightarrow>
   live_searchAppointments info e input p = p\<lparr>cards := [], list_view := ListSearchFailed\<rparr>"
  by (simp add: live_searchAppointments_def live_backend_unrouted)

lemma live_queue_reply: "loadQueueList info e pid p = p\<lparr>queue_view := QueueUnavailable\<rparr>"
  by (simp add: loadQueueList_def live_backend_unrouted)

lemma live_page_step_inert:
  assumes "cards p = []"
  shows "cards (live_page_step info p ev) = [] \<and> sys_db (live_page_step info p ev) = sys_db p"
proof -
  obtain e x where "ev = (e, x)" by (cases ev)
  with assms show ?thesis
    by (cases x) (simp_all add: live_queue_reply on_card_def live_searchAppointments_def Let_def
                    live_backend_unrouted)
qed

subsection \<open>Properties\<close>

text \<open>Against this server the live controller's appointment search ends in "Search
  Failed" with an empty list for every patient ID, whatever the database holds, and its
  queue list in "Unable to load queue".\<close>

theorem live_search_fails:
  assumes "trim input \<noteq> []"
  shows "cards (live_searchAppointments info e input p) = [] \<and>
         list_view (live_searchAppointments info e input p) = ListSearchFailed \<and>
         sys_db (live_searchAppointments info e input p) = sys_db p \<and>
         queue_view (loadQueueList info e pid p) = QueueUnavailable"
  using live_search_reply [OF assms] by (simp add: live_queue_reply)

theorem live_search_fails_witness:
  "cards (live_searchAppointments (\<lambda>_. JNull) sample_env ''P1'' (demo_live_page demo_db)) = [] \<and>
   list_view (live_searchAppointments (\<lambda>_. JNull) sample_env ''P1'' (demo_live_page demo_db)) = ListSearchFailed \<and>
   sys_db (live_searchAppointments (\<lambda>_. JNull) sample_env ''P1'' (demo_live_page demo_db)) = demo_db \<and>
   queue_view (loadQueueList (\<lambda>_. JNull) sample_env ''P1'' (demo_live_page demo_db)) = QueueUnavailable"
  using live_search_fails [where input = "''P1''" and info = "\<lambda>_. JNull" and e = sample_env
      and p = "demo_live_page demo_db" and pid = "''P1''"]
  by (simp add: trim_P1 demo_live_page_def)

text \<open>C12: the live appointment page never changes the database: no search shows a card,
  so the Cancel, Modify and Check In buttons are never rendered and no event sequence of
  the page sends a request that writes.\<close>

theorem live_page_never_writes:
  "cards p = [] \<Longrightarrow> cards (live_page_run info p evs) = [] \<and> sys_db (live_page_run info p evs) = sys_db p"
proof (induction evs arbitrary: p)
  case Nil
  then show ?case by simp
next
  case (Cons ev evs)
  from live_page_step_inert [OF Cons.prems] Cons.IH [of "live_page_step info p ev"] show ?case by simp
qed

theorem live_page_never_writes_witness:
  "cards (demo_live_page demo_db) = [] \<and>
   cards (live_page_run (\<lambda>_. JNull) (demo_live_page demo_db)
     [(sample_env, LiveSearch ''P1''), (sample_env, LiveCancel 0 True), (sample_env, LiveCheckIn 0 True)]) = [] \<and>
   sys_db (live_page_run (\<lambda>_. JNull) (demo_live_page demo_db)
     [(sample_env, LiveSearch ''P1''), (sample_env, LiveCancel 0 True), (sample_env, LiveCheckIn 0 True)]) = demo_db"
proof -
  have c: "cards (demo_live_page demo_db) = []" by (simp add: demo_live_page_def)
  show ?thesis using c live_page_never_writes [OF c] by (simp add: demo_live_page_def del: live_page_run.simps)
qed

end
