(* ===== verification/ServerInfo.thy ===== *)
theory ServerInfo
  imports System
begin

text \<open>
  The three informational handlers \<open>src/backend/server.js\<close> registers besides the
  appointment router: \<open>GET /\<close>, \<open>GET /api/test\<close> and \<open>GET /api/health\<close>. Each answers a
  constant JSON object, stamped with the time of the request (and the process uptime,
  \<open>process.uptime()\<close>, a parameter here as the JSON number it prints as). The test reply
  documents the API: the service functions and the endpoints, written as
  \<open>METHOD /path\<close> with \<open>:id\<close> for the path parameter. The database connection, the CORS
  and JSON middleware and \<open>app.listen\<close> are I/O and not modelled.
\<close>

section \<open>The replies\<close>

definition test_functions :: "string list" where
  "test_functions =
     [''bookAppointment'', ''cancelAppointment'', ''modifyAppointment'', ''generateQueueNumber'',
      ''checkInPatient'', ''updateDoctorAvailability'', ''sendNotification'']"

definition test_endpoints :: "string list" where
  "test_endpoints =
     [''POST /api/appointments/book'', ''DELETE /api/appointments/:id/cancel'',
      ''PUT /api/appointments/:id/modify'', ''POST /api/appointments/:id/queue'',
      ''POST /api/appointments/:id/checkin'', ''PUT /api/appointments/doctors/:id/availability'',
      ''POST /api/appointments/notifications/send'']"

fun server_info :: "time \<Rightarrow> jval \<Rightarrow> endpoint \<Rightarrow> jval" where
  "server_info t up RootInfo =
     JObj [(''message'', JStr ''Medqueue API is running!''), (''status'', JStr ''success''),
           (''timestamp'', iso_json t), (''version'', JStr ''1.0.0'')]"
| "server_info t up ApiTest =
     JObj [(''message'', JStr ''API Test Successful''),
           (''available_functions'', JArr (map JStr test_functions)),
           (''endpoints'', JArr (map JStr test_endpoints)),
           (''status'', JStr ''ready_for_development'')]"
| "server_info t up ApiHealth =
     JObj [(''status'', JStr ''healthy''), (''uptime'', up), (''timestamp'', iso_json t)]"
| "server_info t up (Api r) = JNull"

section \<open>Reading the documentation\<close>

text \<open>The function each route of \<open>src/backend/routes/appointments.js\<close> calls.\<close>

fun route_service :: "route \<Rightarrow> string" where
  "route_service BookRoute = ''bookAppointment''"
| "route_service (CancelRoute _) = ''cancelAppointment''"
| "route_service (ModifyRoute _) = ''modifyAppointment''"
| "route_service (QueueRoute _) = ''generateQueueNumber''"
| "route_service (CheckInRoute _) = ''checkInPatient''"
| "route_service (AvailabilityRoute _) = ''updateDoctorAvailability''"
| "route_service NotifyRoute = ''sendNotification''"

text \<open>A documented endpoint as a request: the method word, then the path with every
  \<open>:id\<close> segment replaced by \<open>x\<close>.\<close>

definition method_of :: "string \<Rightarrow> http_method option" where
  "method_of w =
     (if w = ''GET'' then Some GET else if w = ''POST'' then Some POST
      else if w = ''PUT'' then Some PUT else if w = ''DELETE'' then Some DELETE else None)"

definition endpoint_request :: "string \<Rightarrow> string \<Rightarrow> (http_method \<times> string) option" where
  "endpoint_request x doc =
     (case split_on CHR '' '' doc of
        [w, path] \<Rightarrow>
          (case method_of w of
             None \<Rightarrow> None
           | Some m \<Rightarrow> Some (m, join_with ''/'' (map (\<lambda>seg. if seg = '':id'' then x else seg)
                                                    (split_on CHR ''/'' path))))
      | _ \<Rightarrow> None)"

definition json_strings :: "jval \<Rightarrow> string list" where
  "json_strings j = (case j of JArr xs \<Rightarrow> map js_to_string xs | _ \<Rightarrow> [])"

definition documents :: "string \<Rightarrow> string \<Rightarrow> string \<Rightarrow> bool" where
  "documents x doc f \<longleftrightarrow>
     (case endpoint_request x doc of
        None \<Rightarrow> False
      | Some (m, url) \<Rightarrow> (case resolve m url of Some (Api r) \<Rightarrow> route_service r = f | _ \<Rightarrow> False))"

section \<open>Lemmas\<close>

lemma resolve_availability:
  assumes "plain_segment x"
  shows "resolve PUT (''/api/appointments/doctors/'' @ x @ ''/availability'') = Some (Api (AvailabilityRoute x))"
proof -
  have ps: "path_segments (''/api/appointments/doctors/'' @ x @ ''/availability'') =
          Some [''api'', ''appointments'', ''doctors'', x, ''availability'']"
    using path_segments_plain [of "[''api'', ''appointments'', ''doctors'', x, ''availability'']"] assms
    by (simp add: plain_segment_def)
  have x: "x \<noteq> []" using assms by (simp add: plain_segment_def)
  show ?thesis
    by (rule resolve_api_route [OF ps]) (simp_all add: x seg_is_def lower_ascii_def)
qed

lemma resolve_notify: "resolve POST ''/api/appointments/notifications/send'' = Some (Api NotifyRoute)"
  by (simp add: resolve_def path_segments_def seg_is_def lower_ascii_def)

lemma id_requests:
  "endpoint_request x ''DELETE /api/appointments/:id/cancel'' = Some (DELETE, ''/api/appointments/'' @ x @ ''/cancel'')"
  "endpoint_request x ''PUT /api/appointments/:id/modify'' = Some (PUT, ''/api/appointments/'' @ x @ ''/modify'')"
  "endpoint_request x ''POST /api/appointments/:id/queue'' = Some (POST, ''/api/appointments/'' @ x @ ''/queue'')"
  "endpoint_request x ''POST /api/appointments/:id/checkin'' = Some (POST, ''/api/appointments/'' @ x @ ''/checkin'')"
  "endpoint_request x ''PUT /api/appointments/doctors/:id/availability'' =
     Some (PUT, ''/api/appointments/doctors/'' @ x @ ''/availability'')"
  "endpoint_request x ''POST /api/appointments/book'' = Some (POST, ''/api/appointments/book'')"
  "endpoint_request x ''POST /api/appointments/notifications/send'' =
     Some (POST, ''/api/appointments/notifications/send'')"
  by (simp_all add: endpoint_request_def method_of_def)

lemma backend_info:
  "backend (server_info t up) e GET ''/'' body s = (Reply 200 (server_info t up RootInfo), s)"
  "backend (server_info t up) e GET ''/api/test'' body s = (Reply 200 (server_info t up ApiTest), s)"
  "backend (server_info t up) e GET ''/api/health'' body s = (Reply 200 (server_info t up ApiHealth), s)"
  by (simp_all add: backend_def resolve_def path_segments_def seg_is_def lower_ascii_def)

subsection \<open>Properties\<close>

text \<open>C33: the API description GET /api/test answers agrees with the router: its endpoint
  list and its function list have the same length, the functions are distinct, and each
  documented endpoint, with any plain identifier for its path parameter, reaches a route
  whose handler calls exactly the function listed beside it.\<close>

theorem api_test_documents_routes:
  assumes "plain_segment x"
  shows "list_all2 (documents x) (json_strings (js_get (server_info t up ApiTest) ''endpoints''))
           (json_strings (js_get (server_info t up ApiTest) ''available_functions'')) \<and>
         distinct (json_strings (js_get (server_info t up ApiTest) ''available_functions''))"
proof -
  have "documents x doc f"
    if "(doc, f) \<in> set (zip test_endpoints test_functions)" for doc f
    using that resolve_action [OF assms] resolve_availability [OF assms]
    by (auto simp: test_endpoints_def test_functions_def documents_def id_requests resolve_book resolve_notify)
  then show ?thesis
    by (simp add: json_strings_def obj_get_def test_endpoints_def test_functions_def)
qed

theorem api_test_documents_routes_witness:
  "list_all2 (documents ''APT17000000000001'') (json_strings (js_get (server_info 0 (JNum 1) ApiTest) ''endpoints''))
     (json_strings (js_get (server_info 0 (JNum 1) ApiTest) ''available_functions'')) \<and>
   distinct (json_strings (js_get (server_info 0 (JNum 1) ApiTest) ''available_functions''))"
  by (rule api_test_documents_routes) (simp add: plain_segment_def)

end
