(* ===== verification/Spec2Isabelle.thy ===== *)
theory Spec2Isabelle
  imports LivePage ServerInfo
begin

text \<open>
  \<^bold>\<open>Medqueue: a verification development of the clinic appointment service.\<close>

  The repository is an Express/Mongoose backend (\<open>src/backend\<close>) and two browser
  controllers (\<open>src/public/js/app.js\<close> with sample doctor data,
  \<open>src/public/js/somefile.js\<close> backed by the live endpoints). A request enters through
  the router \<open>src/backend/routes/appointments.js\<close>, which calls one function of the
  service \<open>src/backend/core-functions-db.js\<close>; the service reads and writes the three
  Mongoose models of \<open>src/backend/models\<close> and answers \<open>{success, message, ...}\<close>,
  which the router sends with status 201/200 or 400. The browser controller builds the
  request bodies from its form state and reacts to the answers.

  \<^bold>\<open>Theories.\<close>
  \<^item> \<open>Prelude\<close>: JSON values and JavaScript truthiness, \<open>trim\<close>, decimal printing and
    its inverse, \<open>padStart\<close>, \<open>findIndex\<close> and \<open>Math.floor(Math.random() * k)\<close> with a
    53-bit word as the random draw; generic lemmas (decimal round trip, injectivity,
    \<open>trim\<close> idempotent and trimmed at both ends, random bounds).
  \<^item> \<open>JsDate\<close>: time values as integer milliseconds, the proleptic Gregorian day count,
    \<open>getDate()\<close> in a time zone, and \<open>new Date(v)\<close> with the ISO parser (invalid dates
    are \<open>None\<close>); \<open>getDate\<close> is always 1..31; \<open>new Date(y, m, d)\<close> in a zone
    (\<open>local_time\<close>), \<open>getDay()\<close>, \<open>setHours(0,0,0,0)\<close> and
    \<open>toISOString().split('T')[0]\<close>, whose date is the UTC day of the time value. The
    two day-count algorithms are inverse (\<open>civil_days_inverse\<close>, from bounds on the
    year and day of an era proved by hand, \<open>civil_core\<close>), so the date string of
    \<open>toISOString()\<close> parses back to the same day for four-digit years. The parser is a
    strict subset of V8's: it accepts \<open>YYYY-MM-DD\<close>, optionally followed by \<open>T\<close> or a
    space and \<open>HH:MM\<close>, \<open>:SS\<close>, \<open>.sss\<close> and \<open>Z\<close> (a date alone as UTC, a date and
    time without \<open>Z\<close> as local time), the forms the controllers send. Every other
    string is \<open>None\<close>, the invalid date, although V8 accepts some of them (numeric
    offsets such as \<open>+02:00\<close>, year-only and year-month forms, expanded years, legacy
    forms such as \<open>"Jan 1 2025"\<close>). The theorems about dates are stated for values the
    parser accepts, or for the strings the controllers build, which are of these forms.
  \<^item> \<open>Models\<close>: the three schemas as records (\<open>appointment\<close>, \<open>doctor\<close> with its
    \<open>schedule_entry\<close> list, \<open>notification\<close>), the database as three maps keyed by the
    unique identifier, the schema casts, and the document operations
    \<open>insert_appointment\<close> (unique index: a duplicate key is a fault) and
    \<open>save_appointment\<close> (Mongoose \<open>save()\<close> of a loaded document: the modified paths are
    written over the current stored document and \<open>updatedAt\<close> is stamped).
  \<^item> \<open>Appointments\<close>: \<open>bookAppointment\<close>, \<open>cancelAppointment\<close>,
    \<open>modifyAppointment\<close>, \<open>generateQueueNumber\<close> and \<open>checkInPatient\<close>, each
    \<open>env \<Rightarrow> args \<Rightarrow> db \<Rightarrow> (error + payload) \<times> db\<close>, where \<open>env\<close> is the clock, the
    server's time zone and the random draw of the request; the lifecycle as an inductive
    step relation, the appointment invariant and its preservation by rule induction, the
    evolution of a stored appointment (cancellation terminal, queue number never replaced,
    check-in never undone), and the behaviour of every branch.
  \<^item> \<open>Availability\<close>: \<open>updateDoctorAvailability\<close>; the schedule list refines a map from
    date to entry (\<open>sched_map\<close>) as long as dates are distinct, which the upsert keeps.
    A body with its own key \<open>hasOwnProperty\<close> makes \<open>schedule.hasOwnProperty(field)\<close>
    throw a \<open>TypeError\<close>, reported through the catch block.
  \<^item> \<open>Notifications\<close>: \<open>sendNotification\<close>, with \<open>message.trim()\<close> failing on a
    non-string.
  \<^item> \<open>Routes\<close>: the seven routes as a datatype and \<open>dispatch\<close> as the router; every
    route answers 400 exactly when its service call failed (\<open>dispatch_status\<close>).
  \<^item> \<open>Frontend\<close>: the controller of \<open>app.js\<close> as a record of its module variables and
    the DOM state it reads back (active page, modal, loading overlay); \<open>showPage\<close>,
    \<open>goBackToPrevious\<close>, \<open>changeMonth\<close>, the selections, \<open>confirmAppointment\<close> (the
    request body) and its response handler, the doctor information modal, the doctor
    panels, the Go to pick time button text of \<open>selectDate\<close> (the selected date
    formatted by \<open>toLocaleDateString\<close> in the browser's zone), the simulated login and
    signup forms (validation and alert only, nothing stored), both page-load listeners, the
    delegated click listeners of \<open>setupEventListeners\<close>, and the simulated queue list of
    \<open>loadQueueList\<close> with its timer; user events as a datatype and runs of them.
  \<^item> \<open>Server\<close>: request routing of \<open>server.js\<close> and the mounted router
    (\<open>resolve\<close>): registration order, case-insensitive literal segments, one-segment
    parameters, query string and trailing slash ignored, Express's HTML 404 otherwise. The
    URLs the controllers build for a generated identifier reach the intended routes; the
    URLs of the live controller's login, signup, doctor list, time slots, queue list and
    search reach no handler.
  \<^item> \<open>FrontendLive\<close>: the controller of \<open>somefile.js\<close> as a \<open>session\<close> record
    (the \<open>ui\<close> state plus login state, \<open>localStorage\<close>, header, alerts, the selected
    doctor object and the rendered doctors and slots); every \<open>fetch\<close> goes through
    \<open>resolve\<close>, with the replies of served endpoints a parameter \<open>h\<close>. Login and signup
    never succeed against this backend, a browser without a stored patient ID can never
    book, the profile guard traps Back on the login page, reloads restore or drop the
    session from the storage, and the Learn more link of a doctor card throws a
    \<open>ReferenceError\<close> (\<open>js_exception\<close>, a handler's uncaught exception leaving the
    state as it was).
  \<^item> \<open>Responses\<close>: the JSON object each service result becomes (\<open>response_json\<close>,
    from the return objects of \<open>core-functions-db.js\<close>).
  \<^item> \<open>Calendar\<close>: \<open>generateCalendar\<close> of both controllers; its three \<open>for\<close> loops
    are \<open>while_option\<close> loops, proved to terminate, to build at most 42 cells, and to equal
    a reference grid built by \<open>map\<close>; a cell of day \<open>d\<close> carries the UTC date of local
    midnight, a booking made from it east of UTC is read by the server as the day
    before, in whatever zone the server runs, and the button text names the day before in
    every zone but UTC. The heading \<open>months[currentMonth]\<close> (\<open>calendar_heading\<close>)
    always names a month: no event sequence of either controller takes the month index out
    of 0..11 (System).
  \<^item> \<open>System\<close>: the page of \<open>app.js\<close> and the server together. \<open>backend\<close> serves a
    \<open>fetch\<close>: \<open>resolve\<close>, then \<open>dispatch\<close> on the database and \<open>response_json\<close>
    for the body. The booking reply handler, the appointment search (its placeholder,
    one-second timer and \<open>displayAppointments\<close>), the cards with their Cancel, Modify
    and Check In buttons (the \<open>confirm()\<close>/\<open>prompt()\<close> answers are event
    arguments) read the JSON as the code does. \<open>sys_step\<close> is one event of the page
    and \<open>sys_run\<close> a sequence of them. The handler on JSON refines the handler on the
    service result; Cancel and Check In on a card do what the page then reports. The page record
    \<open>system\<close> is extended by each controller (\<open>sample_page\<close> here); the card and
    button handlers are stated over every extension.
  \<^item> \<open>LivePage\<close>: the appointment and queue pages of \<open>somefile.js\<close> (\<open>live_page\<close>,
    an extension of \<open>system\<close>): \<open>searchAppointments\<close>, \<open>displayAppointments\<close> and
    \<open>loadQueueList\<close> request the server; the card buttons are the shared handlers.
    Against this server every search and queue load fails, so the page never shows a card
    and never writes to the database.
  \<^item> \<open>ServerInfo\<close>: the three informational handlers of \<open>server.js\<close> (\<open>GET /\<close>,
    \<open>/api/test\<close>, \<open>/api/health\<close>) as constant JSON replies stamped with the request
    time; the endpoint list of \<open>/api/test\<close> reaches, route by route, the handler calling
    the function listed beside it.
  \<^item> This theory: requests that cross components, from the browser form through the router
    to the stored appointment, and the scenario of the specification through the router.

  \<^bold>\<open>What the modelling shows.\<close> Most of the specification holds of the code
  (lifecycle invariant, cancellation terminal, queue numbers assigned once, idempotent queue
  generation, check-in keeping the generated number, the example scenario). Beyond it:
  identifiers of timestamps of different length can collide; check-in and rescheduling are
  allowed on a cancelled appointment; a numeric schedule date duplicates entries; a numeric
  notification message takes the generic error path; the queue number carries the day it
  was generated, not the appointment's day; the live controller uses endpoints the server
  does not serve, so it can neither log in nor book, and its profile guard traps Back on
  the login page; a calendar cell east of UTC carries the previous day's date, so the
  booking is stored one day early, and in every zone but UTC the confirmation text names
  the previous day; the live controller's Learn more link throws (\<open>sampleDoctors\<close> is
  never declared in \<open>somefile.js\<close>); the simulated queue numbers concatenate digits and
  often miss the documented format; the appointment search shows two hard-coded appointments
  for every patient ID and, when two searches overlap, keeps the first one's cards; a schedule
  body with its own \<open>hasOwnProperty\<close> key is refused by a \<open>TypeError\<close>. Except for the
  Learn more link, these are stated by theorems of the component theories.

  \<^bold>\<open>Environment and bounds.\<close> No loop of the modelled code can run forever: the
  iterations over lists (\<open>findIndex\<close>, the digit printer, the parser) are structural
  recursion, and the three counting loops of \<open>generateCalendar\<close> are
  \<open>while_option\<close> loops proved to return \<open>Some\<close> for every input, so no fuel is
  needed. \<open>Date.now()\<close>, the time zone and
  \<open>Math.random()\<close> are inputs of each request (\<open>env\<close>), so every theorem holds for every
  clock, zone and draw. Numbers are unbounded integers: the identifiers print
  \<open>Date.now()\<close> exactly, which for the range of \<open>Date\<close> (at most 8.64e15) is an integer
  below 2^53, so no floating-point rounding occurs in the modelled arithmetic.

  \<^bold>\<open>Not modelled.\<close> In \<open>src/backend/server.js\<close> the database connection, the CORS
  and JSON middleware and listening (I/O only; the informational replies are modelled); HTML
  rendering and CSS classes of the controllers, and the HTML page itself (not in the
  repository: every page element the controllers look up is taken to exist, and each
  controller is loaded alone); console logging; \<open>loadDoctors\<close> and
  \<open>createDoctorCard\<close> of \<open>app.js\<close>, which nothing calls (its doctor cards are in the
  HTML page); the reply of the follow-up queue request after a booking, which is only
  logged. The functions \<open>somefile.js\<close> copies verbatim from \<open>app.js\<close> (the calendar,
  \<open>changeMonth\<close>, \<open>selectDate\<close>, \<open>selectTimeSlot\<close>, the doctor panels,
  \<open>createAppointmentCard\<close> and the card handlers) are modelled once, by the
  definitions named after the \<open>app.js\<close> code, and used by both controllers; V8's era notation for years before 1 in
  \<open>toLocaleDateString\<close>; the page reloads \<open>app.js\<close> schedules after a successful action; the
  asynchrony of \<open>fetch\<close> (an awaited request
  and its reply are one step); the exact texts of the
  exceptions Mongoose and V8 raise (stood in for by \<open>fault\<close> values and short messages);
  concurrent requests (each request is one atomic step here, so the read-then-write race
  the specification accepts is not represented); the network failure branch of
  \<open>fetch\<close>; the \<open>loadQueueList()\<close> call of \<open>showPage('queue')\<close> (\<open>app.js\<close>
  214-216: \<open>showPage\<close> here only navigates, and the simulated queue list is the one
  drawn at page load, so a later visit to the queue page shows that list instead of fresh
  draws); \<open>trim\<close> removes the six ASCII white-space characters only, not the no-break space and the other
  Unicode space separators and line terminators JavaScript also strips (no theorem depends
  on a non-ASCII input). The login and signup handlers of \<open>somefile.js\<close>, whose
  endpoints are never served, store what \<open>localStorage.setItem\<close> stores for a missing
  field, the string \<open>"undefined"\<close>.
\<close>

section \<open>Lemmas on the sample requests\<close>

lemma sample_local_date: "js_date 0 (JStr ''2999-01-01T09:00:00'') = Some 32472176400000"
  by code_simp

lemma sample_appt_day: "getDate 0 32472176400000 = 1"
  by code_simp

lemma sample_confirm:
  "confirmAppointment ''P1'' sample_ui = (sample_ui\<lparr>loading := True\<rparr>,
     Some (JObj [(''patientId'', JStr ''P1''), (''doctorId'', JStr ''DOC001''),
                 (''dateTime'', JStr ''2999-01-01T09:00:00'')]))"
  by (simp add: confirmAppointment_def trim_P1 sample_ui_def sampleDoctors_def)

lemma sample_dispatch_book:
  "fst (dispatch sample_env BookRoute (JObj [(''patientId'', JStr ''P1''), (''doctorId'', JStr ''DOC001''),
                 (''dateTime'', JStr ''2999-01-01T09:00:00'')]) empty_db) =
   (201, BookResult (Inr (new_appointment sample_env ''APT17000000000001'' ''P1'' ''DOC001'' 32472176400000)))"
  by (simp add: split_def bookAppointment_def Let_def insert_appointment_def obj_get_def respond_def
      sample_env_def sample_local_date sample_appointment_id empty_db_def)

lemma fst_eq_obtain: "fst p = r \<Longrightarrow> \<exists>s'. p = (r, s')"
  by (cases p) simp

lemma sample_dispatch_book_utc:
  "fst (dispatch sample_env BookRoute (JObj [(''patientId'', JStr ''P1''), (''doctorId'', JStr ''D1''),
                 (''dateTime'', JStr ''2999-01-01T09:00:00Z'')]) empty_db) =
   (201, BookResult (Inr (new_appointment sample_env ''APT17000000000001'' ''P1'' ''D1'' 32472176400000)))"
  by (simp add: split_def bookAppointment_def Let_def insert_appointment_def obj_get_def respond_def
      sample_env_def sample_future_date sample_appointment_id empty_db_def)

section \<open>Requests across components\<close>

text \<open>C24: a booking made from the browser form (src/public/js/app.js, confirmAppointment)
  is answered 201 by the router and stores the patient ID as trimmed in the form, the selected
  doctor's ID and the local date-time the form composed; the response handler then requests
  the queue number for exactly that appointment and resets the form and the history; that
  request is answered 200 and stores a queue number whose day is the day of the request,
  read in the server's time zone, not the day of the appointment.\<close>

theorem booking_flow:
  assumes conf: "confirmAppointment input u = (u1, Some body)"
    and book: "dispatch e BookRoute body s = ((c, BookResult (Inr a)), s1)"
    and resp: "confirm_response (BookResult (Inr a)) u1 = (u2, rt)"
  shows "c = 201 \<and> rt = Some (QueueRoute (appointmentId a)) \<and>
    patientId a = trim input \<and> (\<exists>d. selectedDoctor u = Some d \<and> doctorId a = card_doctorId d) \<and>
    js_date (tz e) (JStr (selectedDate u @ ''T'' @ selectedTime u @ '':00'')) = Some (dateTime a) \<and>
    navigationHistory u2 = [''home''] \<and> selectedDoctor u2 = None \<and>
    dispatch e' (QueueRoute (appointmentId a)) JNull s1 =
      ((200, QueueResult (Inr (QueueGenerated
          (queue_number (getDate (tz e') (now e')) (queue_suffix (rnd e'))) (now e')))),
       s1\<lparr>appointments := (appointments s1)(appointmentId a \<mapsto>
          a\<lparr>queueNumber := Some (queue_number (getDate (tz e') (now e')) (queue_suffix (rnd e'))),
            updatedAt := now e'\<rparr>)\<rparr>)"
proof -
  obtain d where d: "selectedDoctor u = Some d" and u1: "u1 = u\<lparr>loading := True\<rparr>"
    and b: "body = JObj [(''patientId'', JStr (trim input)), (''doctorId'', JStr (card_doctorId d)),
                  (''dateTime'', JStr (selectedDate u @ ''T'' @ selectedTime u @ '':00''))]"
    using confirmAppointment_Some [OF conf] by blast
  from dispatch_book_Inr [OF book] have c: "c = 201"
    and bk: "bookAppointment e (JStr (trim input)) (JStr (card_doctorId d))
               (JStr (selectedDate u @ ''T'' @ selectedTime u @ '':00'')) s = (Inr a, s1)"
    by (simp_all add: b obj_get_def)
  from book_Inr [OF bk] obtain p dd t where
    a: "a = new_appointment e (generateAppointmentId (now e) (rnd e)) p dd t"
    and p: "cast_required_string ''patientId'' (JStr (trim input)) = Inr p"
    and dd: "cast_required_string ''doctorId'' (JStr (card_doctorId d)) = Inr dd"
    and t: "js_date (tz e) (JStr (selectedDate u @ ''T'' @ selectedTime u @ '':00'')) = Some t"
    and s1: "s1 = s\<lparr>appointments := (appointments s)(appointmentId a \<mapsto> a)\<rparr>"
    by blast
  have fields: "patientId a = trim input" "doctorId a = card_doctorId d" "dateTime a = t"
    "queueNumber a = None" "appointmentId a \<noteq> []"
    using a p dd by (auto simp: new_appointment_def split: if_splits)
  have stored: "appointments s1 (appointmentId a) = Some a" by (simp add: s1)
  have q: "dispatch e' (QueueRoute (appointmentId a)) JNull s1 =
      ((200, QueueResult (Inr (QueueGenerated
          (queue_number (getDate (tz e') (now e')) (queue_suffix (rnd e'))) (now e')))),
       s1\<lparr>appointments := (appointments s1)(appointmentId a \<mapsto>
          a\<lparr>queueNumber := Some (queue_number (getDate (tz e') (now e')) (queue_suffix (rnd e'))),
            updatedAt := now e'\<rparr>)\<rparr>)"
    by (simp add: generateQueueNumber_fresh [OF fields(5) stored fields(4)] respond_def)
  have r: "navigationHistory u2 = [''home'']" "selectedDoctor u2 = None"
    "rt = Some (QueueRoute (appointmentId a))"
    using resp by (auto simp: confirm_response_booked resetBookingForm_def showModal_def)
  show ?thesis using c d t fields q r by simp
qed

theorem booking_flow_witness:
  "\<exists>s1. dispatch sample_env BookRoute (JObj [(''patientId'', JStr ''P1''), (''doctorId'', JStr ''DOC001''),
                 (''dateTime'', JStr ''2999-01-01T09:00:00'')]) empty_db =
     ((201, BookResult (Inr (new_appointment sample_env ''APT17000000000001'' ''P1'' ''DOC001'' 32472176400000))), s1) \<and>
   fst (dispatch sample_env (QueueRoute ''APT17000000000001'') JNull s1) =
     (200, QueueResult (Inr (QueueGenerated ''Q1401'' 1700000000000))) \<and>
   getDate (tz sample_env) 32472176400000 = 1"
proof -
  obtain s1 where book: "dispatch sample_env BookRoute (JObj [(''patientId'', JStr ''P1''), (''doctorId'', JStr ''DOC001''),
                 (''dateTime'', JStr ''2999-01-01T09:00:00'')]) empty_db =
     ((201, BookResult (Inr (new_appointment sample_env ''APT17000000000001'' ''P1'' ''DOC001'' 32472176400000))), s1)"
    using fst_eq_obtain [OF sample_dispatch_book] by blast
  have resp: "confirm_response (BookResult (Inr (new_appointment sample_env ''APT17000000000001'' ''P1'' ''DOC001'' 32472176400000)))
      (sample_ui\<lparr>loading := True\<rparr>) =
    (fst (confirm_response (BookResult (Inr (new_appointment sample_env ''APT17000000000001'' ''P1'' ''DOC001'' 32472176400000)))
      (sample_ui\<lparr>loading := True\<rparr>)),
     snd (confirm_response (BookResult (Inr (new_appointment sample_env ''APT17000000000001'' ''P1'' ''DOC001'' 32472176400000)))
      (sample_ui\<lparr>loading := True\<rparr>)))"
    by simp
  have q: "fst (dispatch sample_env (QueueRoute ''APT17000000000001'') JNull s1) =
     (200, QueueResult (Inr (QueueGenerated ''Q1401'' 1700000000000)))"
    using booking_flow [OF sample_confirm book resp, of sample_env]
    by (simp add: new_appointment_def sample_env_def sample_getDate sample_queue_suffix queue_number_def
        pad_start_def nat_str.simps)
  show ?thesis using book q by (simp add: sample_env_def sample_appt_day)
qed

text \<open>C3: the example scenario of the specification through the HTTP router: a successful
  booking (201, status confirmed, no queue number), then the queue request (200, a queue
  number of the form Q and four digits), then check-in (200, the same queue number), then a
  second check-in (400, "Patient is already checked in", nothing written).\<close>

theorem spec_scenario:
  assumes book: "dispatch e1 BookRoute body s = ((c1, BookResult (Inr a)), s1)"
    and queue: "dispatch e2 (QueueRoute (appointmentId a)) JNull s1 = ((c2, QueueResult r2), s2)"
    and checkin: "dispatch e3 (CheckInRoute (appointmentId a)) JNull s2 = ((c3, CheckInResult r3), s3)"
  shows "c1 = 201 \<and> status a = Confirmed \<and> queueNumber a = None \<and> c2 = 200 \<and> c3 = 200 \<and>
    (\<exists>q. r2 = Inr (QueueGenerated q (now e2)) \<and> queue_format q \<and>
         r3 = Inr (appointmentId a, q, now e3)) \<and>
    dispatch e4 (CheckInRoute (appointmentId a)) JNull s3 =
      ((400, CheckInResult (Inl (Conflict ''Patient is already checked in''))), s3)"
proof -
  from dispatch_book_Inr [OF book] have c1: "c1 = 201"
    and bk: "bookAppointment e1 (js_get body ''patientId'') (js_get body ''doctorId'')
               (js_get body ''dateTime'') s = (Inr a, s1)" by simp_all
  from book_Inr [OF bk] obtain p d t where
    a: "a = new_appointment e1 (generateAppointmentId (now e1) (rnd e1)) p d t"
    and s1: "s1 = s\<lparr>appointments := (appointments s)(appointmentId a \<mapsto> a)\<rparr>"
    by blast
  let ?q = "queue_number (getDate (tz e2) (now e2)) (queue_suffix (rnd e2))"
  let ?a2 = "a\<lparr>queueNumber := Some ?q, updatedAt := now e2\<rparr>"
  have fresh: "appointmentId a \<noteq> []" "queueNumber a = None" "status a = Confirmed" "\<not> checkedIn a"
    using a by (simp_all add: new_appointment_def)
  have gen: "generateQueueNumber e2 (appointmentId a) s1 =
      (Inr (QueueGenerated ?q (now e2)), s1\<lparr>appointments := (appointments s1)(appointmentId a \<mapsto> ?a2)\<rparr>)"
    by (rule generateQueueNumber_fresh) (simp_all add: s1 fresh)
  then have c2: "c2 = 200" and r2: "r2 = Inr (QueueGenerated ?q (now e2))"
    and s2: "s2 = s1\<lparr>appointments := (appointments s1)(appointmentId a \<mapsto> ?a2)\<rparr>"
    using queue by (simp_all add: respond_def)
  have ci: "fst (checkInPatient e3 (appointmentId a) s2) = Inr (appointmentId a, ?q, now e3)"
    by (rule checkIn_queued [where a = ?a2]) (simp_all add: s2 fresh)
  obtain r3' s3' where p3: "checkInPatient e3 (appointmentId a) s2 = (r3', s3')"
    by (cases "checkInPatient e3 (appointmentId a) s2")
  with ci have r3': "r3' = Inr (appointmentId a, ?q, now e3)" by simp
  with checkin p3 have c3: "c3 = 200" and r3: "r3 = r3'" and s3: "s3' = s3"
    by (simp_all add: respond_def)
  from p3 r3 s3 have s3: "checkInPatient e3 (appointmentId a) s2 = (r3, s3)" by simp
  obtain a3 where a3: "appointments s3 (appointmentId a) = Some a3" "checkedIn a3"
    using checkIn_Inr_checked [of e3 "appointmentId a" s2 "(appointmentId a, ?q, now e3)" s3] s3 r3 r3' by blast
  have again: "dispatch e4 (CheckInRoute (appointmentId a)) JNull s3 =
      ((400, CheckInResult (Inl (Conflict ''Patient is already checked in''))), s3)"
    by (simp add: checkIn_again [OF fresh(1) a3] respond_def)
  show ?thesis
    using c1 c2 c3 r2 r3 r3' fresh again generated_queue_format [of "tz e2" "now e2" "rnd e2"] by simp
qed

theorem spec_scenario_witness:
  "\<exists>s1 s2 s3 r2 r3.
     dispatch sample_env BookRoute (JObj [(''patientId'', JStr ''P1''), (''doctorId'', JStr ''D1''),
                 (''dateTime'', JStr ''2999-01-01T09:00:00Z'')]) empty_db =
       ((201, BookResult (Inr (new_appointment sample_env ''APT17000000000001'' ''P1'' ''D1'' 32472176400000))), s1) \<and>
     dispatch sample_env (QueueRoute ''APT17000000000001'') JNull s1 = ((200, QueueResult r2), s2) \<and>
     dispatch sample_env (CheckInRoute ''APT17000000000001'') JNull s2 = ((200, CheckInResult r3), s3) \<and>
     (\<exists>q. r2 = Inr (QueueGenerated q 1700000000000) \<and> queue_format q \<and>
          r3 = Inr (''APT17000000000001'', q, 1700000000000)) \<and>
     dispatch sample_env (CheckInRoute ''APT17000000000001'') JNull s3 =
       ((400, CheckInResult (Inl (Conflict ''Patient is already checked in''))), s3)"
proof -
  obtain s1 where book: "dispatch sample_env BookRoute (JObj [(''patientId'', JStr ''P1''), (''doctorId'', JStr ''D1''),
                 (''dateTime'', JStr ''2999-01-01T09:00:00Z'')]) empty_db =
       ((201, BookResult (Inr (new_appointment sample_env ''APT17000000000001'' ''P1'' ''D1'' 32472176400000))), s1)"
    using fst_eq_obtain [OF sample_dispatch_book_utc] by blast
  obtain c2 r2 s2 where queue:
    "dispatch sample_env (QueueRoute ''APT17000000000001'') JNull s1 = ((c2, QueueResult r2), s2)"
    using dispatch_queue_shape by blast
  obtain c3 r3 s3 where checkin:
    "dispatch sample_env (CheckInRoute ''APT17000000000001'') JNull s2 = ((c3, CheckInResult r3), s3)"
    using dispatch_checkIn_shape by blast
  have "c2 = 200 \<and> c3 = 200 \<and>
    (\<exists>q. r2 = Inr (QueueGenerated q (now sample_env)) \<and> queue_format q \<and>
         r3 = Inr (''APT17000000000001'', q, now sample_env)) \<and>
    dispatch sample_env (CheckInRoute ''APT17000000000001'') JNull s3 =
      ((400, CheckInResult (Inl (Conflict ''Patient is already checked in''))), s3)"
  proof -
    have queue': "dispatch sample_env (QueueRoute (appointmentId (new_appointment sample_env
        ''APT17000000000001'' ''P1'' ''D1'' 32472176400000))) JNull s1 = ((c2, QueueResult r2), s2)"
      using queue by (simp add: new_appointment_def)
    have checkin': "dispatch sample_env (CheckInRoute (appointmentId (new_appointment sample_env
        ''APT17000000000001'' ''P1'' ''D1'' 32472176400000))) JNull s2 = ((c3, CheckInResult r3), s3)"
      using checkin by (simp add: new_appointment_def)
    show ?thesis
      using spec_scenario [OF book queue' checkin', of sample_env] by (simp add: new_appointment_def)
  qed
  then show ?thesis using book queue checkin by (auto simp: sample_env_def)
qed

end
